theory Spec2Isabelle
  imports Main
begin

section \<open>Go library functions used by the builders\<close>

text \<open>
  A Go string is modelled as a \<open>string\<close>, one \<open>char\<close> per byte; Go strings hold UTF-8.
  The functions of the packages \<open>strings\<close>, \<open>strconv\<close> and \<open>fmt\<close> that the builders call
  are written out here, except for three parts of the library that depend on the Unicode
  tables or on the whole grammar of format strings. These three are parameters of the
  model, and the theorems hold whatever they return:
  \<^item> \<open>unicodeToLower\<close> is \<open>strings.Map(unicode.ToLower, s)\<close>, which \<open>strings.ToLower\<close>
    returns for a string with a byte outside ASCII;
  \<^item> \<open>unicodeToTitle\<close> is \<open>strings.Map(unicode.ToTitle, s)\<close>, which \<open>strings.ToTitle\<close>
    returns for such a string;
  \<^item> \<open>sprintfOther\<close> is \<open>fmt.Sprintf(format)\<close>, called with no operand, for a format in
    which some \<open>%\<close> is followed by a flag, a width, a precision, an argument index or a
    byte outside ASCII.
\<close>

record go_lib =
  unicodeToLower :: "string \<Rightarrow> string"
  unicodeToTitle :: "string \<Rightarrow> string"
  sprintfOther :: "string \<Rightarrow> string"

text \<open>A string of bytes below \<open>utf8.RuneSelf\<close>, which is \<open>0x80\<close>: bit 7 of every byte is clear.\<close>

definition isASCII :: "string \<Rightarrow> bool" where
  "isASCII s = list_all (\<lambda>c. \<not> digit7 c) s"

definition lower_char :: "char \<Rightarrow> char" where
  "lower_char c =
     (case map_of (zip ''ABCDEFGHIJKLMNOPQRSTUVWXYZ'' ''abcdefghijklmnopqrstuvwxyz'') c of
        None \<Rightarrow> c
      | Some l \<Rightarrow> l)"

definition upper_char :: "char \<Rightarrow> char" where
  "upper_char c =
     (case map_of (zip ''abcdefghijklmnopqrstuvwxyz'' ''ABCDEFGHIJKLMNOPQRSTUVWXYZ'') c of
        None \<Rightarrow> c
      | Some u \<Rightarrow> u)"

text \<open>
  \<open>strings.ToLower\<close> and \<open>strings.ToTitle\<close>: on an ASCII string the letters \<open>A\<close> to \<open>Z\<close>
  (\<open>a\<close> to \<open>z\<close>) are mapped and every other byte is kept; any other string is mapped rune
  by rune through the Unicode tables.
\<close>

definition ToLower :: "'a go_lib_scheme \<Rightarrow> string \<Rightarrow> string" where
  "ToLower lib s = (if isASCII s then map lower_char s else unicodeToLower lib s)"

definition ToTitle :: "'a go_lib_scheme \<Rightarrow> string \<Rightarrow> string" where
  "ToTitle lib s = (if isASCII s then map upper_char s else unicodeToTitle lib s)"

fun HasPrefix :: "string \<Rightarrow> string \<Rightarrow> bool" where
  "HasPrefix s [] = True"
| "HasPrefix [] (p # ps) = False"
| "HasPrefix (c # cs) (p # ps) = (c = p \<and> HasPrefix cs ps)"

fun Contains :: "string \<Rightarrow> string \<Rightarrow> bool" where
  "Contains [] sub = (sub = [])"
| "Contains (c # cs) sub = (HasPrefix (c # cs) sub \<or> Contains cs sub)"

text \<open>\<open>strings.Split(s, sep)\<close> for a separator of one byte: \<open>n\<close> separators give \<open>n + 1\<close> pieces.\<close>

fun Split :: "string \<Rightarrow> char \<Rightarrow> string list" where
  "Split [] sep = [[]]"
| "Split (c # cs) sep =
     (if c = sep then [] # Split cs sep
      else (case Split cs sep of [] \<Rightarrow> [[c]] | p # ps \<Rightarrow> (c # p) # ps))"

fun Join :: "string list \<Rightarrow> string \<Rightarrow> string" where
  "Join [] sep = []"
| "Join [a] sep = a"
| "Join (a # b # rest) sep = a @ sep @ Join (b # rest) sep"

definition digit_char :: "nat \<Rightarrow> char" where
  "digit_char d = ''0123456789'' ! d"

fun nat_digits :: "nat \<Rightarrow> string" where
  "nat_digits n =
     (if n < 10 then [digit_char n] else nat_digits (n div 10) @ [digit_char (n mod 10)])"

declare nat_digits.simps [simp del]

text \<open>The verb \<open>%d\<close> of \<open>fmt.Sprintf\<close> on an \<open>int64\<close>.\<close>

definition Sprintf_d :: "int \<Rightarrow> string" where
  "Sprintf_d i = (if i < 0 then CHR ''-'' # nat_digits (nat (- i)) else nat_digits (nat i))"

datatype NumError = ErrSyntax | ErrRange

definition is_digit :: "char \<Rightarrow> bool" where
  "is_digit c = (c \<in> set ''0123456789'')"

definition digit_val :: "char \<Rightarrow> int" where
  "digit_val c =
     (case map_of (zip ''0123456789'' [0, 1, 2, 3, 4, 5, 6, 7, 8, 9]) c of
        None \<Rightarrow> 0
      | Some d \<Rightarrow> d)"

definition digits_val :: "string \<Rightarrow> int" where
  "digits_val s = foldl (\<lambda>acc c. 10 * acc + digit_val c) 0 s"

text \<open>
  \<open>strconv.ParseInt(s, 10, 64)\<close>: an optional sign, then one or more decimal digits; a
  value outside the range of \<open>int64\<close> is the error \<open>ErrRange\<close>.
\<close>

definition ParseInt :: "string \<Rightarrow> NumError + int" where
  "ParseInt s =
     (if s = [] then Inl ErrSyntax
      else
        let neg = (hd s = CHR ''-'');
            ds = (if hd s = CHR ''+'' \<or> hd s = CHR ''-'' then tl s else s)
        in if ds = [] \<or> \<not> list_all is_digit ds then Inl ErrSyntax
           else
             let un = digits_val ds
             in if \<not> neg \<and> un \<ge> 2 ^ 63 then Inl ErrRange
                else if neg \<and> un > 2 ^ 63 then Inl ErrRange
                else Inr (if neg then - un else un))"

text \<open>
  A panic of the Go runtime is a value. \<open>s[:1]\<close> panics on the empty string, and \<open>*p\<close>
  panics on a nil pointer.
\<close>

datatype panic = SliceBoundsOutOfRange | NilPointerDereference

definition slice_to_1 :: "string \<Rightarrow> panic + string" where
  "slice_to_1 s = (case s of [] \<Rightarrow> Inl SliceBoundsOutOfRange | c # _ \<Rightarrow> Inr [c])"

text \<open>Indexing a Go \<open>map[string]string\<close>: a missing key gives the empty string.\<close>

definition map_index :: "(string \<rightharpoonup> string) \<Rightarrow> string \<Rightarrow> string" where
  "map_index m k = (case m k of None \<Rightarrow> [] | Some v \<Rightarrow> v)"

text \<open>
  \<open>fmt.Sprintf(format)\<close> with no operand. Bytes other than \<open>%\<close> are copied; \<open>%%\<close> prints
  \<open>%\<close>; a \<open>%\<close> followed by another verb finds no operand for it and prints \<open>%!v(MISSING)\<close>,
  where \<open>v\<close> is the verb; a \<open>%\<close> that ends the format prints \<open>%!(NOVERB)\<close>. A verb is plain
  when it is an ASCII byte that is no flag (\<open>#\<close>, \<open>0\<close>, \<open>+\<close>, \<open>-\<close>, space), and starts no
  argument index (\<open>[\<close>), width or precision (\<open>*\<close>, \<open>.\<close>, a digit).
\<close>

definition plain_verb :: "char \<Rightarrow> bool" where
  "plain_verb c = (\<not> digit7 c \<and> c \<notin> set ''#0+- [*.123456789'')"

fun sprintf_plain :: "string \<Rightarrow> string option" where
  "sprintf_plain [] = Some []"
| "sprintf_plain [c] = (if c = CHR ''%'' then Some ''%!(NOVERB)'' else Some [c])"
| "sprintf_plain (c # v # rest) =
     (if c \<noteq> CHR ''%'' then map_option ((#) c) (sprintf_plain (v # rest))
      else if v = CHR ''%'' then map_option ((#) CHR ''%'') (sprintf_plain rest)
      else if plain_verb v
      then map_option (\<lambda>t. ''%!'' @ [v] @ ''(MISSING)'' @ t) (sprintf_plain rest)
      else None)"

definition Sprintf_no_operands :: "'a go_lib_scheme \<Rightarrow> string \<Rightarrow> string" where
  "Sprintf_no_operands lib format =
     (case sprintf_plain format of
        None \<Rightarrow> sprintfOther lib format
      | Some s \<Rightarrow> s)"

text \<open>
  A line written by \<open>log.Warnf(format, operands)\<close>: the text that
  \<open>fmt.Sprintf(format, operands)\<close> returns. Functions that log return the lines with their
  result.
\<close>

datatype log_entry = Warnf string

section \<open>The schema types the builders construct\<close>

text \<open>
  The declarations of package \<open>schema\<close> are outside the given sources; the records hold
  the fields that the composite literals of the builders set. A pointer is an \<open>option\<close>
  (\<open>strPtr\<close> and \<open>decimalPtr\<close> give \<open>Some\<close>). Every \<open>decimal.Decimal\<close> of the builders
  is made by \<open>decimal.NewFromInt\<close> and \<open>Sub\<close>, which are exact, so a decimal is an \<open>int\<close>.
\<close>

record AttributeFilter =
  Key :: string
  Value :: "string option"
  ValueRegex :: "string option"

record ProductFilter =
  VendorName :: "string option"
  Region :: "string option"
  Service :: "string option"
  ProductFamily :: "string option"
  AttributeFilters :: "AttributeFilter list"

record PriceFilter =
  PurchaseOption :: "string option"

record CostComponent =
  Name :: string
  Unit :: string
  UnitMultiplier :: int
  HourlyQuantity :: "int option"
  MonthlyQuantity :: "int option"
  ProductFilter :: "ProductFilter option"
  PriceFilter :: "PriceFilter option"

datatype UsageVariableType = Int64 | Float64 | StringVal

record 'v UsageItem =
  Key :: string
  DefaultValue :: 'v
  ValueType :: UsageVariableType

record Resource =
  Name :: string
  UsageSchema :: "int UsageItem list"
  CostComponents :: "CostComponent list"

text \<open>
  The attribute node a builder reads (\<open>schema.ResourceData\<close>). The node is read through
  typed getters of an external JSON library; each field holds what the getters of
  \<open>NewAzureRMMSSQLDatabase\<close> return on the node:
  \<^item> \<open>sku_name\<close>, \<open>max_size_gb\<close>: \<open>None\<close> when the attribute's type is \<open>Null\<close> (absent or
    null), else its \<open>String()\<close>, its \<open>Int()\<close>;
  \<^item> \<open>read_replica_count\<close>, \<open>license_type\<close>: \<open>None\<close> when the attribute does not exist,
    else its \<open>Int()\<close>, its \<open>String()\<close>;
  \<^item> \<open>zone_redundant\<close>: its \<open>Bool()\<close>;
  \<^item> \<open>lookupRegion\<close>: the result of \<open>lookupRegion(d, []string{"server_id"})\<close>, a function
    outside the given sources.
\<close>

record ResourceData =
  Address :: string
  sku_name :: "string option"
  max_size_gb :: "int option"
  read_replica_count :: "int option"
  license_type :: "string option"
  zone_redundant :: bool
  lookupRegion :: string

text \<open>The usage data of one resource: usage key to value.\<close>

type_synonym 'v UsageData = "string \<rightharpoonup> 'v"

text \<open>
  Package-level declarations of package \<open>azure\<close> that the given sources use and do not
  declare: they are parameters of the model, beside the three of the library.
\<close>

record azure_pkg = go_lib +
  vendorName :: string
  priceFilterConsumption :: "PriceFilter option"

definition sqlServiceName :: string where
  "sqlServiceName = ''SQL Database''"

definition sqlProductFamily :: string where
  "sqlProductFamily = ''Databases''"

definition sqlServerlessTier :: string where
  "sqlServerlessTier = ''general purpose - serverless''"

definition sqlHyperscaleTier :: string where
  "sqlHyperscaleTier = ''hyperscale''"

definition tierMapping :: "string \<rightharpoonup> string" where
  "tierMapping = [''p'' \<mapsto> ''Premium'', ''s'' \<mapsto> ''Standard'']"

section \<open>The resource types\<close>

text \<open>
  \<open>MSSQLDatabase\<close> is the resource type of \<open>internal/resources/azure/mssql_database.go\<close>,
  \<open>SQLDatabase\<close> the one of the source file that declares \<open>type SQLDatabase\<close>. They differ in the type of
  \<open>Cores\<close>, a pointer in \<open>SQLDatabase\<close>. The fields carry the same names in both; where a
  field is written without its record's name it is the field of \<open>MSSQLDatabase\<close>.
\<close>

record SQLDatabase =
  Address :: string
  Region :: string
  SKU :: string
  LicenceType :: string
  Tier :: string
  Family :: string
  Cores :: "int option"
  MaxSizeGB :: "int option"
  ReadReplicaCount :: "int option"
  ZoneRedundant :: bool
  ExtraDataStorageGB :: "int option"
  MonthlyVCoreHours :: "int option"
  LongTermRetentionStorageGB :: "int option"

record MSSQLDatabase =
  Address :: string
  Region :: string
  SKU :: string
  LicenceType :: string
  Tier :: string
  Family :: string
  Cores :: int
  MaxSizeGB :: "int option"
  ReadReplicaCount :: "int option"
  ZoneRedundant :: bool
  ExtraDataStorageGB :: "int option"
  MonthlyVCoreHours :: "int option"
  LongTermRetentionStorageGB :: "int option"

section \<open>internal/resources/azure/mssql\_database.go\<close>

definition consumption :: "PriceFilter option" where
  "consumption = Some \<lparr> PurchaseOption = Some ''Consumption'' \<rparr>"

definition sqlProductFilter :: "azure_pkg \<Rightarrow> string \<Rightarrow> AttributeFilter list \<Rightarrow> ProductFilter option" where
  "sqlProductFilter env region filters =
     Some \<lparr> VendorName = Some (vendorName env),
            ProductFilter.Region = Some region,
            Service = Some sqlServiceName,
            ProductFamily = Some sqlProductFamily,
            AttributeFilters = filters \<rparr>"

definition mssqlSkuName :: "MSSQLDatabase \<Rightarrow> int \<Rightarrow> string" where
  "mssqlSkuName r cores =
     (let sku = Sprintf_d cores @ '' vCore''
      in if ZoneRedundant r then sku @ '' Zone Redundancy'' else sku)"

definition provisionedComputeName :: "string \<Rightarrow> string" where
  "provisionedComputeName sku = ''Compute (provisioned, '' @ sku @ '')''"

definition serverlessComputeName :: "string \<Rightarrow> string" where
  "serverlessComputeName sku = ''Compute (serverless, '' @ sku @ '')''"

definition multipleProductsWarning :: "string \<Rightarrow> log_entry" where
  "multipleProductsWarning name =
     Warnf ([CHR 0x27] @ ''Multiple products found'' @ [CHR 0x27] @ '' are safe to ignore for ''
            @ [CHR 0x27] @ name @ [CHR 0x27] @ '' due to limitations in the Azure API.'')"

definition provisionedComputeCostComponent ::
    "azure_pkg \<Rightarrow> MSSQLDatabase \<Rightarrow> log_entry list \<times> CostComponent" where
  "provisionedComputeCostComponent env r =
     (let skuName = mssqlSkuName r (Cores r);
          productNameRegex = ''/'' @ Tier r @ '' - '' @ Family r @ ''/'';
          name = provisionedComputeName (SKU r)
      in ([multipleProductsWarning name],
          \<lparr> CostComponent.Name = name,
            Unit = ''hours'',
            UnitMultiplier = 1,
            HourlyQuantity = Some 1,
            MonthlyQuantity = None,
            ProductFilter = sqlProductFilter env (MSSQLDatabase.Region r)
              [\<lparr> AttributeFilter.Key = ''productName'', Value = None, ValueRegex = Some productNameRegex \<rparr>,
               \<lparr> AttributeFilter.Key = ''skuName'', Value = Some skuName, ValueRegex = None \<rparr>],
            PriceFilter = consumption \<rparr>))"

definition readReplicaCostComponent :: "azure_pkg \<Rightarrow> MSSQLDatabase \<Rightarrow> CostComponent" where
  "readReplicaCostComponent env r =
     (let productNameRegex = ''/'' @ Tier r @ '' - '' @ Family r @ ''/'';
          skuName = mssqlSkuName r (Cores r);
          replicaCount = (case ReadReplicaCount r of None \<Rightarrow> None | Some n \<Rightarrow> Some n)
      in \<lparr> CostComponent.Name = ''Read replicas'',
           Unit = ''hours'',
           UnitMultiplier = 1,
           HourlyQuantity = replicaCount,
           MonthlyQuantity = None,
           ProductFilter = sqlProductFilter env (MSSQLDatabase.Region r)
             [\<lparr> AttributeFilter.Key = ''productName'', Value = None, ValueRegex = Some productNameRegex \<rparr>,
              \<lparr> AttributeFilter.Key = ''skuName'', Value = Some skuName, ValueRegex = None \<rparr>],
           PriceFilter = consumption \<rparr>)"

definition serverlessComputeHoursCostComponent :: "azure_pkg \<Rightarrow> MSSQLDatabase \<Rightarrow> CostComponent" where
  "serverlessComputeHoursCostComponent env r =
     (let productNameRegex = ''/'' @ Tier r @ '' - '' @ Family r @ ''/'';
          vCoreHours = (case MonthlyVCoreHours r of None \<Rightarrow> None | Some h \<Rightarrow> Some h);
          serverlessSkuName = mssqlSkuName r 1
      in \<lparr> CostComponent.Name = serverlessComputeName (SKU r),
           Unit = ''vCore-hours'',
           UnitMultiplier = 1,
           HourlyQuantity = None,
           MonthlyQuantity = vCoreHours,
           ProductFilter = sqlProductFilter env (MSSQLDatabase.Region r)
             [\<lparr> AttributeFilter.Key = ''productName'', Value = None, ValueRegex = Some productNameRegex \<rparr>,
              \<lparr> AttributeFilter.Key = ''skuName'', Value = Some serverlessSkuName, ValueRegex = None \<rparr>],
           PriceFilter = consumption \<rparr>)"

definition licenseRegionOf :: "string \<Rightarrow> string" where
  "licenseRegionOf region =
     (let licenseRegion = ''Global'';
          licenseRegion = (if Contains region ''usgov'' then ''US Gov'' else licenseRegion);
          licenseRegion = (if Contains region ''china'' then ''China'' else licenseRegion);
          licenseRegion = (if Contains region ''germany'' then ''Germany'' else licenseRegion)
      in licenseRegion)"

definition sqlLicenseCostComponent :: "azure_pkg \<Rightarrow> MSSQLDatabase \<Rightarrow> CostComponent" where
  "sqlLicenseCostComponent env r =
     \<lparr> CostComponent.Name = ''SQL license'',
       Unit = ''vCore-hours'',
       UnitMultiplier = 1,
       HourlyQuantity = Some (Cores r),
       MonthlyQuantity = None,
       ProductFilter = sqlProductFilter env (licenseRegionOf (MSSQLDatabase.Region r))
         [\<lparr> AttributeFilter.Key = ''productName'', Value = None,
            ValueRegex = Some (''/'' @ Tier r @ '' - '' @ ''SQL License'' @ ''/'') \<rparr>],
       PriceFilter = consumption \<rparr>"

definition mssqlStorageComponent :: "azure_pkg \<Rightarrow> MSSQLDatabase \<Rightarrow> CostComponent" where
  "mssqlStorageComponent env r =
     (let storageGB = (case MaxSizeGB r of None \<Rightarrow> Some 5 | Some m \<Rightarrow> Some m);
          storageTier = (if ToLower env (Tier r) = ''general purpose - serverless''
                         then ''General Purpose'' else Tier r);
          skuName = (if ZoneRedundant r then storageTier @ '' Zone Redundancy'' else storageTier);
          productNameRegex = ''/'' @ storageTier @ '' - Storage/''
      in \<lparr> CostComponent.Name = ''Storage'',
           Unit = ''GB'',
           UnitMultiplier = 1,
           HourlyQuantity = None,
           MonthlyQuantity = storageGB,
           ProductFilter = sqlProductFilter env (MSSQLDatabase.Region r)
             [\<lparr> AttributeFilter.Key = ''productName'', Value = None, ValueRegex = Some productNameRegex \<rparr>,
              \<lparr> AttributeFilter.Key = ''skuName'', Value = Some skuName, ValueRegex = None \<rparr>,
              \<lparr> AttributeFilter.Key = ''meterName'', Value = None, ValueRegex = Some ''/^Data Stored/'' \<rparr>],
           PriceFilter = None \<rparr>)"

definition longTermRetentionMSSQLCostComponent :: "azure_pkg \<Rightarrow> MSSQLDatabase \<Rightarrow> CostComponent" where
  "longTermRetentionMSSQLCostComponent env r =
     (let retention = (case LongTermRetentionStorageGB r of None \<Rightarrow> None | Some g \<Rightarrow> Some g)
      in \<lparr> CostComponent.Name = ''Long-term retention'',
           Unit = ''GB'',
           UnitMultiplier = 1,
           HourlyQuantity = None,
           MonthlyQuantity = retention,
           ProductFilter = sqlProductFilter env (MSSQLDatabase.Region r)
             [\<lparr> AttributeFilter.Key = ''productName'', Value = Some ''SQL Database - LTR Backup Storage'', ValueRegex = None \<rparr>,
              \<lparr> AttributeFilter.Key = ''skuName'', Value = Some ''Backup RA-GRS'', ValueRegex = None \<rparr>,
              \<lparr> AttributeFilter.Key = ''meterName'', Value = Some ''RA-GRS Data Stored'', ValueRegex = None \<rparr>],
           PriceFilter = consumption \<rparr>)"

definition vCorePurchaseCostComponents ::
    "azure_pkg \<Rightarrow> MSSQLDatabase \<Rightarrow> log_entry list \<times> CostComponent list" where
  "vCorePurchaseCostComponents env r =
     (let (lg, costComponents) =
            (if ToLower env (Tier r) = sqlServerlessTier
             then ([], [serverlessComputeHoursCostComponent env r])
             else (fst (provisionedComputeCostComponent env r),
                   [snd (provisionedComputeCostComponent env r)]));
          costComponents =
            (if ToLower env (Tier r) = sqlHyperscaleTier
             then costComponents @ [readReplicaCostComponent env r] else costComponents);
          costComponents =
            (if ToLower env (Tier r) \<noteq> sqlServerlessTier
             then (if ToLower env (LicenceType r) = ''licenseincluded''
                   then costComponents @ [sqlLicenseCostComponent env r] else costComponents)
             else costComponents);
          costComponents = costComponents @ [mssqlStorageComponent env r];
          costComponents =
            (if ToLower env (Tier r) \<noteq> sqlHyperscaleTier
             then costComponents @ [longTermRetentionMSSQLCostComponent env r] else costComponents)
      in (lg, costComponents))"

definition extraDataStorageGB ::
    "azure_pkg \<Rightarrow> string \<Rightarrow> int option \<Rightarrow> int option \<Rightarrow> int option" where
  "extraDataStorageGB env sn maxSizeGB extra =
     (let storageGB =
            (case maxSizeGB of
               None \<Rightarrow> None
             | Some m \<Rightarrow>
                 (let d = (if ToLower env sn = ''premium'' then m - 500 else m - 250)
                  in if d < 0 then None else Some d))
      in case extra of None \<Rightarrow> storageGB | Some e \<Rightarrow> Some e)"

definition extraDataStorageComponent ::
    "azure_pkg \<Rightarrow> string \<Rightarrow> string \<Rightarrow> int option \<Rightarrow> PriceFilter option \<Rightarrow> CostComponent" where
  "extraDataStorageComponent env region sn storageGB pf =
     \<lparr> CostComponent.Name = ''Extra data storage'',
       Unit = ''GB'',
       UnitMultiplier = 1,
       HourlyQuantity = None,
       MonthlyQuantity = storageGB,
       ProductFilter = sqlProductFilter env region
         [\<lparr> AttributeFilter.Key = ''productName'', Value = None,
            ValueRegex = Some (''/SQL Database '' @ sn @ '' - Storage/i'') \<rparr>,
          \<lparr> AttributeFilter.Key = ''skuName'', Value = None, ValueRegex = Some (''/^'' @ sn @ ''$/i'') \<rparr>,
          \<lparr> AttributeFilter.Key = ''meterName'', Value = Some ''Data Stored'', ValueRegex = None \<rparr>],
       PriceFilter = pf \<rparr>"

definition dtuComputeComponent ::
    "azure_pkg \<Rightarrow> string \<Rightarrow> string \<Rightarrow> string \<Rightarrow> PriceFilter option \<Rightarrow> CostComponent" where
  "dtuComputeComponent env region sku skuName pf =
     \<lparr> CostComponent.Name = ''Compute ('' @ ToTitle env sku @ '')'',
       Unit = ''days'',
       UnitMultiplier = 1,
       HourlyQuantity = None,
       MonthlyQuantity = Some 30,
       ProductFilter = sqlProductFilter env region
         [\<lparr> AttributeFilter.Key = ''productName'', Value = None,
            ValueRegex = Some ''/^SQL Database Single/i'' \<rparr>,
          \<lparr> AttributeFilter.Key = ''skuName'', Value = None, ValueRegex = Some (''/^'' @ skuName @ ''$/i'') \<rparr>],
       PriceFilter = pf \<rparr>"

definition dtuPurchaseCostComponents ::
    "azure_pkg \<Rightarrow> MSSQLDatabase \<Rightarrow> panic + CostComponent list" where
  "dtuPurchaseCostComponents env r =
     (let skuName = (if ToLower env (SKU r) = ''basic'' then ''b'' else ToLower env (SKU r));
          costComponents = [dtuComputeComponent env (MSSQLDatabase.Region r) (SKU r) skuName consumption]
      in if skuName \<noteq> ''b'' then
           (case slice_to_1 skuName of
              Inl p \<Rightarrow> Inl p
            | Inr k \<Rightarrow>
                (let sn = map_index tierMapping k;
                     storageGB = extraDataStorageGB env sn (MaxSizeGB r) (ExtraDataStorageGB r)
                 in Inr (costComponents
                         @ [extraDataStorageComponent env (MSSQLDatabase.Region r) sn storageGB consumption]
                         @ [longTermRetentionMSSQLCostComponent env r])))
         else Inr (costComponents @ [longTermRetentionMSSQLCostComponent env r]))"

definition mssqlUsageSchema :: "int UsageItem list" where
  "mssqlUsageSchema =
     [\<lparr> UsageItem.Key = ''extra_data_storage_gb'', DefaultValue = 0, ValueType = Int64 \<rparr>,
      \<lparr> UsageItem.Key = ''monthly_vcore_hours'', DefaultValue = 0, ValueType = Int64 \<rparr>,
      \<lparr> UsageItem.Key = ''long_term_retention_storage_gb'', DefaultValue = 0, ValueType = Int64 \<rparr>]"

definition BuildResource ::
    "azure_pkg \<Rightarrow> MSSQLDatabase \<Rightarrow> log_entry list \<times> (panic + Resource)" where
  "BuildResource env r =
     (let sku = ToLower env (SKU r);
          (lg, res) =
            (if sku = ''basic'' \<or> HasPrefix sku ''s'' \<or> HasPrefix sku ''p''
             then ([], dtuPurchaseCostComponents env r)
             else (fst (vCorePurchaseCostComponents env r), Inr (snd (vCorePurchaseCostComponents env r))))
      in case res of
           Inl p \<Rightarrow> (lg, Inl p)
         | Inr costComponents \<Rightarrow>
             (lg, Inr \<lparr> Resource.Name = Address r,
                       UsageSchema = mssqlUsageSchema,
                       CostComponents = costComponents \<rparr>))"

section \<open>The source file of \<open>SQLDatabase\<close>\<close>

text \<open>
  The methods of \<open>SQLDatabase\<close> carry the names of the methods of \<open>MSSQLDatabase\<close>; here
  they have the suffix \<open>_SQLDatabase\<close>. \<open>*r.Cores\<close> panics when \<open>Cores\<close> is nil.
\<close>

definition deref :: "'a option \<Rightarrow> panic + 'a" where
  "deref p = (case p of None \<Rightarrow> Inl NilPointerDereference | Some v \<Rightarrow> Inr v)"

definition productFilter_SQLDatabase ::
    "azure_pkg \<Rightarrow> SQLDatabase \<Rightarrow> AttributeFilter list \<Rightarrow> ProductFilter option" where
  "productFilter_SQLDatabase env r filters =
     Some \<lparr> VendorName = Some (vendorName env),
            ProductFilter.Region = Some (SQLDatabase.Region r),
            Service = Some sqlServiceName,
            ProductFamily = Some sqlProductFamily,
            AttributeFilters = filters \<rparr>"

definition mssqlSkuName_SQLDatabase :: "SQLDatabase \<Rightarrow> int \<Rightarrow> string" where
  "mssqlSkuName_SQLDatabase r n =
     (let sku = Sprintf_d n @ '' vCore''
      in if SQLDatabase.ZoneRedundant r then sku @ '' Zone Redundancy'' else sku)"

definition provisionedComputeCostComponent_SQLDatabase ::
    "azure_pkg \<Rightarrow> SQLDatabase \<Rightarrow> panic + log_entry list \<times> CostComponent" where
  "provisionedComputeCostComponent_SQLDatabase env r =
     (case deref (SQLDatabase.Cores r) of
        Inl p \<Rightarrow> Inl p
      | Inr n \<Rightarrow>
          (let skuName = mssqlSkuName_SQLDatabase r n;
               productNameRegex = ''/'' @ SQLDatabase.Tier r @ '' - '' @ SQLDatabase.Family r @ ''/'';
               name = provisionedComputeName (SQLDatabase.SKU r)
           in Inr ([multipleProductsWarning name],
                   \<lparr> CostComponent.Name = name,
                     Unit = ''hours'',
                     UnitMultiplier = 1,
                     HourlyQuantity = Some 1,
                     MonthlyQuantity = None,
                     ProductFilter = productFilter_SQLDatabase env r
                       [\<lparr> AttributeFilter.Key = ''productName'', Value = None, ValueRegex = Some productNameRegex \<rparr>,
                        \<lparr> AttributeFilter.Key = ''skuName'', Value = Some skuName, ValueRegex = None \<rparr>],
                     PriceFilter = priceFilterConsumption env \<rparr>)))"

definition readReplicaCostComponent_SQLDatabase ::
    "azure_pkg \<Rightarrow> SQLDatabase \<Rightarrow> panic + CostComponent" where
  "readReplicaCostComponent_SQLDatabase env r =
     (let productNameRegex = ''/'' @ SQLDatabase.Tier r @ '' - '' @ SQLDatabase.Family r @ ''/''
      in case deref (SQLDatabase.Cores r) of
           Inl p \<Rightarrow> Inl p
         | Inr n \<Rightarrow>
             (let skuName = mssqlSkuName_SQLDatabase r n;
                  replicaCount = (case SQLDatabase.ReadReplicaCount r of None \<Rightarrow> None | Some k \<Rightarrow> Some k)
              in Inr \<lparr> CostComponent.Name = ''Read replicas'',
                       Unit = ''hours'',
                       UnitMultiplier = 1,
                       HourlyQuantity = replicaCount,
                       MonthlyQuantity = None,
                       ProductFilter = productFilter_SQLDatabase env r
                         [\<lparr> AttributeFilter.Key = ''productName'', Value = None, ValueRegex = Some productNameRegex \<rparr>,
                          \<lparr> AttributeFilter.Key = ''skuName'', Value = Some skuName, ValueRegex = None \<rparr>],
                       PriceFilter = priceFilterConsumption env \<rparr>))"

definition serverlessComputeHoursCostComponent_SQLDatabase ::
    "azure_pkg \<Rightarrow> SQLDatabase \<Rightarrow> CostComponent" where
  "serverlessComputeHoursCostComponent_SQLDatabase env r =
     (let productNameRegex = ''/'' @ SQLDatabase.Tier r @ '' - '' @ SQLDatabase.Family r @ ''/'';
          vCoreHours = (case SQLDatabase.MonthlyVCoreHours r of None \<Rightarrow> None | Some h \<Rightarrow> Some h);
          serverlessSkuName = mssqlSkuName_SQLDatabase r 1
      in \<lparr> CostComponent.Name = serverlessComputeName (SQLDatabase.SKU r),
           Unit = ''vCore-hours'',
           UnitMultiplier = 1,
           HourlyQuantity = None,
           MonthlyQuantity = vCoreHours,
           ProductFilter = productFilter_SQLDatabase env r
             [\<lparr> AttributeFilter.Key = ''productName'', Value = None, ValueRegex = Some productNameRegex \<rparr>,
              \<lparr> AttributeFilter.Key = ''skuName'', Value = Some serverlessSkuName, ValueRegex = None \<rparr>],
           PriceFilter = priceFilterConsumption env \<rparr>)"

definition sqlLicenseCostComponent_SQLDatabase ::
    "azure_pkg \<Rightarrow> SQLDatabase \<Rightarrow> panic + CostComponent" where
  "sqlLicenseCostComponent_SQLDatabase env r =
     (let licenseRegion = licenseRegionOf (SQLDatabase.Region r)
      in case deref (SQLDatabase.Cores r) of
           Inl p \<Rightarrow> Inl p
         | Inr n \<Rightarrow>
             Inr \<lparr> CostComponent.Name = ''SQL license'',
                   Unit = ''vCore-hours'',
                   UnitMultiplier = 1,
                   HourlyQuantity = Some n,
                   MonthlyQuantity = None,
                   ProductFilter = sqlProductFilter env licenseRegion
                     [\<lparr> AttributeFilter.Key = ''productName'', Value = None,
                        ValueRegex = Some (''/'' @ SQLDatabase.Tier r @ '' - '' @ ''SQL License'' @ ''/'') \<rparr>],
                   PriceFilter = priceFilterConsumption env \<rparr>)"

definition mssqlStorageComponent_SQLDatabase :: "azure_pkg \<Rightarrow> SQLDatabase \<Rightarrow> CostComponent" where
  "mssqlStorageComponent_SQLDatabase env r =
     (let storageGB = (case SQLDatabase.MaxSizeGB r of None \<Rightarrow> Some 5 | Some m \<Rightarrow> Some m);
          storageTier = (if ToLower env (SQLDatabase.Tier r) = ''general purpose - serverless''
                         then ''General Purpose'' else SQLDatabase.Tier r);
          skuName = (if SQLDatabase.ZoneRedundant r then storageTier @ '' Zone Redundancy'' else storageTier);
          productNameRegex = ''/'' @ storageTier @ '' - Storage/''
      in \<lparr> CostComponent.Name = ''Storage'',
           Unit = ''GB'',
           UnitMultiplier = 1,
           HourlyQuantity = None,
           MonthlyQuantity = storageGB,
           ProductFilter = productFilter_SQLDatabase env r
             [\<lparr> AttributeFilter.Key = ''productName'', Value = None, ValueRegex = Some productNameRegex \<rparr>,
              \<lparr> AttributeFilter.Key = ''skuName'', Value = Some skuName, ValueRegex = None \<rparr>,
              \<lparr> AttributeFilter.Key = ''meterName'', Value = None, ValueRegex = Some ''/^Data Stored/'' \<rparr>],
           PriceFilter = None \<rparr>)"

definition longTermRetentionMSSQLCostComponent_SQLDatabase ::
    "azure_pkg \<Rightarrow> SQLDatabase \<Rightarrow> CostComponent" where
  "longTermRetentionMSSQLCostComponent_SQLDatabase env r =
     (let retention = (case SQLDatabase.LongTermRetentionStorageGB r of None \<Rightarrow> None | Some g \<Rightarrow> Some g)
      in \<lparr> CostComponent.Name = ''Long-term retention'',
           Unit = ''GB'',
           UnitMultiplier = 1,
           HourlyQuantity = None,
           MonthlyQuantity = retention,
           ProductFilter = productFilter_SQLDatabase env r
             [\<lparr> AttributeFilter.Key = ''productName'', Value = Some ''SQL Database - LTR Backup Storage'', ValueRegex = None \<rparr>,
              \<lparr> AttributeFilter.Key = ''skuName'', Value = Some ''Backup RA-GRS'', ValueRegex = None \<rparr>,
              \<lparr> AttributeFilter.Key = ''meterName'', Value = Some ''RA-GRS Data Stored'', ValueRegex = None \<rparr>],
           PriceFilter = priceFilterConsumption env \<rparr>)"

text \<open>\<open>append(costComponents, c)\<close> where building \<open>c\<close> may panic.\<close>

definition append_component ::
    "panic + CostComponent list \<Rightarrow> panic + CostComponent \<Rightarrow> panic + CostComponent list" where
  "append_component acc c =
     (case acc of
        Inl p \<Rightarrow> Inl p
      | Inr cs \<Rightarrow> (case c of Inl p \<Rightarrow> Inl p | Inr x \<Rightarrow> Inr (cs @ [x])))"

definition vCorePurchaseCostComponents_SQLDatabase ::
    "azure_pkg \<Rightarrow> SQLDatabase \<Rightarrow> log_entry list \<times> (panic + CostComponent list)" where
  "vCorePurchaseCostComponents_SQLDatabase env r =
     (let first =
            (if ToLower env (SQLDatabase.Tier r) = sqlServerlessTier
             then Inr ([], serverlessComputeHoursCostComponent_SQLDatabase env r)
             else provisionedComputeCostComponent_SQLDatabase env r)
      in case first of
           Inl p \<Rightarrow> ([], Inl p)
         | Inr (lg, c) \<Rightarrow>
             (let costComponents = Inr [c];
                  costComponents =
                    (if ToLower env (SQLDatabase.Tier r) = sqlHyperscaleTier
                     then append_component costComponents (readReplicaCostComponent_SQLDatabase env r)
                     else costComponents);
                  costComponents =
                    (if ToLower env (SQLDatabase.Tier r) \<noteq> sqlServerlessTier
                        \<and> ToLower env (SQLDatabase.LicenceType r) = ''licenseincluded''
                     then append_component costComponents (sqlLicenseCostComponent_SQLDatabase env r)
                     else costComponents);
                  costComponents =
                    append_component costComponents (Inr (mssqlStorageComponent_SQLDatabase env r));
                  costComponents =
                    (if ToLower env (SQLDatabase.Tier r) \<noteq> sqlHyperscaleTier
                     then append_component costComponents
                            (Inr (longTermRetentionMSSQLCostComponent_SQLDatabase env r))
                     else costComponents)
              in (lg, costComponents)))"

definition extraDataStorageCostComponent_SQLDatabase ::
    "azure_pkg \<Rightarrow> SQLDatabase \<Rightarrow> panic + CostComponent" where
  "extraDataStorageCostComponent_SQLDatabase env r =
     (case slice_to_1 (ToLower env (SQLDatabase.SKU r)) of
        Inl p \<Rightarrow> Inl p
      | Inr k \<Rightarrow>
          (let sn = map_index tierMapping k;
               storageGB = extraDataStorageGB env sn (SQLDatabase.MaxSizeGB r) (SQLDatabase.ExtraDataStorageGB r)
           in Inr (extraDataStorageComponent env (SQLDatabase.Region r) sn storageGB
                     (priceFilterConsumption env))))"

definition dtuPurchaseCostComponents_SQLDatabase ::
    "azure_pkg \<Rightarrow> SQLDatabase \<Rightarrow> panic + CostComponent list" where
  "dtuPurchaseCostComponents_SQLDatabase env r =
     (let skuName = (if ToLower env (SQLDatabase.SKU r) = ''basic'' then ''b'' else ToLower env (SQLDatabase.SKU r));
          costComponents =
            Inr [dtuComputeComponent env (SQLDatabase.Region r) (SQLDatabase.SKU r) skuName
                   (priceFilterConsumption env)];
          costComponents =
            (if skuName \<noteq> ''b''
             then append_component costComponents (extraDataStorageCostComponent_SQLDatabase env r)
             else costComponents)
      in append_component costComponents (Inr (longTermRetentionMSSQLCostComponent_SQLDatabase env r)))"

definition costComponents_SQLDatabase ::
    "azure_pkg \<Rightarrow> SQLDatabase \<Rightarrow> log_entry list \<times> (panic + CostComponent list)" where
  "costComponents_SQLDatabase env r =
     (if SQLDatabase.Cores r \<noteq> None then vCorePurchaseCostComponents_SQLDatabase env r
      else ([], dtuPurchaseCostComponents_SQLDatabase env r))"

definition BuildResource_SQLDatabase ::
    "azure_pkg \<Rightarrow> SQLDatabase \<Rightarrow> log_entry list \<times> (panic + Resource)" where
  "BuildResource_SQLDatabase env r =
     (case costComponents_SQLDatabase env r of
        (lg, Inl p) \<Rightarrow> (lg, Inl p)
      | (lg, Inr cs) \<Rightarrow>
          (lg, Inr \<lparr> Resource.Name = SQLDatabase.Address r,
                    UsageSchema = mssqlUsageSchema,
                    CostComponents = cs \<rparr>))"

section \<open>The source file of \<open>NewAzureRMMSSQLDatabase\<close>\<close>

record skuConfig =
  tier :: string
  family :: string
  cores :: int

text \<open>A Go \<open>error\<close> made by \<open>fmt.Errorf\<close>, with its message.\<close>

datatype error = Errorf string

definition error_message :: "error \<Rightarrow> string" where
  "error_message e = (case e of Errorf m \<Rightarrow> m)"

definition tierOfKey :: "string \<rightharpoonup> string" where
  "tierOfKey =
     [''GP'' \<mapsto> ''General Purpose'',
      ''GP_S'' \<mapsto> ''General Purpose - Serverless'',
      ''HS'' \<mapsto> ''Hyperscale'',
      ''BC'' \<mapsto> ''Business Critical'']"

definition familyOfKey :: "string \<rightharpoonup> string" where
  "familyOfKey =
     [''Gen5'' \<mapsto> ''Compute Gen5'',
      ''Gen4'' \<mapsto> ''Compute Gen4'',
      ''M'' \<mapsto> ''Compute M Series'']"

definition parseMSSQLSku :: "string \<Rightarrow> string \<Rightarrow> error + skuConfig" where
  "parseMSSQLSku address sku =
     (let s = Split sku CHR ''_''
      in if length s < 3
         then Inl (Errorf (''Unrecognized MSSQL SKU format for resource '' @ address @ '': '' @ sku))
         else
           (let tierKey = Join (take (length s - 2) s) ''_''
            in case tierOfKey tierKey of
                 None \<Rightarrow> Inl (Errorf (''Invalid tier in MSSQL SKU for resource '' @ address @ '': '' @ sku))
               | Some t \<Rightarrow>
                   (let familyKey = s ! (length s - 2)
                    in case familyOfKey familyKey of
                         None \<Rightarrow>
                           Inl (Errorf (''Invalid family in MSSQL SKU for resource '' @ address @ '': '' @ sku))
                       | Some f \<Rightarrow>
                           (case ParseInt (s ! (length s - 1)) of
                              Inl err \<Rightarrow>
                                Inl (Errorf (''Invalid core count in MSSQL SKU for resource ''
                                             @ address @ '': '' @ sku))
                            | Inr n \<Rightarrow> Inr \<lparr> tier = t, family = f, cores = n \<rparr>))))"

text \<open>
  Modelled from the spec: the value that the usage data of a resource holds under a key,
  read by \<open>resources.PopulateArgsWithUsage\<close>, a function outside the given sources; nil
  when the usage data is nil or lacks the key.
\<close>

definition usage_int :: "int UsageData option \<Rightarrow> string \<Rightarrow> int option" where
  "usage_int u k = (case u of None \<Rightarrow> None | Some m \<Rightarrow> m k)"

text \<open>
  Modelled from the spec: \<open>resources.PopulateArgsWithUsage\<close>, which \<open>PopulateUsage\<close> calls,
  is outside the given sources. The resource's fields are populated from usage: each field
  tagged \<open>infracost_usage:"key"\<close> takes the value the usage data holds under that key; a
  field whose key the usage data does not hold, and every field when there is no usage
  data, is left nil.
\<close>

definition PopulateUsage :: "MSSQLDatabase \<Rightarrow> int UsageData option \<Rightarrow> MSSQLDatabase" where
  "PopulateUsage r u =
     r\<lparr> ExtraDataStorageGB := usage_int u ''extra_data_storage_gb'',
        MonthlyVCoreHours := usage_int u ''monthly_vcore_hours'',
        LongTermRetentionStorageGB := usage_int u ''long_term_retention_storage_gb'' \<rparr>"

definition NewAzureRMMSSQLDatabase ::
    "azure_pkg \<Rightarrow> ResourceData \<Rightarrow> int UsageData option
       \<Rightarrow> log_entry list \<times> (panic + Resource option)" where
  "NewAzureRMMSSQLDatabase env d u =
     (let region = lookupRegion d;
          sku = (case sku_name d of None \<Rightarrow> [] | Some s \<Rightarrow> s);
          maxSize = max_size_gb d;
          replicaCount = read_replica_count d;
          licenceType = (case license_type d of None \<Rightarrow> ''LicenseIncluded'' | Some s \<Rightarrow> s);
          skuLower = ToLower env sku;
          r = \<lparr> Address = ResourceData.Address d,
                Region = region,
                SKU = sku,
                LicenceType = licenceType,
                Tier = [],
                Family = [],
                Cores = 0,
                MaxSizeGB = maxSize,
                ReadReplicaCount = replicaCount,
                ZoneRedundant = zone_redundant d,
                ExtraDataStorageGB = None,
                MonthlyVCoreHours = None,
                LongTermRetentionStorageGB = None \<rparr>;
          build = (\<lambda>r. case BuildResource env (PopulateUsage r u) of
                          (lg, Inl p) \<Rightarrow> (lg, Inl p)
                        | (lg, Inr res) \<Rightarrow> (lg, Inr (Some res)))
      in if skuLower \<noteq> ''basic'' \<and> \<not> HasPrefix skuLower ''s'' \<and> \<not> HasPrefix skuLower ''p''
         then
           (case parseMSSQLSku (ResourceData.Address d) sku of
              Inl err \<Rightarrow> ([Warnf (Sprintf_no_operands env (error_message err))], Inr None)
            | Inr c \<Rightarrow> build (r\<lparr> Tier := tier c, Family := family c, Cores := cores c \<rparr>))
         else build r)"

text \<open>What a run of a builder leaves: the components of the resource, if one was built.\<close>

definition builtComponents ::
    "log_entry list \<times> (panic + Resource option) \<Rightarrow> CostComponent list option" where
  "builtComponents out =
     (case snd out of
        Inl p \<Rightarrow> None
      | Inr None \<Rightarrow> None
      | Inr (Some res) \<Rightarrow> Some (CostComponents res))"

definition resourceComponents ::
    "log_entry list \<times> (panic + Resource) \<Rightarrow> CostComponent list option" where
  "resourceComponents out =
     (case snd out of Inl p \<Rightarrow> None | Inr res \<Rightarrow> Some (CostComponents res))"

text \<open>The usage schema of the resource, if one was built.\<close>

definition builtSchema ::
    "log_entry list \<times> (panic + Resource option) \<Rightarrow> int UsageItem list option" where
  "builtSchema out =
     (case snd out of
        Inl p \<Rightarrow> None
      | Inr None \<Rightarrow> None
      | Inr (Some res) \<Rightarrow> Some (UsageSchema res))"

text \<open>The purchase model \<open>BuildResource\<close> selects, as the condition is written there.\<close>

definition dtuPurchase :: "azure_pkg \<Rightarrow> string \<Rightarrow> bool" where
  "dtuPurchase env sku =
     (ToLower env sku = ''basic'' \<or> HasPrefix (ToLower env sku) ''s'' \<or> HasPrefix (ToLower env sku) ''p'')"

text \<open>
  The resource on which \<open>NewAzureRMMSSQLDatabase\<close> calls \<open>BuildResource\<close>: the fields read
  from the node, the tier, family and cores of the parsed SKU if the SKU was parsed, and
  the usage populated.
\<close>

definition populatedMSSQLDatabase ::
    "ResourceData \<Rightarrow> skuConfig option \<Rightarrow> int UsageData option \<Rightarrow> MSSQLDatabase" where
  "populatedMSSQLDatabase d c u =
     PopulateUsage
       \<lparr> Address = ResourceData.Address d,
         Region = lookupRegion d,
         SKU = (case sku_name d of None \<Rightarrow> [] | Some s \<Rightarrow> s),
         LicenceType = (case license_type d of None \<Rightarrow> ''LicenseIncluded'' | Some s \<Rightarrow> s),
         Tier = (case c of None \<Rightarrow> [] | Some k \<Rightarrow> tier k),
         Family = (case c of None \<Rightarrow> [] | Some k \<Rightarrow> family k),
         Cores = (case c of None \<Rightarrow> 0 | Some k \<Rightarrow> cores k),
         MaxSizeGB = max_size_gb d,
         ReadReplicaCount = read_replica_count d,
         ZoneRedundant = zone_redundant d,
         ExtraDataStorageGB = None,
         MonthlyVCoreHours = None,
         LongTermRetentionStorageGB = None \<rparr>
       u"

definition nodeSku :: "ResourceData \<Rightarrow> string" where
  "nodeSku d = (case sku_name d of None \<Rightarrow> [] | Some s \<Rightarrow> s)"

section \<open>The SKU format in words\<close>

text \<open>
  A SKU of the vCore purchase model reads \<open>tier_family_cores\<close>, separated by underscores: the
  tier key is one of \<open>GP\<close>, \<open>GP_S\<close>, \<open>HS\<close>, \<open>BC\<close>, the family one of \<open>Gen5\<close>, \<open>Gen4\<close>, \<open>M\<close>,
  and the final segment is an integer: an optional sign and one or more decimal digits.
\<close>

definition integer_literal :: "string \<Rightarrow> bool" where
  "integer_literal s =
     (case s of
        [] \<Rightarrow> False
      | c # cs \<Rightarrow>
          if c = CHR ''+'' \<or> c = CHR ''-'' then cs \<noteq> [] \<and> list_all is_digit cs
          else list_all is_digit (c # cs))"

definition sku_tier_family_cores :: "string \<Rightarrow> bool" where
  "sku_tier_family_cores sku =
     list_ex (\<lambda>t. list_ex (\<lambda>f.
         HasPrefix sku (t @ ''_'' @ f @ ''_'')
         \<and> integer_literal (drop (length (t @ ''_'' @ f @ ''_'')) sku))
       [''Gen5'', ''Gen4'', ''M''])
     [''GP'', ''GP_S'', ''HS'', ''BC'']"

section \<open>The Usage Schema Engine\<close>

text \<open>
  Modelled from the spec: the Usage Schema Engine is outside the given sources (only a
  golden usage file of its tests is there). A usage specification maps a resource address
  pattern to usage data; a pattern \<open>base[*]\<close> stands for every index of \<open>base\<close>. Given a
  usage specification and a resource address, the engine produces a value for each key of
  the resource's declared usage schema, with this precedence: the entry of the exact
  address, then the entry of the wildcard address \<open>base[*]\<close>, then the declared default. A
  key that the schema does not declare has no value.
\<close>

type_synonym 'v UsageSpec = "string \<rightharpoonup> 'v UsageData"

text \<open>
  Modelled from the spec: the wildcard key \<open>base[*]\<close> of an address with an index suffix,
  \<open>base[N]\<close> or \<open>base["key"]\<close>; an address without index suffix has none. The Usage Schema
  Engine, which computes it, is outside the given sources.
\<close>

definition wildcardAddress :: "string \<Rightarrow> string option" where
  "wildcardAddress address =
     (case rev address of
        [] \<Rightarrow> None
      | c # rest \<Rightarrow>
          if c = CHR '']'' \<and> CHR ''['' \<in> set rest
          then Some (rev (tl (dropWhile (\<lambda>x. x \<noteq> CHR ''['') rest)) @ ''[*]'')
          else None)"

text \<open>The address \<open>base[idx]\<close>.\<close>

definition indexed :: "string \<Rightarrow> string \<Rightarrow> string" where
  "indexed base idx = base @ ''['' @ idx @ '']''"

text \<open>
  Modelled from the spec: the value a usage specification holds for a key under an address
  pattern, as the Usage Schema Engine (outside the given sources) looks it up.
\<close>

definition specValue :: "'v UsageSpec \<Rightarrow> string \<Rightarrow> string \<Rightarrow> 'v option" where
  "specValue spec pattern key = (case spec pattern of None \<Rightarrow> None | Some m \<Rightarrow> m key)"

text \<open>
  Modelled from the spec: the entry of a usage schema that declares a key, as the Usage
  Schema Engine (outside the given sources) looks it up.
\<close>

fun findItem :: "'v UsageItem list \<Rightarrow> string \<Rightarrow> 'v UsageItem option" where
  "findItem [] key = None"
| "findItem (item # items) key = (if UsageItem.Key item = key then Some item else findItem items key)"

text \<open>
  Modelled from the spec: the resolution of one usage key by the Usage Schema Engine, which
  is outside the given sources: exact address, then wildcard address, then declared
  default; no value for a key that the schema does not declare.
\<close>

definition resolveUsage :: "'v UsageSpec \<Rightarrow> 'v UsageItem list \<Rightarrow> string \<Rightarrow> string \<Rightarrow> 'v option" where
  "resolveUsage spec schema address key =
     (case findItem schema key of
        None \<Rightarrow> None
      | Some item \<Rightarrow>
          (case specValue spec address key of
             Some v \<Rightarrow> Some v
           | None \<Rightarrow>
               (case wildcardAddress address of
                  None \<Rightarrow> Some (DefaultValue item)
                | Some w \<Rightarrow>
                    (case specValue spec w key of
                       Some v \<Rightarrow> Some v
                     | None \<Rightarrow> Some (DefaultValue item)))))"

text \<open>
  Modelled from the spec: the usage data that the Usage Schema Engine (outside the given
  sources) resolves for a resource, key by key.
\<close>

definition resolvedUsage :: "'v UsageSpec \<Rightarrow> 'v UsageItem list \<Rightarrow> string \<Rightarrow> 'v UsageData" where
  "resolvedUsage spec schema address = (\<lambda>key. resolveUsage spec schema address key)"

section \<open>The Cost Aggregator\<close>

text \<open>
  Modelled from the spec: the Cost Aggregator is outside the given sources. A component
  comes with the unit price matched for it, if any. For a component with a price and a
  quantity, the cost is quantity times unit price times unit multiplier, in fixed-point
  units; an hourly quantity is made monthly with a fixed number of hours per month, here
  the parameter \<open>hpm\<close>. A component lacking a price or a quantity contributes zero to the
  sum and is retained in the result. The cost of a resource is the sum of the costs of its
  components.
\<close>

text \<open>
  Modelled from the spec: the monthly quantity the Cost Aggregator (outside the given
  sources) uses for a component; an hourly quantity is multiplied by the hours per month.
\<close>

definition monthlyQuantityOf :: "int \<Rightarrow> CostComponent \<Rightarrow> int option" where
  "monthlyQuantityOf hpm c =
     (case MonthlyQuantity c of
        Some q \<Rightarrow> Some q
      | None \<Rightarrow> (case HourlyQuantity c of Some h \<Rightarrow> Some (h * hpm) | None \<Rightarrow> None))"

text \<open>
  Modelled from the spec: the cost the Cost Aggregator (outside the given sources) computes
  for a component with its matched price; none without a price or without a quantity.
\<close>

definition componentCost :: "int \<Rightarrow> CostComponent \<times> int option \<Rightarrow> int option" where
  "componentCost hpm pc =
     (case snd pc of
        None \<Rightarrow> None
      | Some price \<Rightarrow>
          (case monthlyQuantityOf hpm (fst pc) of
             None \<Rightarrow> None
           | Some q \<Rightarrow> Some (q * price * UnitMultiplier (fst pc))))"

text \<open>
  Modelled from the spec: what a component adds to the sum of the Cost Aggregator (outside
  the given sources): its cost, or zero when it has none.
\<close>

definition contribution :: "int \<Rightarrow> CostComponent \<times> int option \<Rightarrow> int" where
  "contribution hpm pc = (case componentCost hpm pc of None \<Rightarrow> 0 | Some x \<Rightarrow> x)"

text \<open>
  Modelled from the spec: the cost of a resource in the Cost Aggregator (outside the given
  sources), the sum over its components.
\<close>

definition resourceCost :: "int \<Rightarrow> (CostComponent \<times> int option) list \<Rightarrow> int" where
  "resourceCost hpm pcs = sum_list (map (contribution hpm) pcs)"

text \<open>
  Modelled from the spec: the result of the Cost Aggregator (outside the given sources) for
  a resource: every component with its price and its cost, and the total.
\<close>

definition aggregate ::
    "int \<Rightarrow> (CostComponent \<times> int option) list
       \<Rightarrow> (CostComponent \<times> int option \<times> int option) list \<times> int" where
  "aggregate hpm pcs =
     (map (\<lambda>pc. (fst pc, snd pc, componentCost hpm pc)) pcs, resourceCost hpm pcs)"

section \<open>The usage-file template\<close>

text \<open>
  Modelled from the spec: the usage-file sync is outside the given sources (only the golden
  file of its test is there). A usage file is a structured document tree that retains
  comments as node metadata: a node has a key, a value if it is a leaf with data, the
  comment written after it if any, a mark for an entry that is commented out, and its
  children. The top-level nodes are the resource addresses. The template holds every
  discovered resource address with the keys of its declared usage schema, defaulted and
  commented out. Regenerating the file from a prior usage file is a comment-preserving
  merge: an entry of the prior file is kept, with its own comment where it has one and the
  comment of the template otherwise, and the entries that only the template has are added.
\<close>

text \<open>
  Modelled from the spec: a node of the usage-file document, which the usage-file sync
  (outside the given sources) reads and writes.
\<close>

datatype UsageNode =
  UsageNode (nodeKey: string) (nodeValue: "string option") (nodeComment: "string option")
    (commentedOut: bool) (nodeChildren: "UsageNode list")

text \<open>
  Modelled from the spec: the first node with a key among sibling nodes of the usage-file
  document; the usage-file sync is outside the given sources.
\<close>

definition findNode :: "UsageNode list \<Rightarrow> string \<Rightarrow> UsageNode option" where
  "findNode ns k = find (\<lambda>n. nodeKey n = k) ns"

text \<open>
  Modelled from the spec: the comment-preserving merge of an entry of the prior file with
  the entry of the template under the same key, if there is one; the usage-file sync is
  outside the given sources.
\<close>

fun mergeNode :: "UsageNode \<Rightarrow> UsageNode option \<Rightarrow> UsageNode" where
  "mergeNode (UsageNode k v c out ps) None = UsageNode k v c out ps"
| "mergeNode (UsageNode k v c out ps) (Some t) =
     UsageNode k v (case c of Some x \<Rightarrow> Some x | None \<Rightarrow> nodeComment t) out
       (map (\<lambda>p. mergeNode p (findNode (nodeChildren t) (nodeKey p))) ps
        @ filter (\<lambda>n. nodeKey n \<notin> nodeKey ` set ps) (nodeChildren t))"

text \<open>
  Modelled from the spec: regenerating the usage file from a prior file and the template;
  the usage-file sync is outside the given sources.
\<close>

definition regenerateUsageFile :: "UsageNode list \<Rightarrow> UsageNode list \<Rightarrow> UsageNode list" where
  "regenerateUsageFile prior template =
     map (\<lambda>p. mergeNode p (findNode template (nodeKey p))) prior
     @ filter (\<lambda>n. nodeKey n \<notin> nodeKey ` set prior) template"

text \<open>
  Modelled from the spec: the template of the usage-file sync (outside the given sources)
  for the discovered resources, each given by its address and its declared usage schema.
\<close>

definition usageTemplate :: "(string \<times> int UsageItem list) list \<Rightarrow> UsageNode list" where
  "usageTemplate resources =
     map (\<lambda>(address, schema).
            UsageNode address None None True
              (map (\<lambda>item. UsageNode (UsageItem.Key item) (Some (Sprintf_d (DefaultValue item)))
                               None True [])
                 schema))
       resources"

text \<open>
  Modelled from the spec: the node at a path of keys of the usage-file document, from a
  resource address down; the usage-file sync is outside the given sources.
\<close>

fun nodeAt :: "UsageNode list \<Rightarrow> string list \<Rightarrow> UsageNode option" where
  "nodeAt ns [] = None"
| "nodeAt ns [k] = findNode ns k"
| "nodeAt ns (k # k' # ks) =
     (case findNode ns k of None \<Rightarrow> None | Some n \<Rightarrow> nodeAt (nodeChildren n) (k' # ks))"

section \<open>Example inputs\<close>

text \<open>
  The strings of the example inputs are ASCII, and no format string of theirs has a \<open>%\<close>
  before a flag, a width, a precision or an argument index: the three parameters of the
  library are never consulted on them, and stand here as the identity.
\<close>

definition example_pkg :: azure_pkg where
  "example_pkg =
     \<lparr> unicodeToLower = (\<lambda>s. s),
       unicodeToTitle = (\<lambda>s. s),
       sprintfOther = (\<lambda>s. s),
       vendorName = ''azure'',
       priceFilterConsumption = consumption \<rparr>"

definition example_node :: "string option \<Rightarrow> ResourceData" where
  "example_node sku =
     \<lparr> ResourceData.Address = ''azurerm_mssql_database.db'',
       sku_name = sku,
       max_size_gb = Some 500,
       read_replica_count = None,
       license_type = None,
       zone_redundant = False,
       lookupRegion = ''eastus'' \<rparr>"

text \<open>
  The address of an instance of a resource with \<open>for_each\<close>, under the key \<open>100%\<close>:
  \<open>azurerm_mssql_database.db["100%"]\<close>. The byte \<open>0x22\<close> is the double quote.
\<close>

definition example_keyed_address :: string where
  "example_keyed_address =
     ''azurerm_mssql_database.db['' @ [CHR 0x22] @ ''100%'' @ [CHR 0x22] @ '']''"

definition example_keyed_node :: "string option \<Rightarrow> ResourceData" where
  "example_keyed_node sku = (example_node sku)\<lparr> ResourceData.Address := example_keyed_address \<rparr>"

definition example_MSSQLDatabase :: "string \<Rightarrow> string \<Rightarrow> MSSQLDatabase" where
  "example_MSSQLDatabase sku t =
     \<lparr> Address = ''azurerm_mssql_database.db'',
       Region = ''eastus'',
       SKU = sku,
       LicenceType = ''LicenseIncluded'',
       Tier = t,
       Family = ''Compute Gen5'',
       Cores = 4,
       MaxSizeGB = Some 500,
       ReadReplicaCount = None,
       ZoneRedundant = False,
       ExtraDataStorageGB = None,
       MonthlyVCoreHours = None,
       LongTermRetentionStorageGB = None \<rparr>"

definition example_SQLDatabase :: "string \<Rightarrow> string \<Rightarrow> int option \<Rightarrow> SQLDatabase" where
  "example_SQLDatabase sku t n =
     \<lparr> SQLDatabase.Address = ''azurerm_sql_database.db'',
       SQLDatabase.Region = ''eastus'',
       SQLDatabase.SKU = sku,
       SQLDatabase.LicenceType = ''LicenseIncluded'',
       SQLDatabase.Tier = t,
       SQLDatabase.Family = ''Compute Gen5'',
       SQLDatabase.Cores = n,
       SQLDatabase.MaxSizeGB = Some 500,
       SQLDatabase.ReadReplicaCount = None,
       SQLDatabase.ZoneRedundant = False,
       SQLDatabase.ExtraDataStorageGB = None,
       SQLDatabase.MonthlyVCoreHours = None,
       SQLDatabase.LongTermRetentionStorageGB = None \<rparr>"

section \<open>Component lists\<close>

lemma Name_serverless: "CostComponent.Name (serverlessComputeHoursCostComponent env r) = serverlessComputeName (SKU r)"
  by (simp add: serverlessComputeHoursCostComponent_def Let_def)
lemma Name_provisioned: "CostComponent.Name (snd (provisionedComputeCostComponent env r)) = provisionedComputeName (SKU r)"
  by (simp add: provisionedComputeCostComponent_def Let_def)
lemma Name_readReplica: "CostComponent.Name (readReplicaCostComponent env r) = ''Read replicas''"
  by (simp add: readReplicaCostComponent_def Let_def)
lemma Name_sqlLicense: "CostComponent.Name (sqlLicenseCostComponent env r) = ''SQL license''"
  by (simp add: sqlLicenseCostComponent_def)
lemma Name_storage: "CostComponent.Name (mssqlStorageComponent env r) = ''Storage''"
  by (simp add: mssqlStorageComponent_def Let_def)
lemma Name_longTerm: "CostComponent.Name (longTermRetentionMSSQLCostComponent env r) = ''Long-term retention''"
  by (simp add: longTermRetentionMSSQLCostComponent_def Let_def)
lemma Name_dtuCompute: "CostComponent.Name (dtuComputeComponent env region sku skuName pf) = ''Compute ('' @ ToTitle env sku @ '')''"
  by (simp add: dtuComputeComponent_def)
lemma Name_extraData: "CostComponent.Name (extraDataStorageComponent env region sn q pf) = ''Extra data storage''"
  by (simp add: extraDataStorageComponent_def)

lemmas Name_simps = Name_serverless Name_provisioned Name_readReplica Name_sqlLicense
  Name_storage Name_longTerm Name_dtuCompute Name_extraData

lemma tiers_distinct: "sqlServerlessTier \<noteq> sqlHyperscaleTier"
  by (simp add: sqlServerlessTier_def sqlHyperscaleTier_def)

lemma compute_names_distinct:
  "provisionedComputeName s \<noteq> ''Read replicas''" "provisionedComputeName s \<noteq> ''SQL license''"
  "provisionedComputeName s \<noteq> ''Storage''" "provisionedComputeName s \<noteq> ''Long-term retention''"
  "serverlessComputeName s \<noteq> ''Read replicas''" "serverlessComputeName s \<noteq> ''SQL license''"
  "serverlessComputeName s \<noteq> ''Storage''" "serverlessComputeName s \<noteq> ''Long-term retention''"
  "provisionedComputeName s \<noteq> serverlessComputeName t"
  "''Read replicas'' \<noteq> provisionedComputeName s" "''SQL license'' \<noteq> provisionedComputeName s"
  "''Storage'' \<noteq> provisionedComputeName s" "''Long-term retention'' \<noteq> provisionedComputeName s"
  "''Read replicas'' \<noteq> serverlessComputeName s" "''SQL license'' \<noteq> serverlessComputeName s"
  "''Storage'' \<noteq> serverlessComputeName s" "''Long-term retention'' \<noteq> serverlessComputeName s"
  "serverlessComputeName t \<noteq> provisionedComputeName s"
  by (simp_all add: provisionedComputeName_def serverlessComputeName_def)

lemma dtu_names_distinct:
  "''Compute ('' @ x \<noteq> ''Read replicas''" "''Compute ('' @ x \<noteq> ''SQL license''"
  "''Compute ('' @ x \<noteq> ''Storage''" "''Compute ('' @ x \<noteq> ''Long-term retention''"
  "''Compute ('' @ x \<noteq> ''Extra data storage''"
  "''Read replicas'' \<noteq> ''Compute ('' @ x" "''SQL license'' \<noteq> ''Compute ('' @ x"
  "''Storage'' \<noteq> ''Compute ('' @ x" "''Long-term retention'' \<noteq> ''Compute ('' @ x"
  "''Extra data storage'' \<noteq> ''Compute ('' @ x"
  by simp_all

lemma vCore_components:
  "snd (vCorePurchaseCostComponents env r) =
     (if ToLower env (Tier r) = sqlServerlessTier
      then [serverlessComputeHoursCostComponent env r]
      else [snd (provisionedComputeCostComponent env r)])
     @ (if ToLower env (Tier r) = sqlHyperscaleTier then [readReplicaCostComponent env r] else [])
     @ (if ToLower env (Tier r) \<noteq> sqlServerlessTier \<and> ToLower env (LicenceType r) = ''licenseincluded''
        then [sqlLicenseCostComponent env r] else [])
     @ [mssqlStorageComponent env r]
     @ (if ToLower env (Tier r) \<noteq> sqlHyperscaleTier then [longTermRetentionMSSQLCostComponent env r] else [])"
  by (simp add: vCorePurchaseCostComponents_def Let_def split_def)

lemma vCore_names:
  "map CostComponent.Name (snd (vCorePurchaseCostComponents env r)) =
     (if ToLower env (Tier r) = sqlServerlessTier
      then [serverlessComputeName (SKU r)] else [provisionedComputeName (SKU r)])
     @ (if ToLower env (Tier r) = sqlHyperscaleTier then [''Read replicas''] else [])
     @ (if ToLower env (Tier r) \<noteq> sqlServerlessTier \<and> ToLower env (LicenceType r) = ''licenseincluded''
        then [''SQL license''] else [])
     @ [''Storage'']
     @ (if ToLower env (Tier r) \<noteq> sqlHyperscaleTier then [''Long-term retention''] else [])"
  by (simp add: vCore_components Name_simps)

lemma BuildResource_vCore:
  "\<not> dtuPurchase env (SKU r) \<Longrightarrow>
   snd (BuildResource env r) =
     Inr \<lparr> Resource.Name = Address r, UsageSchema = mssqlUsageSchema,
           CostComponents = snd (vCorePurchaseCostComponents env r) \<rparr>"
  by (simp add: BuildResource_def dtuPurchase_def Let_def)

lemma ToLower_Nil: "ToLower env [] = []"
  by (simp add: ToLower_def isASCII_def)

lemma HasPrefix_single: "HasPrefix s [c] = (\<exists>t. s = c # t)"
  by (cases s) auto

lemma dtuPurchase_nonempty: "dtuPurchase env sku \<Longrightarrow> ToLower env sku \<noteq> []"
  by (auto simp: dtuPurchase_def HasPrefix_single)

lemma dtu_components_basic:
  "ToLower env (SKU r) = ''basic'' \<Longrightarrow>
   dtuPurchaseCostComponents env r =
     Inr [dtuComputeComponent env (MSSQLDatabase.Region r) (SKU r) ''b'' consumption,
          longTermRetentionMSSQLCostComponent env r]"
  by (simp add: dtuPurchaseCostComponents_def Let_def)

lemma dtu_components_other:
  "ToLower env (SKU r) \<noteq> ''basic'' \<Longrightarrow> ToLower env (SKU r) \<noteq> ''b'' \<Longrightarrow> ToLower env (SKU r) = c # cs \<Longrightarrow>
   dtuPurchaseCostComponents env r =
     Inr [dtuComputeComponent env (MSSQLDatabase.Region r) (SKU r) (ToLower env (SKU r)) consumption,
          extraDataStorageComponent env (MSSQLDatabase.Region r) (map_index tierMapping [c])
            (extraDataStorageGB env (map_index tierMapping [c]) (MaxSizeGB r) (ExtraDataStorageGB r))
            consumption,
          longTermRetentionMSSQLCostComponent env r]"
  by (simp add: dtuPurchaseCostComponents_def Let_def slice_to_1_def)

lemma dtuPurchase_not_b: "dtuPurchase env sku \<Longrightarrow> ToLower env sku \<noteq> ''b''"
  by (auto simp: dtuPurchase_def)

lemma BuildResource_dtu:
  "dtuPurchase env (SKU r) \<Longrightarrow>
   snd (BuildResource env r) =
     (case dtuPurchaseCostComponents env r of
        Inl p \<Rightarrow> Inl p
      | Inr cs \<Rightarrow> Inr \<lparr> Resource.Name = Address r, UsageSchema = mssqlUsageSchema, CostComponents = cs \<rparr>)"
  by (simp add: BuildResource_def dtuPurchase_def Let_def split: sum.splits)

lemma BuildResource_returns: "\<exists>res. snd (BuildResource env r) = Inr res"
proof (cases "dtuPurchase env (SKU r)")
  case False
  then show ?thesis by (simp add: BuildResource_vCore)
next
  case True
  then obtain c cs where cs: "ToLower env (SKU r) = c # cs"
    using dtuPurchase_nonempty by (cases "ToLower env (SKU r)") auto
  show ?thesis
  proof (cases "ToLower env (SKU r) = ''basic''")
    case True
    with \<open>dtuPurchase env (SKU r)\<close> show ?thesis by (simp add: BuildResource_dtu dtu_components_basic)
  next
    case False
    with \<open>dtuPurchase env (SKU r)\<close> cs dtuPurchase_not_b [of env "SKU r"] show ?thesis
      by (simp add: BuildResource_dtu dtu_components_other)
  qed
qed

text \<open>The same for \<open>SQLDatabase\<close>, where the methods that read \<open>*r.Cores\<close> need \<open>Cores\<close> set.\<close>

lemma provisioned_SQLDatabase:
  "SQLDatabase.Cores r = Some n \<Longrightarrow>
   \<exists>lg c. provisionedComputeCostComponent_SQLDatabase env r = Inr (lg, c)
     \<and> CostComponent.Name c = provisionedComputeName (SQLDatabase.SKU r)"
  by (simp add: provisionedComputeCostComponent_SQLDatabase_def deref_def Let_def)

lemma readReplica_SQLDatabase:
  "SQLDatabase.Cores r = Some n \<Longrightarrow>
   \<exists>c. readReplicaCostComponent_SQLDatabase env r = Inr c
     \<and> CostComponent.Name c = ''Read replicas''
     \<and> HourlyQuantity c = SQLDatabase.ReadReplicaCount r \<and> MonthlyQuantity c = None"
  by (simp add: readReplicaCostComponent_SQLDatabase_def deref_def Let_def split: option.splits)

lemma sqlLicense_SQLDatabase:
  "SQLDatabase.Cores r = Some n \<Longrightarrow>
   \<exists>c. sqlLicenseCostComponent_SQLDatabase env r = Inr c
     \<and> CostComponent.Name c = ''SQL license''
     \<and> map_option ProductFilter.Region (ProductFilter c)
         = Some (Some (licenseRegionOf (SQLDatabase.Region r)))"
  by (simp add: sqlLicenseCostComponent_SQLDatabase_def deref_def Let_def sqlProductFilter_def)

lemma Name_serverless_SQLDatabase:
  "CostComponent.Name (serverlessComputeHoursCostComponent_SQLDatabase env r)
     = serverlessComputeName (SQLDatabase.SKU r)"
  by (simp add: serverlessComputeHoursCostComponent_SQLDatabase_def Let_def)

lemma Name_storage_SQLDatabase:
  "CostComponent.Name (mssqlStorageComponent_SQLDatabase env r) = ''Storage''"
  by (simp add: mssqlStorageComponent_SQLDatabase_def Let_def)

lemma Name_longTerm_SQLDatabase:
  "CostComponent.Name (longTermRetentionMSSQLCostComponent_SQLDatabase env r) = ''Long-term retention''"
  by (simp add: longTermRetentionMSSQLCostComponent_SQLDatabase_def Let_def)

lemmas Name_SQLDatabase_simps =
  Name_serverless_SQLDatabase Name_storage_SQLDatabase Name_longTerm_SQLDatabase

lemma vCore_components_SQLDatabase:
  assumes "SQLDatabase.Cores r = Some n"
  shows "\<exists>lg p rr lic.
     provisionedComputeCostComponent_SQLDatabase env r = Inr (lg, p)
     \<and> readReplicaCostComponent_SQLDatabase env r = Inr rr
     \<and> sqlLicenseCostComponent_SQLDatabase env r = Inr lic
     \<and> snd (vCorePurchaseCostComponents_SQLDatabase env r) =
       Inr ((if ToLower env (SQLDatabase.Tier r) = sqlServerlessTier
             then [serverlessComputeHoursCostComponent_SQLDatabase env r] else [p])
            @ (if ToLower env (SQLDatabase.Tier r) = sqlHyperscaleTier then [rr] else [])
            @ (if ToLower env (SQLDatabase.Tier r) \<noteq> sqlServerlessTier
                  \<and> ToLower env (SQLDatabase.LicenceType r) = ''licenseincluded''
               then [lic] else [])
            @ [mssqlStorageComponent_SQLDatabase env r]
            @ (if ToLower env (SQLDatabase.Tier r) \<noteq> sqlHyperscaleTier
               then [longTermRetentionMSSQLCostComponent_SQLDatabase env r] else []))"
proof -
  obtain lg p where p: "provisionedComputeCostComponent_SQLDatabase env r = Inr (lg, p)"
    using provisioned_SQLDatabase [OF assms] by blast
  obtain rr where rr: "readReplicaCostComponent_SQLDatabase env r = Inr rr"
    using readReplica_SQLDatabase [OF assms] by blast
  obtain lic where lic: "sqlLicenseCostComponent_SQLDatabase env r = Inr lic"
    using sqlLicense_SQLDatabase [OF assms] by blast
  show ?thesis
    by (simp add: vCorePurchaseCostComponents_SQLDatabase_def Let_def append_component_def p rr lic)
qed

lemma vCore_names_SQLDatabase:
  assumes "SQLDatabase.Cores r = Some n"
  shows "\<exists>cs. snd (vCorePurchaseCostComponents_SQLDatabase env r) = Inr cs
     \<and> map CostComponent.Name cs =
       (if ToLower env (SQLDatabase.Tier r) = sqlServerlessTier
        then [serverlessComputeName (SQLDatabase.SKU r)] else [provisionedComputeName (SQLDatabase.SKU r)])
       @ (if ToLower env (SQLDatabase.Tier r) = sqlHyperscaleTier then [''Read replicas''] else [])
       @ (if ToLower env (SQLDatabase.Tier r) \<noteq> sqlServerlessTier
             \<and> ToLower env (SQLDatabase.LicenceType r) = ''licenseincluded''
          then [''SQL license''] else [])
       @ [''Storage'']
       @ (if ToLower env (SQLDatabase.Tier r) \<noteq> sqlHyperscaleTier then [''Long-term retention''] else [])"
proof -
  obtain lg p rr lic where
    p: "provisionedComputeCostComponent_SQLDatabase env r = Inr (lg, p)" and
    rr: "readReplicaCostComponent_SQLDatabase env r = Inr rr" and
    lic: "sqlLicenseCostComponent_SQLDatabase env r = Inr lic" and
    cs: "snd (vCorePurchaseCostComponents_SQLDatabase env r) =
       Inr ((if ToLower env (SQLDatabase.Tier r) = sqlServerlessTier
             then [serverlessComputeHoursCostComponent_SQLDatabase env r] else [p])
            @ (if ToLower env (SQLDatabase.Tier r) = sqlHyperscaleTier then [rr] else [])
            @ (if ToLower env (SQLDatabase.Tier r) \<noteq> sqlServerlessTier
                  \<and> ToLower env (SQLDatabase.LicenceType r) = ''licenseincluded''
               then [lic] else [])
            @ [mssqlStorageComponent_SQLDatabase env r]
            @ (if ToLower env (SQLDatabase.Tier r) \<noteq> sqlHyperscaleTier
               then [longTermRetentionMSSQLCostComponent_SQLDatabase env r] else []))"
    using vCore_components_SQLDatabase [OF assms] by blast
  have np: "CostComponent.Name p = provisionedComputeName (SQLDatabase.SKU r)"
    using provisioned_SQLDatabase [OF assms, of env] p by simp
  have nrr: "CostComponent.Name rr = ''Read replicas''"
    using readReplica_SQLDatabase [OF assms, of env] rr by simp
  have nlic: "CostComponent.Name lic = ''SQL license''"
    using sqlLicense_SQLDatabase [OF assms, of env] lic by simp
  show ?thesis
    by (simp add: cs np nrr nlic Name_SQLDatabase_simps)
qed

lemma BuildResource_SQLDatabase_vCore:
  "SQLDatabase.Cores r = Some n \<Longrightarrow>
   snd (BuildResource_SQLDatabase env r) =
     (case snd (vCorePurchaseCostComponents_SQLDatabase env r) of
        Inl p \<Rightarrow> Inl p
      | Inr cs \<Rightarrow> Inr \<lparr> Resource.Name = SQLDatabase.Address r, UsageSchema = mssqlUsageSchema,
                        CostComponents = cs \<rparr>)"
  by (simp add: BuildResource_SQLDatabase_def costComponents_SQLDatabase_def split: prod.splits sum.splits)

section \<open>Read replicas and long-term retention by tier\<close>

text \<open>
  Claim C8. For every database of the vCore purchase model, the component \<open>Read replicas\<close>
  is present exactly when the tier is Hyperscale, compared without case, and the component
  \<open>Long-term retention\<close> is present exactly when the tier is not Hyperscale; so a Hyperscale
  database has no long-term retention component, whatever usage
  \<open>long_term_retention_storage_gb\<close> it is given. This holds for \<open>MSSQLDatabase\<close>, where the
  vCore model is chosen by the SKU, and for \<open>SQLDatabase\<close>, where it is chosen by \<open>Cores\<close>
  being set.
\<close>

theorem C8_read_replicas_and_retention_by_tier:
  "(\<not> dtuPurchase env (SKU r) \<longrightarrow>
      (\<exists>res. snd (BuildResource env r) = Inr res
         \<and> CostComponents res = snd (vCorePurchaseCostComponents env r)
         \<and> (''Read replicas'' \<in> CostComponent.Name ` set (CostComponents res))
             = (ToLower env (Tier r) = sqlHyperscaleTier)
         \<and> (''Long-term retention'' \<in> CostComponent.Name ` set (CostComponents res))
             = (ToLower env (Tier r) \<noteq> sqlHyperscaleTier))
      \<and> (ToLower env (Tier r) = sqlHyperscaleTier \<longrightarrow>
           ''Long-term retention'' \<notin> CostComponent.Name `
              set (snd (vCorePurchaseCostComponents env (r\<lparr> LongTermRetentionStorageGB := g \<rparr>)))))
   \<and> (SQLDatabase.Cores q \<noteq> None \<longrightarrow>
      (\<exists>res. snd (BuildResource_SQLDatabase env q) = Inr res
         \<and> (''Read replicas'' \<in> CostComponent.Name ` set (CostComponents res))
             = (ToLower env (SQLDatabase.Tier q) = sqlHyperscaleTier)
         \<and> (''Long-term retention'' \<in> CostComponent.Name ` set (CostComponents res))
             = (ToLower env (SQLDatabase.Tier q) \<noteq> sqlHyperscaleTier)))"
proof (intro conjI impI)
  assume v: "\<not> dtuPurchase env (SKU r)"
  have names: "CostComponent.Name ` set (snd (vCorePurchaseCostComponents env r))
      = set (map CostComponent.Name (snd (vCorePurchaseCostComponents env r)))"
    by simp
  show "\<exists>res. snd (BuildResource env r) = Inr res
         \<and> CostComponents res = snd (vCorePurchaseCostComponents env r)
         \<and> (''Read replicas'' \<in> CostComponent.Name ` set (CostComponents res))
             = (ToLower env (Tier r) = sqlHyperscaleTier)
         \<and> (''Long-term retention'' \<in> CostComponent.Name ` set (CostComponents res))
             = (ToLower env (Tier r) \<noteq> sqlHyperscaleTier)"
    unfolding BuildResource_vCore [OF v]
    by (simp add: names vCore_names compute_names_distinct tiers_distinct del: set_map)
next
  assume h: "ToLower env (Tier r) = sqlHyperscaleTier"
  have "set (map CostComponent.Name
          (snd (vCorePurchaseCostComponents env (r\<lparr> LongTermRetentionStorageGB := g \<rparr>))))
        = {provisionedComputeName (SKU r), ''Read replicas'', ''Storage''}
          \<union> (if ToLower env (LicenceType r) = ''licenseincluded'' then {''SQL license''} else {})"
    unfolding vCore_names using h tiers_distinct by auto
  then show "''Long-term retention'' \<notin> CostComponent.Name `
      set (snd (vCorePurchaseCostComponents env (r\<lparr> LongTermRetentionStorageGB := g \<rparr>)))"
    by (simp add: compute_names_distinct)
next
  assume "SQLDatabase.Cores q \<noteq> None"
  then obtain n where n: "SQLDatabase.Cores q = Some n" by blast
  obtain cs where cs: "snd (vCorePurchaseCostComponents_SQLDatabase env q) = Inr cs"
    and names: "map CostComponent.Name cs =
       (if ToLower env (SQLDatabase.Tier q) = sqlServerlessTier
        then [serverlessComputeName (SQLDatabase.SKU q)] else [provisionedComputeName (SQLDatabase.SKU q)])
       @ (if ToLower env (SQLDatabase.Tier q) = sqlHyperscaleTier then [''Read replicas''] else [])
       @ (if ToLower env (SQLDatabase.Tier q) \<noteq> sqlServerlessTier
             \<and> ToLower env (SQLDatabase.LicenceType q) = ''licenseincluded''
          then [''SQL license''] else [])
       @ [''Storage'']
       @ (if ToLower env (SQLDatabase.Tier q) \<noteq> sqlHyperscaleTier then [''Long-term retention''] else [])"
    using vCore_names_SQLDatabase [OF n] by blast
  have img: "CostComponent.Name ` set cs = set (map CostComponent.Name cs)" by simp
  show "\<exists>res. snd (BuildResource_SQLDatabase env q) = Inr res
         \<and> (''Read replicas'' \<in> CostComponent.Name ` set (CostComponents res))
             = (ToLower env (SQLDatabase.Tier q) = sqlHyperscaleTier)
         \<and> (''Long-term retention'' \<in> CostComponent.Name ` set (CostComponents res))
             = (ToLower env (SQLDatabase.Tier q) \<noteq> sqlHyperscaleTier)"
    unfolding BuildResource_SQLDatabase_vCore [OF n] cs
    by (simp add: img names compute_names_distinct tiers_distinct del: set_map)
qed

lemma ToLower_Hyperscale: "ToLower env ''Hyperscale'' = sqlHyperscaleTier"
  by (simp add: ToLower_def isASCII_def lower_char_def sqlHyperscaleTier_def)

lemma not_dtuPurchase_HS: "\<not> dtuPurchase env ''HS_Gen5_4''"
  by (simp add: dtuPurchase_def ToLower_def isASCII_def lower_char_def)

theorem C8_witness:
  "\<not> dtuPurchase example_pkg (SKU (example_MSSQLDatabase ''HS_Gen5_4'' ''Hyperscale''))
   \<and> ToLower example_pkg (Tier (example_MSSQLDatabase ''HS_Gen5_4'' ''Hyperscale'')) = sqlHyperscaleTier
   \<and> (\<exists>res. snd (BuildResource example_pkg (example_MSSQLDatabase ''HS_Gen5_4'' ''Hyperscale'')) = Inr res
         \<and> ''Read replicas'' \<in> CostComponent.Name ` set (CostComponents res)
         \<and> ''Long-term retention'' \<notin> CostComponent.Name ` set (CostComponents res))
   \<and> ''Long-term retention'' \<notin> CostComponent.Name `
        set (snd (vCorePurchaseCostComponents example_pkg
          ((example_MSSQLDatabase ''HS_Gen5_4'' ''Hyperscale'')\<lparr> LongTermRetentionStorageGB := Some 100 \<rparr>)))
   \<and> SQLDatabase.Cores (example_SQLDatabase ''HS_Gen5_4'' ''Hyperscale'' (Some 4)) \<noteq> None
   \<and> (\<exists>res. snd (BuildResource_SQLDatabase example_pkg
                    (example_SQLDatabase ''HS_Gen5_4'' ''Hyperscale'' (Some 4))) = Inr res
         \<and> ''Read replicas'' \<in> CostComponent.Name ` set (CostComponents res)
         \<and> ''Long-term retention'' \<notin> CostComponent.Name ` set (CostComponents res))"
proof -
  have h1: "\<not> dtuPurchase example_pkg (SKU (example_MSSQLDatabase ''HS_Gen5_4'' ''Hyperscale''))"
    by (simp add: example_MSSQLDatabase_def not_dtuPurchase_HS)
  have h2: "ToLower example_pkg (Tier (example_MSSQLDatabase ''HS_Gen5_4'' ''Hyperscale'')) = sqlHyperscaleTier"
    by (simp add: example_MSSQLDatabase_def ToLower_Hyperscale)
  have h3: "SQLDatabase.Cores (example_SQLDatabase ''HS_Gen5_4'' ''Hyperscale'' (Some 4)) \<noteq> None"
    by (simp add: example_SQLDatabase_def)
  have h4: "ToLower example_pkg (SQLDatabase.Tier (example_SQLDatabase ''HS_Gen5_4'' ''Hyperscale'' (Some 4)))
      = sqlHyperscaleTier"
    by (simp add: example_SQLDatabase_def ToLower_Hyperscale)
  show ?thesis
    using h1 h2 h3 h4 C8_read_replicas_and_retention_by_tier
      [where env = example_pkg and r = "example_MSSQLDatabase ''HS_Gen5_4'' ''Hyperscale''"
          and g = "Some 100" and q = "example_SQLDatabase ''HS_Gen5_4'' ''Hyperscale'' (Some 4)"]
    by blast
qed

section \<open>The builder of \<open>azurerm_mssql_database\<close>\<close>

lemma New_eq:
  "NewAzureRMMSSQLDatabase env d u =
     (if \<not> dtuPurchase env (nodeSku d)
      then (case parseMSSQLSku (ResourceData.Address d) (nodeSku d) of
              Inl err \<Rightarrow> ([Warnf (Sprintf_no_operands env (error_message err))], Inr None)
            | Inr c \<Rightarrow>
                (case BuildResource env (populatedMSSQLDatabase d (Some c) u) of
                   (lg, Inl p) \<Rightarrow> (lg, Inl p)
                 | (lg, Inr res) \<Rightarrow> (lg, Inr (Some res))))
      else (case BuildResource env (populatedMSSQLDatabase d None u) of
              (lg, Inl p) \<Rightarrow> (lg, Inl p)
            | (lg, Inr res) \<Rightarrow> (lg, Inr (Some res))))"
  unfolding NewAzureRMMSSQLDatabase_def dtuPurchase_def nodeSku_def Let_def
    populatedMSSQLDatabase_def PopulateUsage_def
  by (simp cong: sum.case_cong prod.case_cong)

lemma snd_wrap:
  "snd (case x of (lg, Inl p) \<Rightarrow> (lg, Inl p) | (lg, Inr res) \<Rightarrow> (lg, Inr (Some res)))
     = map_sum id Some (snd x)"
  by (cases x) (auto split: sum.splits)

lemma New_unparsed:
  "\<not> dtuPurchase env (nodeSku d) \<Longrightarrow> parseMSSQLSku (ResourceData.Address d) (nodeSku d) = Inl err \<Longrightarrow>
   NewAzureRMMSSQLDatabase env d u
     = ([Warnf (Sprintf_no_operands env (error_message err))], Inr None)"
  by (simp add: New_eq)

lemma New_vCore:
  "\<not> dtuPurchase env (nodeSku d) \<Longrightarrow> parseMSSQLSku (ResourceData.Address d) (nodeSku d) = Inr c \<Longrightarrow>
   snd (NewAzureRMMSSQLDatabase env d u) =
     map_sum id Some (snd (BuildResource env (populatedMSSQLDatabase d (Some c) u)))"
  by (simp add: New_eq snd_wrap)

lemma New_dtu:
  "dtuPurchase env (nodeSku d) \<Longrightarrow>
   snd (NewAzureRMMSSQLDatabase env d u) =
     map_sum id Some (snd (BuildResource env (populatedMSSQLDatabase d None u)))"
  by (simp add: New_eq snd_wrap)

lemma populated_fields:
  "SKU (populatedMSSQLDatabase d c u) = nodeSku d"
  "Address (populatedMSSQLDatabase d c u) = ResourceData.Address d"
  "MSSQLDatabase.Region (populatedMSSQLDatabase d c u) = lookupRegion d"
  "LicenceType (populatedMSSQLDatabase d c u)
     = (case license_type d of None \<Rightarrow> ''LicenseIncluded'' | Some s \<Rightarrow> s)"
  "Tier (populatedMSSQLDatabase d (Some k) u) = tier k"
  "Family (populatedMSSQLDatabase d (Some k) u) = family k"
  "Cores (populatedMSSQLDatabase d (Some k) u) = cores k"
  "MaxSizeGB (populatedMSSQLDatabase d c u) = max_size_gb d"
  "ReadReplicaCount (populatedMSSQLDatabase d c u) = read_replica_count d"
  "ZoneRedundant (populatedMSSQLDatabase d c u) = zone_redundant d"
  "ExtraDataStorageGB (populatedMSSQLDatabase d c u) = usage_int u ''extra_data_storage_gb''"
  "MonthlyVCoreHours (populatedMSSQLDatabase d c u) = usage_int u ''monthly_vcore_hours''"
  "LongTermRetentionStorageGB (populatedMSSQLDatabase d c u)
     = usage_int u ''long_term_retention_storage_gb''"
  by (simp_all add: populatedMSSQLDatabase_def PopulateUsage_def nodeSku_def)

lemma built_vCore:
  assumes "\<not> dtuPurchase env (nodeSku d)" "parseMSSQLSku (ResourceData.Address d) (nodeSku d) = Inr c"
  shows "builtComponents (NewAzureRMMSSQLDatabase env d u)
     = Some (snd (vCorePurchaseCostComponents env (populatedMSSQLDatabase d (Some c) u)))"
proof -
  have "\<not> dtuPurchase env (SKU (populatedMSSQLDatabase d (Some c) u))"
    using assms(1) by (simp add: populated_fields)
  then show ?thesis
    by (simp add: builtComponents_def New_vCore [OF assms] BuildResource_vCore)
qed

lemma parse_GP_Gen5_4:
  "parseMSSQLSku a ''GP_Gen5_4'' = Inr \<lparr> tier = ''General Purpose'', family = ''Compute Gen5'', cores = 4 \<rparr>"
  by (simp add: parseMSSQLSku_def tierOfKey_def familyOfKey_def ParseInt_def is_digit_def
      digits_val_def digit_val_def Let_def)

lemma parse_HS_Gen5_4:
  "parseMSSQLSku a ''HS_Gen5_4'' = Inr \<lparr> tier = ''Hyperscale'', family = ''Compute Gen5'', cores = 4 \<rparr>"
  by (simp add: parseMSSQLSku_def tierOfKey_def familyOfKey_def ParseInt_def is_digit_def
      digits_val_def digit_val_def Let_def)

lemma parse_GP_S_Gen5_4:
  "parseMSSQLSku a ''GP_S_Gen5_4''
     = Inr \<lparr> tier = ''General Purpose - Serverless'', family = ''Compute Gen5'', cores = 4 \<rparr>"
  by (simp add: parseMSSQLSku_def tierOfKey_def familyOfKey_def ParseInt_def is_digit_def
      digits_val_def digit_val_def Let_def)

lemma not_dtuPurchase_examples:
  "\<not> dtuPurchase env ''GP_Gen5_4''" "\<not> dtuPurchase env ''HS_Gen5_4''" "\<not> dtuPurchase env ''GP_S_Gen5_4''"
  "dtuPurchase env ''S0''" "dtuPurchase env ''P1''" "dtuPurchase env ''Basic''"
  by (simp_all add: dtuPurchase_def ToLower_def isASCII_def lower_char_def)

lemma ToLower_examples:
  "ToLower env ''Hyperscale'' = sqlHyperscaleTier"
  "ToLower env ''General Purpose - Serverless'' = sqlServerlessTier"
  "ToLower env ''General Purpose'' \<noteq> sqlServerlessTier"
  "ToLower env ''General Purpose'' \<noteq> sqlHyperscaleTier"
  "ToLower env ''LicenseIncluded'' = ''licenseincluded''"
  by (simp_all add: ToLower_def isASCII_def lower_char_def sqlHyperscaleTier_def sqlServerlessTier_def)

section \<open>Compute and licence components of the vCore purchase model\<close>

text \<open>
  Claim C1, as stated, fails: it lets the component \<open>SQL license\<close> appear only when an
  explicit licence flag is set. The builder takes \<open>LicenseIncluded\<close> as the licence type of
  a node that has no attribute \<open>license_type\<close>, so the node below, with SKU \<open>GP_Gen5_4\<close> and
  no such attribute, has the component.
\<close>

theorem C1_counterexample:
  "license_type (example_node (Some ''GP_Gen5_4'')) = None
   \<and> map_option (map CostComponent.Name)
        (builtComponents (NewAzureRMMSSQLDatabase example_pkg (example_node (Some ''GP_Gen5_4'')) None))
      = Some [''Compute (provisioned, GP_Gen5_4)'', ''SQL license'', ''Storage'',
              ''Long-term retention'']"
proof -
  have sku: "nodeSku (example_node (Some ''GP_Gen5_4'')) = ''GP_Gen5_4''"
    by (simp add: nodeSku_def example_node_def)
  have "builtComponents (NewAzureRMMSSQLDatabase example_pkg (example_node (Some ''GP_Gen5_4'')) None)
      = Some (snd (vCorePurchaseCostComponents example_pkg
          (populatedMSSQLDatabase (example_node (Some ''GP_Gen5_4''))
             (Some \<lparr> tier = ''General Purpose'', family = ''Compute Gen5'', cores = 4 \<rparr>) None)))"
    by (rule built_vCore) (simp_all add: sku not_dtuPurchase_examples parse_GP_Gen5_4)
  moreover have lic: "license_type (example_node (Some ''GP_Gen5_4'')) = None"
    by (simp add: example_node_def)
  ultimately show ?thesis
    by (simp add: vCore_names populated_fields sku ToLower_examples provisionedComputeName_def)
qed

text \<open>
  Claim C1, amended. For every database of the vCore purchase model: when the tier is
  serverless the components are the serverless compute component, \<open>Storage\<close> and
  \<open>Long-term retention\<close>, and nothing else; when the tier is not serverless the first
  component is the provisioned compute component and no serverless compute component is
  there; and the component \<open>SQL license\<close> appears exactly when the tier is not serverless
  and the licence type is \<open>LicenseIncluded\<close>, compared without case. The builder of
  \<open>azurerm_mssql_database\<close> builds these components with the tier of the parsed SKU and
  with the licence type of the attribute \<open>license_type\<close>, which is \<open>LicenseIncluded\<close> when
  the node has no such attribute.
\<close>

theorem C1_compute_and_license_components:
  "(let names = map CostComponent.Name (snd (vCorePurchaseCostComponents env r)) in
      (ToLower env (Tier r) = sqlServerlessTier \<longrightarrow>
         names = [serverlessComputeName (SKU r), ''Storage'', ''Long-term retention''])
    \<and> (ToLower env (Tier r) \<noteq> sqlServerlessTier \<longrightarrow>
         hd names = provisionedComputeName (SKU r) \<and> (\<forall>s. serverlessComputeName s \<notin> set names))
    \<and> ((''SQL license'' \<in> set names)
         = (ToLower env (Tier r) \<noteq> sqlServerlessTier \<and> ToLower env (LicenceType r) = ''licenseincluded'')))
   \<and> (\<not> dtuPurchase env (nodeSku d) \<and> parseMSSQLSku (ResourceData.Address d) (nodeSku d) = Inr c \<longrightarrow>
        builtComponents (NewAzureRMMSSQLDatabase env d u)
          = Some (snd (vCorePurchaseCostComponents env (populatedMSSQLDatabase d (Some c) u)))
        \<and> Tier (populatedMSSQLDatabase d (Some c) u) = tier c
        \<and> LicenceType (populatedMSSQLDatabase d (Some c) u)
            = (case license_type d of None \<Rightarrow> ''LicenseIncluded'' | Some s \<Rightarrow> s))
   \<and> (SQLDatabase.Cores q \<noteq> None \<longrightarrow>
        (\<exists>cs. snd (vCorePurchaseCostComponents_SQLDatabase env q) = Inr cs
           \<and> (ToLower env (SQLDatabase.Tier q) = sqlServerlessTier \<longrightarrow>
                map CostComponent.Name cs
                  = [serverlessComputeName (SQLDatabase.SKU q), ''Storage'', ''Long-term retention''])
           \<and> (ToLower env (SQLDatabase.Tier q) \<noteq> sqlServerlessTier \<longrightarrow>
                hd (map CostComponent.Name cs) = provisionedComputeName (SQLDatabase.SKU q)
                \<and> (\<forall>s. serverlessComputeName s \<notin> set (map CostComponent.Name cs)))
           \<and> ((''SQL license'' \<in> set (map CostComponent.Name cs))
                = (ToLower env (SQLDatabase.Tier q) \<noteq> sqlServerlessTier
                   \<and> ToLower env (SQLDatabase.LicenceType q) = ''licenseincluded''))))"
proof (intro conjI impI)
  show "let names = map CostComponent.Name (snd (vCorePurchaseCostComponents env r)) in
      (ToLower env (Tier r) = sqlServerlessTier \<longrightarrow>
         names = [serverlessComputeName (SKU r), ''Storage'', ''Long-term retention''])
    \<and> (ToLower env (Tier r) \<noteq> sqlServerlessTier \<longrightarrow>
         hd names = provisionedComputeName (SKU r) \<and> (\<forall>s. serverlessComputeName s \<notin> set names))
    \<and> ((''SQL license'' \<in> set names)
         = (ToLower env (Tier r) \<noteq> sqlServerlessTier \<and> ToLower env (LicenceType r) = ''licenseincluded''))"
    unfolding Let_def vCore_names
    by (simp add: compute_names_distinct tiers_distinct)
next
  assume h: "\<not> dtuPurchase env (nodeSku d) \<and> parseMSSQLSku (ResourceData.Address d) (nodeSku d) = Inr c"
  then show "builtComponents (NewAzureRMMSSQLDatabase env d u)
          = Some (snd (vCorePurchaseCostComponents env (populatedMSSQLDatabase d (Some c) u)))"
    by (simp add: built_vCore)
  show "Tier (populatedMSSQLDatabase d (Some c) u) = tier c"
    by (simp add: populated_fields)
  show "LicenceType (populatedMSSQLDatabase d (Some c) u)
            = (case license_type d of None \<Rightarrow> ''LicenseIncluded'' | Some s \<Rightarrow> s)"
    by (simp add: populated_fields)
next
  assume "SQLDatabase.Cores q \<noteq> None"
  then obtain n where n: "SQLDatabase.Cores q = Some n" by blast
  obtain cs where cs: "snd (vCorePurchaseCostComponents_SQLDatabase env q) = Inr cs"
    and names: "map CostComponent.Name cs =
       (if ToLower env (SQLDatabase.Tier q) = sqlServerlessTier
        then [serverlessComputeName (SQLDatabase.SKU q)] else [provisionedComputeName (SQLDatabase.SKU q)])
       @ (if ToLower env (SQLDatabase.Tier q) = sqlHyperscaleTier then [''Read replicas''] else [])
       @ (if ToLower env (SQLDatabase.Tier q) \<noteq> sqlServerlessTier
             \<and> ToLower env (SQLDatabase.LicenceType q) = ''licenseincluded''
          then [''SQL license''] else [])
       @ [''Storage'']
       @ (if ToLower env (SQLDatabase.Tier q) \<noteq> sqlHyperscaleTier then [''Long-term retention''] else [])"
    using vCore_names_SQLDatabase [OF n] by blast
  show "\<exists>cs. snd (vCorePurchaseCostComponents_SQLDatabase env q) = Inr cs
           \<and> (ToLower env (SQLDatabase.Tier q) = sqlServerlessTier \<longrightarrow>
                map CostComponent.Name cs
                  = [serverlessComputeName (SQLDatabase.SKU q), ''Storage'', ''Long-term retention''])
           \<and> (ToLower env (SQLDatabase.Tier q) \<noteq> sqlServerlessTier \<longrightarrow>
                hd (map CostComponent.Name cs) = provisionedComputeName (SQLDatabase.SKU q)
                \<and> (\<forall>s. serverlessComputeName s \<notin> set (map CostComponent.Name cs)))
           \<and> ((''SQL license'' \<in> set (map CostComponent.Name cs))
                = (ToLower env (SQLDatabase.Tier q) \<noteq> sqlServerlessTier
                   \<and> ToLower env (SQLDatabase.LicenceType q) = ''licenseincluded''))"
  proof (intro exI conjI)
    show "snd (vCorePurchaseCostComponents_SQLDatabase env q) = Inr cs" by (rule cs)
  qed (simp_all add: names compute_names_distinct tiers_distinct del: set_map)
qed

theorem C1_witness:
  "ToLower example_pkg (Tier (example_MSSQLDatabase ''GP_S_Gen5_4'' ''General Purpose - Serverless''))
     = sqlServerlessTier
   \<and> map CostComponent.Name (snd (vCorePurchaseCostComponents example_pkg
         (example_MSSQLDatabase ''GP_S_Gen5_4'' ''General Purpose - Serverless'')))
       = [serverlessComputeName ''GP_S_Gen5_4'', ''Storage'', ''Long-term retention'']
   \<and> ToLower example_pkg (Tier (example_MSSQLDatabase ''GP_Gen5_4'' ''General Purpose'')) \<noteq> sqlServerlessTier
   \<and> hd (map CostComponent.Name (snd (vCorePurchaseCostComponents example_pkg
         (example_MSSQLDatabase ''GP_Gen5_4'' ''General Purpose''))))
       = provisionedComputeName ''GP_Gen5_4''
   \<and> ''SQL license'' \<in> set (map CostComponent.Name (snd (vCorePurchaseCostComponents example_pkg
         (example_MSSQLDatabase ''GP_Gen5_4'' ''General Purpose''))))
   \<and> \<not> dtuPurchase example_pkg (nodeSku (example_node (Some ''GP_Gen5_4'')))
   \<and> parseMSSQLSku (ResourceData.Address (example_node (Some ''GP_Gen5_4'')))
        (nodeSku (example_node (Some ''GP_Gen5_4'')))
       = Inr \<lparr> tier = ''General Purpose'', family = ''Compute Gen5'', cores = 4 \<rparr>
   \<and> LicenceType (populatedMSSQLDatabase (example_node (Some ''GP_Gen5_4''))
        (Some \<lparr> tier = ''General Purpose'', family = ''Compute Gen5'', cores = 4 \<rparr>) None)
       = ''LicenseIncluded''
   \<and> SQLDatabase.Cores (example_SQLDatabase ''GP_Gen5_4'' ''General Purpose'' (Some 4)) \<noteq> None
   \<and> (\<exists>cs. snd (vCorePurchaseCostComponents_SQLDatabase example_pkg
                   (example_SQLDatabase ''GP_Gen5_4'' ''General Purpose'' (Some 4))) = Inr cs
          \<and> hd (map CostComponent.Name cs) = provisionedComputeName ''GP_Gen5_4''
          \<and> ''SQL license'' \<in> set (map CostComponent.Name cs))"
proof -
  let ?r1 = "example_MSSQLDatabase ''GP_S_Gen5_4'' ''General Purpose - Serverless''"
  let ?r2 = "example_MSSQLDatabase ''GP_Gen5_4'' ''General Purpose''"
  let ?d = "example_node (Some ''GP_Gen5_4'')"
  let ?c = "\<lparr> tier = ''General Purpose'', family = ''Compute Gen5'', cores = 4 \<rparr>"
  let ?q = "example_SQLDatabase ''GP_Gen5_4'' ''General Purpose'' (Some 4)"
  have r1: "ToLower example_pkg (Tier ?r1) = sqlServerlessTier" "SKU ?r1 = ''GP_S_Gen5_4''"
    by (simp_all add: example_MSSQLDatabase_def ToLower_examples)
  have r2: "ToLower example_pkg (Tier ?r2) \<noteq> sqlServerlessTier" "SKU ?r2 = ''GP_Gen5_4''"
    "ToLower example_pkg (LicenceType ?r2) = ''licenseincluded''"
    by (simp_all add: example_MSSQLDatabase_def ToLower_examples)
  have d: "\<not> dtuPurchase example_pkg (nodeSku ?d)" "parseMSSQLSku (ResourceData.Address ?d) (nodeSku ?d) = Inr ?c"
    "license_type ?d = None"
    by (simp_all add: nodeSku_def example_node_def not_dtuPurchase_examples parse_GP_Gen5_4)
  have q: "SQLDatabase.Cores ?q \<noteq> None" "ToLower example_pkg (SQLDatabase.Tier ?q) \<noteq> sqlServerlessTier"
    "SQLDatabase.SKU ?q = ''GP_Gen5_4''" "ToLower example_pkg (SQLDatabase.LicenceType ?q) = ''licenseincluded''"
    by (simp_all add: example_SQLDatabase_def ToLower_examples)
  note T1 = C1_compute_and_license_components [of example_pkg ?r1 ?d ?c None ?q, unfolded Let_def]
  note T2 = C1_compute_and_license_components [of example_pkg ?r2 ?d ?c None ?q, unfolded Let_def]
  have a: "map CostComponent.Name (snd (vCorePurchaseCostComponents example_pkg ?r1))
      = [serverlessComputeName ''GP_S_Gen5_4'', ''Storage'', ''Long-term retention'']"
    using T1 [THEN conjunct1] r1 by simp
  have b: "hd (map CostComponent.Name (snd (vCorePurchaseCostComponents example_pkg ?r2)))
      = provisionedComputeName ''GP_Gen5_4''"
    and b': "''SQL license'' \<in> set (map CostComponent.Name
       (snd (vCorePurchaseCostComponents example_pkg ?r2)))"
    using T2 [THEN conjunct1] r2 by (simp_all del: set_map)
  have c: "LicenceType (populatedMSSQLDatabase ?d (Some ?c) None) = ''LicenseIncluded''"
    using T2 [THEN conjunct2, THEN conjunct1] d by simp
  have e: "\<exists>cs. snd (vCorePurchaseCostComponents_SQLDatabase example_pkg ?q) = Inr cs
          \<and> hd (map CostComponent.Name cs) = provisionedComputeName ''GP_Gen5_4''
          \<and> ''SQL license'' \<in> set (map CostComponent.Name cs)"
    using T2 [THEN conjunct2, THEN conjunct2] q by (auto simp del: set_map)
  show ?thesis
    using a b b' c e r1(1) r2(1) d(1,2) q(1) by blast
qed

section \<open>Components by name\<close>

lemma Quantity_storage:
  "MonthlyQuantity (mssqlStorageComponent env r) = (case MaxSizeGB r of None \<Rightarrow> Some 5 | Some m \<Rightarrow> Some m)"
  by (simp add: mssqlStorageComponent_def Let_def)

lemma Quantity_longTerm:
  "MonthlyQuantity (longTermRetentionMSSQLCostComponent env r) = LongTermRetentionStorageGB r"
  by (simp add: longTermRetentionMSSQLCostComponent_def Let_def split: option.splits)

lemma Quantity_readReplica:
  "HourlyQuantity (readReplicaCostComponent env r) = ReadReplicaCount r"
  "MonthlyQuantity (readReplicaCostComponent env r) = None"
  by (simp_all add: readReplicaCostComponent_def Let_def split: option.splits)

lemma Quantity_serverless:
  "MonthlyQuantity (serverlessComputeHoursCostComponent env r) = MonthlyVCoreHours r"
  "HourlyQuantity (serverlessComputeHoursCostComponent env r) = None"
  by (simp_all add: serverlessComputeHoursCostComponent_def Let_def split: option.splits)

lemma Quantity_extraData:
  "MonthlyQuantity (extraDataStorageComponent env region sn q pf) = q"
  by (simp add: extraDataStorageComponent_def)

lemma vCore_named:
  assumes "c \<in> set (snd (vCorePurchaseCostComponents env r))"
  shows "CostComponent.Name c = ''Storage'' \<Longrightarrow> c = mssqlStorageComponent env r"
    and "CostComponent.Name c = ''Long-term retention'' \<Longrightarrow> c = longTermRetentionMSSQLCostComponent env r"
    and "CostComponent.Name c = ''SQL license'' \<Longrightarrow> c = sqlLicenseCostComponent env r"
    and "CostComponent.Name c = ''Read replicas'' \<Longrightarrow> c = readReplicaCostComponent env r"
  using assms unfolding vCore_components
  by (auto simp: Name_simps compute_names_distinct split: if_splits)

lemma vCore_member:
  "mssqlStorageComponent env r \<in> set (snd (vCorePurchaseCostComponents env r))"
  "ToLower env (Tier r) \<noteq> sqlHyperscaleTier \<Longrightarrow>
     longTermRetentionMSSQLCostComponent env r \<in> set (snd (vCorePurchaseCostComponents env r))"
  "ToLower env (Tier r) = sqlHyperscaleTier \<Longrightarrow>
     readReplicaCostComponent env r \<in> set (snd (vCorePurchaseCostComponents env r))"
  "ToLower env (Tier r) \<noteq> sqlServerlessTier \<Longrightarrow> ToLower env (LicenceType r) = ''licenseincluded'' \<Longrightarrow>
     sqlLicenseCostComponent env r \<in> set (snd (vCorePurchaseCostComponents env r))"
  "ToLower env (Tier r) = sqlServerlessTier \<Longrightarrow>
     serverlessComputeHoursCostComponent env r \<in> set (snd (vCorePurchaseCostComponents env r))"
  unfolding vCore_components by simp_all

lemma dtu_cases:
  assumes "dtuPurchase env (SKU r)"
  obtains
    (basic) "ToLower env (SKU r) = ''basic''"
      "dtuPurchaseCostComponents env r =
         Inr [dtuComputeComponent env (MSSQLDatabase.Region r) (SKU r) ''b'' consumption,
              longTermRetentionMSSQLCostComponent env r]"
  | (other) c cs where "ToLower env (SKU r) \<noteq> ''basic''" "ToLower env (SKU r) = c # cs"
      "c = CHR ''s'' \<or> c = CHR ''p''"
      "dtuPurchaseCostComponents env r =
         Inr [dtuComputeComponent env (MSSQLDatabase.Region r) (SKU r) (ToLower env (SKU r)) consumption,
              extraDataStorageComponent env (MSSQLDatabase.Region r) (map_index tierMapping [c])
                (extraDataStorageGB env (map_index tierMapping [c]) (MaxSizeGB r) (ExtraDataStorageGB r))
                consumption,
              longTermRetentionMSSQLCostComponent env r]"
proof (cases "ToLower env (SKU r) = ''basic''")
  case True
  then show ?thesis using basic dtu_components_basic by blast
next
  case False
  with assms obtain c cs where c: "ToLower env (SKU r) = c # cs" "c = CHR ''s'' \<or> c = CHR ''p''"
    by (auto simp: dtuPurchase_def HasPrefix_single)
  show ?thesis
    using other [OF False c] dtu_components_other [OF False dtuPurchase_not_b [OF assms] c(1)]
    by blast
qed

lemma built_dtu:
  "dtuPurchase env (nodeSku d) \<Longrightarrow>
   builtComponents (NewAzureRMMSSQLDatabase env d u)
     = (case dtuPurchaseCostComponents env (populatedMSSQLDatabase d None u) of
          Inl p \<Rightarrow> None | Inr cs \<Rightarrow> Some cs)"
  by (simp add: builtComponents_def New_dtu BuildResource_dtu populated_fields split: sum.splits)

section \<open>Storage and long-term retention\<close>

text \<open>
  Claim C2, as stated, fails: it gives every SQL database with \<open>max_size_gb = 500\<close> a
  component \<open>Storage\<close>. A database of the DTU purchase model has none: the node below, with
  SKU \<open>S0\<close> and \<open>max_size_gb = 500\<close>, is built with a compute component, \<open>Extra data storage\<close>
  and \<open>Long-term retention\<close> only.
\<close>

theorem C2_counterexample:
  "max_size_gb (example_node (Some ''S0'')) = Some 500
   \<and> map_option (map CostComponent.Name)
        (builtComponents (NewAzureRMMSSQLDatabase example_pkg (example_node (Some ''S0'')) None))
      = Some [''Compute (S0)'', ''Extra data storage'', ''Long-term retention'']"
proof -
  have sku: "nodeSku (example_node (Some ''S0'')) = ''S0''"
    by (simp add: nodeSku_def example_node_def)
  have low: "ToLower example_pkg ''S0'' = ''s0''" and up: "ToTitle example_pkg ''S0'' = ''S0''"
    by (simp_all add: ToLower_def isASCII_def lower_char_def ToTitle_def upper_char_def)
  have "dtuPurchaseCostComponents example_pkg (populatedMSSQLDatabase (example_node (Some ''S0'')) None None)
      = Inr [dtuComputeComponent example_pkg
               (MSSQLDatabase.Region (populatedMSSQLDatabase (example_node (Some ''S0'')) None None))
               (SKU (populatedMSSQLDatabase (example_node (Some ''S0'')) None None))
               (ToLower example_pkg (SKU (populatedMSSQLDatabase (example_node (Some ''S0'')) None None))) consumption,
             extraDataStorageComponent example_pkg
               (MSSQLDatabase.Region (populatedMSSQLDatabase (example_node (Some ''S0'')) None None))
               (map_index tierMapping [CHR ''s''])
               (extraDataStorageGB example_pkg (map_index tierMapping [CHR ''s''])
                  (MaxSizeGB (populatedMSSQLDatabase (example_node (Some ''S0'')) None None))
                  (ExtraDataStorageGB (populatedMSSQLDatabase (example_node (Some ''S0'')) None None)))
               consumption,
             longTermRetentionMSSQLCostComponent example_pkg
               (populatedMSSQLDatabase (example_node (Some ''S0'')) None None)]"
    by (rule dtu_components_other) (simp_all add: populated_fields sku low)
  then have "map_option (map CostComponent.Name)
        (builtComponents (NewAzureRMMSSQLDatabase example_pkg (example_node (Some ''S0'')) None))
      = Some [''Compute (S0)'', ''Extra data storage'', ''Long-term retention'']"
    by (simp add: built_dtu sku not_dtuPurchase_examples Name_simps populated_fields up)
  moreover have "max_size_gb (example_node (Some ''S0'')) = Some 500"
    by (simp add: example_node_def)
  ultimately show ?thesis by simp
qed

text \<open>
  Claim C2, amended. The builder of \<open>azurerm_mssql_database\<close> reports, for every node of
  the vCore purchase model with \<open>max_size_gb = 500\<close>, a component \<open>Storage\<close> with monthly
  quantity 500, whatever the usage; and for every node that is not of the Hyperscale tier
  (of the vCore model, or of the DTU model) and has the usage
  \<open>long_term_retention_storage_gb = 100\<close>, a component \<open>Long-term retention\<close> with monthly
  quantity 100, whatever \<open>max_size_gb\<close> is. A node of the DTU purchase model has no
  component \<open>Storage\<close>.
\<close>

theorem C2_storage_and_retention_quantities:
  "(\<not> dtuPurchase env (nodeSku d) \<and> parseMSSQLSku (ResourceData.Address d) (nodeSku d) = Inr c \<longrightarrow>
      (\<exists>cs. builtComponents (NewAzureRMMSSQLDatabase env d u) = Some cs
         \<and> (max_size_gb d = Some 500 \<longrightarrow>
              (\<exists>s \<in> set cs. CostComponent.Name s = ''Storage'')
              \<and> (\<forall>s \<in> set cs. CostComponent.Name s = ''Storage'' \<longrightarrow> MonthlyQuantity s = Some 500))
         \<and> (usage_int u ''long_term_retention_storage_gb'' = Some 100
              \<and> ToLower env (tier c) \<noteq> sqlHyperscaleTier \<longrightarrow>
              (\<exists>l \<in> set cs. CostComponent.Name l = ''Long-term retention'')
              \<and> (\<forall>l \<in> set cs. CostComponent.Name l = ''Long-term retention''
                    \<longrightarrow> MonthlyQuantity l = Some 100))))
   \<and> (dtuPurchase env (nodeSku d) \<longrightarrow>
      (\<exists>cs. builtComponents (NewAzureRMMSSQLDatabase env d u) = Some cs
         \<and> (\<forall>s \<in> set cs. CostComponent.Name s \<noteq> ''Storage'')
         \<and> (usage_int u ''long_term_retention_storage_gb'' = Some 100 \<longrightarrow>
              (\<exists>l \<in> set cs. CostComponent.Name l = ''Long-term retention'')
              \<and> (\<forall>l \<in> set cs. CostComponent.Name l = ''Long-term retention''
                    \<longrightarrow> MonthlyQuantity l = Some 100))))"
proof (intro conjI impI)
  assume h: "\<not> dtuPurchase env (nodeSku d) \<and> parseMSSQLSku (ResourceData.Address d) (nodeSku d) = Inr c"
  let ?r = "populatedMSSQLDatabase d (Some c) u"
  let ?cs = "snd (vCorePurchaseCostComponents env ?r)"
  have built: "builtComponents (NewAzureRMMSSQLDatabase env d u) = Some ?cs"
    using h by (simp add: built_vCore)
  have storage: "max_size_gb d = Some 500 \<longrightarrow>
      (\<exists>s \<in> set ?cs. CostComponent.Name s = ''Storage'')
      \<and> (\<forall>s \<in> set ?cs. CostComponent.Name s = ''Storage'' \<longrightarrow> MonthlyQuantity s = Some 500)"
  proof (intro impI conjI ballI)
    show "\<exists>s \<in> set ?cs. CostComponent.Name s = ''Storage''"
      using vCore_member(1) [of env ?r] Name_storage by blast
  next
    fix s assume "max_size_gb d = Some 500" "s \<in> set ?cs" "CostComponent.Name s = ''Storage''"
    then show "MonthlyQuantity s = Some 500"
      using vCore_named(1) [of s env ?r] by (simp add: Quantity_storage populated_fields)
  qed
  have retention: "usage_int u ''long_term_retention_storage_gb'' = Some 100
      \<and> ToLower env (tier c) \<noteq> sqlHyperscaleTier \<longrightarrow>
      (\<exists>l \<in> set ?cs. CostComponent.Name l = ''Long-term retention'')
      \<and> (\<forall>l \<in> set ?cs. CostComponent.Name l = ''Long-term retention'' \<longrightarrow> MonthlyQuantity l = Some 100)"
  proof (intro impI conjI ballI)
    assume "usage_int u ''long_term_retention_storage_gb'' = Some 100
      \<and> ToLower env (tier c) \<noteq> sqlHyperscaleTier"
    then show "\<exists>l \<in> set ?cs. CostComponent.Name l = ''Long-term retention''"
      using vCore_member(2) [of env ?r] Name_longTerm by (auto simp: populated_fields)
  next
    fix l assume "usage_int u ''long_term_retention_storage_gb'' = Some 100
      \<and> ToLower env (tier c) \<noteq> sqlHyperscaleTier"
      "l \<in> set ?cs" "CostComponent.Name l = ''Long-term retention''"
    then show "MonthlyQuantity l = Some 100"
      using vCore_named(2) [of l env ?r] by (simp add: Quantity_longTerm populated_fields)
  qed
  show "\<exists>cs. builtComponents (NewAzureRMMSSQLDatabase env d u) = Some cs
         \<and> (max_size_gb d = Some 500 \<longrightarrow>
              (\<exists>s \<in> set cs. CostComponent.Name s = ''Storage'')
              \<and> (\<forall>s \<in> set cs. CostComponent.Name s = ''Storage'' \<longrightarrow> MonthlyQuantity s = Some 500))
         \<and> (usage_int u ''long_term_retention_storage_gb'' = Some 100
              \<and> ToLower env (tier c) \<noteq> sqlHyperscaleTier \<longrightarrow>
              (\<exists>l \<in> set cs. CostComponent.Name l = ''Long-term retention'')
              \<and> (\<forall>l \<in> set cs. CostComponent.Name l = ''Long-term retention''
                    \<longrightarrow> MonthlyQuantity l = Some 100))"
    using built storage retention by blast
next
  assume h: "dtuPurchase env (nodeSku d)"
  let ?r = "populatedMSSQLDatabase d None u"
  have dtu: "dtuPurchase env (SKU ?r)" using h by (simp add: populated_fields)
  have lt: "MonthlyQuantity (longTermRetentionMSSQLCostComponent env ?r)
      = usage_int u ''long_term_retention_storage_gb''"
    by (simp add: Quantity_longTerm populated_fields)
  from dtu show "\<exists>cs. builtComponents (NewAzureRMMSSQLDatabase env d u) = Some cs
         \<and> (\<forall>s \<in> set cs. CostComponent.Name s \<noteq> ''Storage'')
         \<and> (usage_int u ''long_term_retention_storage_gb'' = Some 100 \<longrightarrow>
              (\<exists>l \<in> set cs. CostComponent.Name l = ''Long-term retention'')
              \<and> (\<forall>l \<in> set cs. CostComponent.Name l = ''Long-term retention''
                    \<longrightarrow> MonthlyQuantity l = Some 100))"
  proof (cases rule: dtu_cases [where env = env])
    case basic
    then show ?thesis
      using lt by (simp add: built_dtu h Name_simps)
  next
    case (other c cs)
    then show ?thesis
      using lt by (simp add: built_dtu h Name_simps)
  qed
qed

theorem C2_witness:
  "\<not> dtuPurchase example_pkg (nodeSku (example_node (Some ''GP_Gen5_4'')))
   \<and> parseMSSQLSku (ResourceData.Address (example_node (Some ''GP_Gen5_4'')))
        (nodeSku (example_node (Some ''GP_Gen5_4'')))
       = Inr \<lparr> tier = ''General Purpose'', family = ''Compute Gen5'', cores = 4 \<rparr>
   \<and> max_size_gb (example_node (Some ''GP_Gen5_4'')) = Some 500
   \<and> usage_int (Some [''long_term_retention_storage_gb'' \<mapsto> 100]) ''long_term_retention_storage_gb''
       = Some 100
   \<and> (\<exists>cs. builtComponents (NewAzureRMMSSQLDatabase example_pkg (example_node (Some ''GP_Gen5_4''))
                (Some [''long_term_retention_storage_gb'' \<mapsto> 100])) = Some cs
         \<and> (\<exists>s \<in> set cs. CostComponent.Name s = ''Storage'' \<and> MonthlyQuantity s = Some 500)
         \<and> (\<exists>l \<in> set cs. CostComponent.Name l = ''Long-term retention''
               \<and> MonthlyQuantity l = Some 100))
   \<and> dtuPurchase example_pkg (nodeSku (example_node (Some ''S0'')))
   \<and> (\<exists>cs. builtComponents (NewAzureRMMSSQLDatabase example_pkg (example_node (Some ''S0''))
                (Some [''long_term_retention_storage_gb'' \<mapsto> 100])) = Some cs
         \<and> (\<forall>s \<in> set cs. CostComponent.Name s \<noteq> ''Storage'')
         \<and> (\<exists>l \<in> set cs. CostComponent.Name l = ''Long-term retention''
               \<and> MonthlyQuantity l = Some 100))"
proof -
  let ?d1 = "example_node (Some ''GP_Gen5_4'')"
  let ?d2 = "example_node (Some ''S0'')"
  let ?c = "\<lparr> tier = ''General Purpose'', family = ''Compute Gen5'', cores = 4 \<rparr>"
  let ?u = "Some [''long_term_retention_storage_gb'' \<mapsto> (100::int)]"
  have d1: "\<not> dtuPurchase example_pkg (nodeSku ?d1)"
    "parseMSSQLSku (ResourceData.Address ?d1) (nodeSku ?d1) = Inr ?c"
    "max_size_gb ?d1 = Some 500"
    by (simp_all add: nodeSku_def example_node_def not_dtuPurchase_examples parse_GP_Gen5_4)
  have u: "usage_int ?u ''long_term_retention_storage_gb'' = Some 100"
    by (simp add: usage_int_def)
  have t: "ToLower example_pkg (tier ?c) \<noteq> sqlHyperscaleTier"
    by (simp add: ToLower_examples)
  have d2: "dtuPurchase example_pkg (nodeSku ?d2)"
    by (simp add: nodeSku_def example_node_def not_dtuPurchase_examples)
  have a: "\<exists>cs. builtComponents (NewAzureRMMSSQLDatabase example_pkg ?d1 ?u) = Some cs
         \<and> (\<exists>s \<in> set cs. CostComponent.Name s = ''Storage'' \<and> MonthlyQuantity s = Some 500)
         \<and> (\<exists>l \<in> set cs. CostComponent.Name l = ''Long-term retention''
               \<and> MonthlyQuantity l = Some 100)"
    using C2_storage_and_retention_quantities
        [where d = ?d1 and c = ?c and env = example_pkg and u = ?u, THEN conjunct1] d1 u t
    by blast
  have b: "\<exists>cs. builtComponents (NewAzureRMMSSQLDatabase example_pkg ?d2 ?u) = Some cs
         \<and> (\<forall>s \<in> set cs. CostComponent.Name s \<noteq> ''Storage'')
         \<and> (\<exists>l \<in> set cs. CostComponent.Name l = ''Long-term retention''
               \<and> MonthlyQuantity l = Some 100)"
    using C2_storage_and_retention_quantities
        [where d = ?d2 and c = ?c and env = example_pkg and u = ?u, THEN conjunct2] d2 u
    by blast
  show ?thesis
    using d1 u d2 a b by blast
qed

section \<open>Parsing the SKU\<close>

lemma Split_not_Nil: "Split s c \<noteq> []"
  by (induction s) (auto split: list.splits)

lemma Join_Cons: "xs \<noteq> [] \<Longrightarrow> Join (a # xs) sep = a @ sep @ Join xs sep"
  by (cases xs) simp_all

lemma Join_Split: "Join (Split s c) [c] = s"
proof (induction s)
  case Nil
  show ?case by simp
next
  case (Cons x s)
  show ?case
  proof (cases "x = c")
    case True
    then show ?thesis using Cons by (simp add: Join_Cons Split_not_Nil)
  next
    case False
    obtain p ps where ps: "Split s c = p # ps"
      using Split_not_Nil [of s c] by (cases "Split s c") auto
    show ?thesis
    proof (cases ps)
      case Nil
      then show ?thesis using Cons ps False by simp
    next
      case (Cons q qs)
      then show ?thesis using Cons.IH ps False by simp
    qed
  qed
qed

lemma Join_snoc2: "xs \<noteq> [] \<Longrightarrow> Join (xs @ [a, b]) sep = Join xs sep @ sep @ a @ sep @ b"
proof (induction xs)
  case Nil
  then show ?case by simp
next
  case (Cons x xs)
  show ?case
  proof (cases xs)
    case Nil
    then show ?thesis by simp
  next
    case (Cons y ys)
    then show ?thesis using Cons.IH by (simp add: Join_Cons)
  qed
qed

lemma last_two:
  assumes "3 \<le> length s"
  shows "s = take (length s - 2) s @ [s ! (length s - 2), s ! (length s - 1)]"
proof -
  have "drop (length s - 2) s = [s ! (length s - 2), s ! (length s - 1)]"
  proof -
    have l: "length (drop (length s - 2) s) = 2" using assms by simp
    then obtain a b where ab: "drop (length s - 2) s = [a, b]"
      by (cases "drop (length s - 2) s"; cases "tl (drop (length s - 2) s)") auto
    have "a = s ! (length s - 2)"
      using ab assms nth_drop [of "length s - 2" s 0] by simp
    moreover have "b = s ! (length s - 1)"
    proof -
      have "drop (length s - 2) s ! 1 = s ! (length s - 2 + 1)"
        using assms by (intro nth_drop) simp
      moreover have "length s - 2 + 1 = length s - 1" using assms by simp
      ultimately show ?thesis using ab by simp
    qed
    ultimately show ?thesis using ab by simp
  qed
  then show ?thesis by (metis append_take_drop_id)
qed

lemma sku_of_segments:
  assumes "s = Split sku CHR ''_''" "3 \<le> length s"
  shows "sku = Join (take (length s - 2) s) ''_'' @ ''_'' @ s ! (length s - 2) @ ''_'' @ s ! (length s - 1)"
proof -
  have ne: "take (length s - 2) s \<noteq> []" using assms(2) by auto
  have "sku = Join s ''_''" using assms(1) Join_Split [of sku "CHR ''_''"] by simp
  also have "\<dots> = Join (take (length s - 2) s @ [s ! (length s - 2), s ! (length s - 1)]) ''_''"
    using last_two [OF assms(2)] by simp
  also have "\<dots> = Join (take (length s - 2) s) ''_'' @ ''_'' @ s ! (length s - 2) @ ''_'' @ s ! (length s - 1)"
    by (rule Join_snoc2 [OF ne])
  finally show ?thesis .
qed

lemma tierOfKey_dom: "tierOfKey k = Some t \<Longrightarrow> k \<in> set [''GP'', ''GP_S'', ''HS'', ''BC'']"
  by (auto simp: tierOfKey_def split: if_splits)

lemma familyOfKey_dom: "familyOfKey k = Some f \<Longrightarrow> k \<in> set [''Gen5'', ''Gen4'', ''M'']"
  by (auto simp: familyOfKey_def split: if_splits)

lemma ParseInt_literal: "ParseInt s = Inr n \<Longrightarrow> integer_literal s"
  by (cases s) (auto simp: ParseInt_def integer_literal_def Let_def split: if_splits)

lemma HasPrefix_append: "HasPrefix (p @ s) p"
  by (induction p) simp_all

lemma parse_well_formed:
  assumes "parseMSSQLSku a sku = Inr c"
  shows "sku_tier_family_cores sku"
proof -
  let ?s = "Split sku CHR ''_''"
  let ?tk = "Join (take (length ?s - 2) ?s) ''_''"
  let ?fk = "?s ! (length ?s - 2)"
  let ?ck = "?s ! (length ?s - 1)"
  from assms have len: "3 \<le> length ?s"
    by (auto simp: parseMSSQLSku_def Let_def split: if_splits)
  from assms len obtain t where t: "tierOfKey ?tk = Some t"
    by (auto simp: parseMSSQLSku_def Let_def split: if_splits option.splits)
  from assms len t obtain f where f: "familyOfKey ?fk = Some f"
    by (auto simp: parseMSSQLSku_def Let_def split: if_splits option.splits)
  from assms len t f obtain n where n: "ParseInt ?ck = Inr n"
    by (auto simp: parseMSSQLSku_def Let_def split: if_splits option.splits sum.splits)
  have sku: "sku = (?tk @ ''_'' @ ?fk @ ''_'') @ ?ck"
    using sku_of_segments [OF refl len] by simp
  have pre: "HasPrefix sku (?tk @ ''_'' @ ?fk @ ''_'')"
    using HasPrefix_append [of "?tk @ ''_'' @ ?fk @ ''_''" ?ck] sku by simp
  have rest: "drop (length (?tk @ ''_'' @ ?fk @ ''_'')) sku = ?ck"
    using sku by (metis append_eq_conv_conj)
  have "integer_literal (drop (length (?tk @ ''_'' @ ?fk @ ''_'')) sku)"
    using ParseInt_literal [OF n] rest by simp
  with pre tierOfKey_dom [OF t] familyOfKey_dom [OF f] show ?thesis
    unfolding sku_tier_family_cores_def list_ex_iff by blast
qed

lemma Contains_middle: "Contains (a @ b @ c) b"
proof (induction a)
  case Nil
  show ?case by (cases "b @ c") (simp_all add: HasPrefix_append, metis HasPrefix_append)
next
  case (Cons x a)
  then show ?case by simp
qed

lemma parse_error_names_address:
  assumes "parseMSSQLSku a sku = Inl e"
  shows "Contains (error_message e) a"
proof -
  from assms obtain pre where "error_message e = pre @ a @ '': '' @ sku"
    by (auto simp: parseMSSQLSku_def Let_def error_message_def
        split: if_splits option.splits sum.splits)
  then show ?thesis using Contains_middle [of pre a "'': '' @ sku"] by simp
qed

section \<open>An unsupported SKU\<close>

lemma sprintf_plain_no_percent: "CHR ''%'' \<notin> set s \<Longrightarrow> sprintf_plain s = Some s"
  by (induction s rule: sprintf_plain.induct) auto

lemma Sprintf_no_percent: "CHR ''%'' \<notin> set s \<Longrightarrow> Sprintf_no_operands env s = s"
  by (simp add: Sprintf_no_operands_def sprintf_plain_no_percent)

lemma parse_error_percent:
  assumes "parseMSSQLSku a sku = Inl e" "CHR ''%'' \<notin> set a" "CHR ''%'' \<notin> set sku"
  shows "CHR ''%'' \<notin> set (error_message e)"
  using assms
  by (auto simp: parseMSSQLSku_def Let_def error_message_def
      split: if_splits option.splits sum.splits)

text \<open>
  What the builder does on a SKU that is neither of the DTU purchase model nor reads
  \<open>tier_family_cores\<close>: it returns no resource, normally, and logs one line. The line is
  the error message of \<open>parseMSSQLSku\<close>, which names the address of the node, passed to
  \<open>log.Warnf\<close> as the format string. When neither the address nor the SKU has a \<open>%\<close>, the
  line is the message.
\<close>

lemma unsupported_sku_is_skipped:
  assumes "ToLower env (nodeSku d) \<noteq> ''basic''"
    and "\<not> HasPrefix (ToLower env (nodeSku d)) ''s''"
    and "\<not> HasPrefix (ToLower env (nodeSku d)) ''p''"
    and "\<not> sku_tier_family_cores (nodeSku d)"
  shows "\<exists>msg. NewAzureRMMSSQLDatabase env d u = ([Warnf (Sprintf_no_operands env msg)], Inr None)
           \<and> Contains msg (ResourceData.Address d)
           \<and> (CHR ''%'' \<notin> set (ResourceData.Address d) \<and> CHR ''%'' \<notin> set (nodeSku d)
                \<longrightarrow> Sprintf_no_operands env msg = msg)"
proof -
  have v: "\<not> dtuPurchase env (nodeSku d)"
    using assms(1-3) by (simp add: dtuPurchase_def)
  obtain e where e: "parseMSSQLSku (ResourceData.Address d) (nodeSku d) = Inl e"
    using assms(4) parse_well_formed [of "ResourceData.Address d" "nodeSku d"]
    by (cases "parseMSSQLSku (ResourceData.Address d) (nodeSku d)") auto
  have "NewAzureRMMSSQLDatabase env d u
      = ([Warnf (Sprintf_no_operands env (error_message e))], Inr None)"
    by (rule New_unparsed [OF v e])
  moreover have "Contains (error_message e) (ResourceData.Address d)"
    by (rule parse_error_names_address [OF e])
  moreover have "CHR ''%'' \<notin> set (ResourceData.Address d) \<and> CHR ''%'' \<notin> set (nodeSku d)
      \<longrightarrow> Sprintf_no_operands env (error_message e) = error_message e"
    using parse_error_percent [OF e] by (simp add: Sprintf_no_percent)
  ultimately show ?thesis by blast
qed

lemma unsupported_sku_example:
  "\<exists>msg. NewAzureRMMSSQLDatabase example_pkg (example_node (Some ''XX_Gen5_4'')) None
            = ([Warnf msg], Inr None)
     \<and> Contains msg (ResourceData.Address (example_node (Some ''XX_Gen5_4'')))"
proof -
  let ?d = "example_node (Some ''XX_Gen5_4'')"
  have sku: "nodeSku ?d = ''XX_Gen5_4''"
    by (simp add: nodeSku_def example_node_def)
  have low: "ToLower example_pkg ''XX_Gen5_4'' = ''xx_gen5_4''"
    by (simp add: ToLower_def isASCII_def lower_char_def)
  have h: "ToLower example_pkg (nodeSku ?d) \<noteq> ''basic''"
    "\<not> HasPrefix (ToLower example_pkg (nodeSku ?d)) ''s''"
    "\<not> HasPrefix (ToLower example_pkg (nodeSku ?d)) ''p''"
    "\<not> sku_tier_family_cores (nodeSku ?d)"
    by (simp_all add: sku low sku_tier_family_cores_def)
  have p: "CHR ''%'' \<notin> set (ResourceData.Address ?d) \<and> CHR ''%'' \<notin> set (nodeSku ?d)"
    unfolding sku by (simp add: example_node_def)
  show ?thesis
    using unsupported_sku_is_skipped [OF h, of None] p by auto
qed

text \<open>
  Claim C4 has the builder report the skip with a warning that names the address of the
  resource. The builder skips the node as the claim says, and builds a message that names
  the address; it then passes the message to \<open>log.Warnf\<close> as the format string, so a \<open>%\<close>
  of the address is read as the start of a verb. For the node below, of address
  \<open>azurerm_mssql_database.db["100%"]\<close> and SKU \<open>XX_Gen5_4\<close>, which is not of the DTU
  purchase model and does not read \<open>tier_family_cores\<close>, the builder returns no resource,
  and the one line it logs reads \<open>db["100%!"(MISSING)]\<close> where the address has
  \<open>db["100%"]\<close>: the address is not in the line.
\<close>

theorem C4_warning_misses_address:
  "\<not> dtuPurchase example_pkg (nodeSku (example_keyed_node (Some ''XX_Gen5_4'')))
   \<and> \<not> sku_tier_family_cores (nodeSku (example_keyed_node (Some ''XX_Gen5_4'')))
   \<and> NewAzureRMMSSQLDatabase example_pkg (example_keyed_node (Some ''XX_Gen5_4'')) None
       = ([Warnf (''Invalid tier in MSSQL SKU for resource azurerm_mssql_database.db[''
                  @ [CHR 0x22] @ ''100%!'' @ [CHR 0x22] @ ''(MISSING)]: XX_Gen5_4'')],
          Inr None)
   \<and> \<not> Contains (''Invalid tier in MSSQL SKU for resource azurerm_mssql_database.db[''
                   @ [CHR 0x22] @ ''100%!'' @ [CHR 0x22] @ ''(MISSING)]: XX_Gen5_4'')
          (ResourceData.Address (example_keyed_node (Some ''XX_Gen5_4'')))"
proof -
  let ?d = "example_keyed_node (Some ''XX_Gen5_4'')"
  have sku: "nodeSku ?d = ''XX_Gen5_4''"
    by (simp add: nodeSku_def example_keyed_node_def example_node_def)
  have adr: "ResourceData.Address ?d = example_keyed_address"
    by (simp add: example_keyed_node_def)
  have low: "ToLower example_pkg ''XX_Gen5_4'' = ''xx_gen5_4''"
    by (simp add: ToLower_def isASCII_def lower_char_def)
  have v: "\<not> dtuPurchase example_pkg (nodeSku ?d)"
    by (simp add: sku dtuPurchase_def low)
  have w: "\<not> sku_tier_family_cores (nodeSku ?d)"
    by (simp add: sku sku_tier_family_cores_def)
  have e: "parseMSSQLSku (ResourceData.Address ?d) (nodeSku ?d)
      = Inl (Errorf (''Invalid tier in MSSQL SKU for resource '' @ example_keyed_address
                     @ '': XX_Gen5_4''))"
    by (simp add: sku adr parseMSSQLSku_def tierOfKey_def Let_def)
  have f: "Sprintf_no_operands example_pkg
        (''Invalid tier in MSSQL SKU for resource '' @ example_keyed_address @ '': XX_Gen5_4'')
      = ''Invalid tier in MSSQL SKU for resource azurerm_mssql_database.db[''
          @ [CHR 0x22] @ ''100%!'' @ [CHR 0x22] @ ''(MISSING)]: XX_Gen5_4''"
    by (simp add: Sprintf_no_operands_def example_keyed_address_def plain_verb_def)
  have n: "NewAzureRMMSSQLDatabase example_pkg ?d None
      = ([Warnf (''Invalid tier in MSSQL SKU for resource azurerm_mssql_database.db[''
                  @ [CHR 0x22] @ ''100%!'' @ [CHR 0x22] @ ''(MISSING)]: XX_Gen5_4'')],
          Inr None)"
    unfolding New_unparsed [OF v e] by (simp only: error_message_def error.case f)
  have c: "\<not> Contains (''Invalid tier in MSSQL SKU for resource azurerm_mssql_database.db[''
                   @ [CHR 0x22] @ ''100%!'' @ [CHR 0x22] @ ''(MISSING)]: XX_Gen5_4'')
          (ResourceData.Address ?d)"
    by (simp add: adr example_keyed_address_def)
  show ?thesis using v w n c by (intro conjI)
qed

section \<open>Components of \<open>SQLDatabase\<close> by name\<close>

lemma dtu_SQLDatabase_basic:
  "ToLower env (SQLDatabase.SKU r) = ''basic'' \<or> ToLower env (SQLDatabase.SKU r) = ''b'' \<Longrightarrow>
   dtuPurchaseCostComponents_SQLDatabase env r =
     Inr [dtuComputeComponent env (SQLDatabase.Region r) (SQLDatabase.SKU r) ''b''
            (priceFilterConsumption env),
          longTermRetentionMSSQLCostComponent_SQLDatabase env r]"
  by (auto simp: dtuPurchaseCostComponents_SQLDatabase_def Let_def append_component_def)

lemma dtu_SQLDatabase_empty:
  "ToLower env (SQLDatabase.SKU r) = [] \<Longrightarrow>
   dtuPurchaseCostComponents_SQLDatabase env r = Inl SliceBoundsOutOfRange"
  by (simp add: dtuPurchaseCostComponents_SQLDatabase_def Let_def append_component_def
      extraDataStorageCostComponent_SQLDatabase_def slice_to_1_def)

lemma dtu_SQLDatabase_other:
  "ToLower env (SQLDatabase.SKU r) \<noteq> ''basic'' \<Longrightarrow> ToLower env (SQLDatabase.SKU r) \<noteq> ''b'' \<Longrightarrow>
   ToLower env (SQLDatabase.SKU r) = c # cs \<Longrightarrow>
   dtuPurchaseCostComponents_SQLDatabase env r =
     Inr [dtuComputeComponent env (SQLDatabase.Region r) (SQLDatabase.SKU r)
            (ToLower env (SQLDatabase.SKU r)) (priceFilterConsumption env),
          extraDataStorageComponent env (SQLDatabase.Region r) (map_index tierMapping [c])
            (extraDataStorageGB env (map_index tierMapping [c]) (SQLDatabase.MaxSizeGB r)
               (SQLDatabase.ExtraDataStorageGB r))
            (priceFilterConsumption env),
          longTermRetentionMSSQLCostComponent_SQLDatabase env r]"
  by (simp add: dtuPurchaseCostComponents_SQLDatabase_def Let_def append_component_def
      extraDataStorageCostComponent_SQLDatabase_def slice_to_1_def)

lemma BuildResource_SQLDatabase_dtu:
  "SQLDatabase.Cores r = None \<Longrightarrow>
   snd (BuildResource_SQLDatabase env r) =
     (case dtuPurchaseCostComponents_SQLDatabase env r of
        Inl p \<Rightarrow> Inl p
      | Inr cs \<Rightarrow> Inr \<lparr> Resource.Name = SQLDatabase.Address r, UsageSchema = mssqlUsageSchema,
                        CostComponents = cs \<rparr>)"
  by (simp add: BuildResource_SQLDatabase_def costComponents_SQLDatabase_def split: sum.splits)

lemma dtu_SQLDatabase_names:
  assumes "dtuPurchaseCostComponents_SQLDatabase env r = Inr cs" "c \<in> set cs"
  shows "CostComponent.Name c \<noteq> ''SQL license''" "CostComponent.Name c \<noteq> ''Storage''"
    "CostComponent.Name c \<noteq> ''Read replicas''"
proof -
  have "CostComponent.Name c \<noteq> ''SQL license'' \<and> CostComponent.Name c \<noteq> ''Storage''
      \<and> CostComponent.Name c \<noteq> ''Read replicas''"
  proof (cases "ToLower env (SQLDatabase.SKU r) = ''basic'' \<or> ToLower env (SQLDatabase.SKU r) = ''b''")
    case True
    then show ?thesis
      using assms dtu_SQLDatabase_basic [OF True]
      by (auto simp: Name_simps Name_SQLDatabase_simps)
  next
    case False
    show ?thesis
    proof (cases "ToLower env (SQLDatabase.SKU r)")
      case Nil
      then show ?thesis using assms dtu_SQLDatabase_empty [where r = r and env = env] by simp
    next
      case (Cons x xs)
      then show ?thesis
        using assms False dtu_SQLDatabase_other [where r = r and c = x and cs = xs and env = env]
        by (auto simp: Name_simps Name_SQLDatabase_simps)
    qed
  qed
  then show "CostComponent.Name c \<noteq> ''SQL license''" "CostComponent.Name c \<noteq> ''Storage''"
    "CostComponent.Name c \<noteq> ''Read replicas''"
    by simp_all
qed

lemma dtu_names:
  assumes "dtuPurchaseCostComponents env r = Inr cs" "c \<in> set cs"
  shows "CostComponent.Name c \<noteq> ''SQL license''" "CostComponent.Name c \<noteq> ''Storage''"
    "CostComponent.Name c \<noteq> ''Read replicas''"
proof -
  have "CostComponent.Name c \<noteq> ''SQL license'' \<and> CostComponent.Name c \<noteq> ''Storage''
      \<and> CostComponent.Name c \<noteq> ''Read replicas''"
    using assms
    by (auto simp: dtuPurchaseCostComponents_def Let_def Name_simps
        split: if_splits sum.splits)
  then show "CostComponent.Name c \<noteq> ''SQL license''" "CostComponent.Name c \<noteq> ''Storage''"
    "CostComponent.Name c \<noteq> ''Read replicas''"
    by simp_all
qed

lemma license_region:
  "map_option ProductFilter.Region (ProductFilter (sqlLicenseCostComponent env r))
     = Some (Some (licenseRegionOf (MSSQLDatabase.Region r)))"
  by (simp add: sqlLicenseCostComponent_def sqlProductFilter_def)

lemma BuildResource_license:
  assumes "snd (BuildResource env r) = Inr res" "c \<in> set (CostComponents res)"
    "CostComponent.Name c = ''SQL license''"
  shows "c = sqlLicenseCostComponent env r"
proof (cases "dtuPurchase env (SKU r)")
  case True
  then show ?thesis
    using assms dtu_names(1) [of env r _ c]
    by (auto simp: BuildResource_dtu split: sum.splits)
next
  case False
  then show ?thesis
    using assms vCore_named(3) [of c env r] by (auto simp: BuildResource_vCore)
qed

lemma BuildResource_SQLDatabase_license:
  assumes "snd (BuildResource_SQLDatabase env q) = Inr res" "c \<in> set (CostComponents res)"
    "CostComponent.Name c = ''SQL license''"
  shows "map_option ProductFilter.Region (ProductFilter c)
     = Some (Some (licenseRegionOf (SQLDatabase.Region q)))"
proof (cases "SQLDatabase.Cores q")
  case None
  then show ?thesis
    using assms dtu_SQLDatabase_names(1) [of env q _ c]
    by (auto simp: BuildResource_SQLDatabase_dtu split: sum.splits)
next
  case (Some n)
  obtain lg p rr lic where
    p: "provisionedComputeCostComponent_SQLDatabase env q = Inr (lg, p)" and
    rr: "readReplicaCostComponent_SQLDatabase env q = Inr rr" and
    lic: "sqlLicenseCostComponent_SQLDatabase env q = Inr lic" and
    cs: "snd (vCorePurchaseCostComponents_SQLDatabase env q) =
       Inr ((if ToLower env (SQLDatabase.Tier q) = sqlServerlessTier
             then [serverlessComputeHoursCostComponent_SQLDatabase env q] else [p])
            @ (if ToLower env (SQLDatabase.Tier q) = sqlHyperscaleTier then [rr] else [])
            @ (if ToLower env (SQLDatabase.Tier q) \<noteq> sqlServerlessTier
                  \<and> ToLower env (SQLDatabase.LicenceType q) = ''licenseincluded''
               then [lic] else [])
            @ [mssqlStorageComponent_SQLDatabase env q]
            @ (if ToLower env (SQLDatabase.Tier q) \<noteq> sqlHyperscaleTier
               then [longTermRetentionMSSQLCostComponent_SQLDatabase env q] else []))"
    using vCore_components_SQLDatabase [OF Some] by blast
  have np: "CostComponent.Name p = provisionedComputeName (SQLDatabase.SKU q)"
    using provisioned_SQLDatabase [OF Some, of env] p by simp
  have nrr: "CostComponent.Name rr = ''Read replicas''"
    using readReplica_SQLDatabase [OF Some, of env] rr by simp
  have "c = lic"
    using assms unfolding BuildResource_SQLDatabase_vCore [OF Some] cs
    by (auto simp: np nrr Name_SQLDatabase_simps compute_names_distinct split: if_splits)
  then show ?thesis
    using sqlLicense_SQLDatabase [OF Some, of env] lic by simp
qed

lemma licenseRegionOf_cases:
  "licenseRegionOf x =
     (if Contains x ''germany'' then ''Germany''
      else if Contains x ''china'' then ''China''
      else if Contains x ''usgov'' then ''US Gov''
      else ''Global'')"
  by (simp add: licenseRegionOf_def Let_def)

lemma licenseRegionOf_fixed: "(licenseRegionOf x = x) = (x = ''Global'')"
proof
  assume "licenseRegionOf x = x"
  then show "x = ''Global''"
    unfolding licenseRegionOf_cases
    by (auto split: if_splits)
next
  assume "x = ''Global''"
  then show "licenseRegionOf x = x"
    by (simp add: licenseRegionOf_cases)
qed

section \<open>The region of the licence component\<close>

text \<open>
  Claim C9, as stated, fails in one case: it says that the region of the product filter of
  the component \<open>SQL license\<close> is not the region of the resource. For a resource whose
  region is the string \<open>Global\<close> no substring test matches, the licence region is the default
  \<open>Global\<close>, and the two are equal.
\<close>

theorem C9_counterexample:
  "sqlLicenseCostComponent example_pkg
      ((example_MSSQLDatabase ''GP_Gen5_4'' ''General Purpose'')\<lparr> MSSQLDatabase.Region := ''Global'' \<rparr>)
     \<in> set (snd (vCorePurchaseCostComponents example_pkg
          ((example_MSSQLDatabase ''GP_Gen5_4'' ''General Purpose'')\<lparr> MSSQLDatabase.Region := ''Global'' \<rparr>)))
   \<and> map_option ProductFilter.Region (ProductFilter (sqlLicenseCostComponent example_pkg
        ((example_MSSQLDatabase ''GP_Gen5_4'' ''General Purpose'')\<lparr> MSSQLDatabase.Region := ''Global'' \<rparr>)))
      = Some (Some (MSSQLDatabase.Region
          ((example_MSSQLDatabase ''GP_Gen5_4'' ''General Purpose'')\<lparr> MSSQLDatabase.Region := ''Global'' \<rparr>)))"
proof -
  let ?r = "(example_MSSQLDatabase ''GP_Gen5_4'' ''General Purpose'')\<lparr> MSSQLDatabase.Region := ''Global'' \<rparr>"
  have t: "ToLower example_pkg (Tier ?r) \<noteq> sqlServerlessTier" "ToLower example_pkg (LicenceType ?r) = ''licenseincluded''"
    by (simp_all add: example_MSSQLDatabase_def ToLower_examples)
  have "sqlLicenseCostComponent example_pkg ?r \<in> set (snd (vCorePurchaseCostComponents example_pkg ?r))"
    by (rule vCore_member(4) [OF t])
  moreover have "licenseRegionOf (MSSQLDatabase.Region ?r) = MSSQLDatabase.Region ?r"
    by (simp add: licenseRegionOf_fixed)
  ultimately show ?thesis
    by (simp add: license_region)
qed

text \<open>
  Claim C9, amended. For every database that has a component \<open>SQL license\<close>, the region of
  the product filter of that component is one of \<open>US Gov\<close>, \<open>China\<close>, \<open>Germany\<close> and \<open>Global\<close>:
  it is chosen by substring tests on the region of the resource, for \<open>usgov\<close>, \<open>china\<close> and
  \<open>germany\<close> in that order, a later match overriding an earlier one, and is \<open>Global\<close> when
  none matches. It differs from the region of the resource unless that region is itself the
  string \<open>Global\<close>. This holds for \<open>MSSQLDatabase\<close> and for \<open>SQLDatabase\<close>.
\<close>

theorem C9_license_region:
  "(\<forall>res. snd (BuildResource env r) = Inr res \<longrightarrow>
      (\<forall>c \<in> set (CostComponents res). CostComponent.Name c = ''SQL license'' \<longrightarrow>
         map_option ProductFilter.Region (ProductFilter c)
           = Some (Some (licenseRegionOf (MSSQLDatabase.Region r)))))
   \<and> (\<forall>res. snd (BuildResource_SQLDatabase env q) = Inr res \<longrightarrow>
      (\<forall>c \<in> set (CostComponents res). CostComponent.Name c = ''SQL license'' \<longrightarrow>
         map_option ProductFilter.Region (ProductFilter c)
           = Some (Some (licenseRegionOf (SQLDatabase.Region q)))))
   \<and> licenseRegionOf x =
       (if Contains x ''germany'' then ''Germany''
        else if Contains x ''china'' then ''China''
        else if Contains x ''usgov'' then ''US Gov''
        else ''Global'')
   \<and> licenseRegionOf x \<in> set [''US Gov'', ''China'', ''Germany'', ''Global'']
   \<and> (licenseRegionOf x = x) = (x = ''Global'')"
proof (intro conjI allI impI ballI)
  fix res c
  assume "snd (BuildResource env r) = Inr res" "c \<in> set (CostComponents res)"
    "CostComponent.Name c = ''SQL license''"
  then have "c = sqlLicenseCostComponent env r" by (rule BuildResource_license)
  then show "map_option ProductFilter.Region (ProductFilter c)
      = Some (Some (licenseRegionOf (MSSQLDatabase.Region r)))"
    by (simp add: license_region)
next
  fix res c
  assume "snd (BuildResource_SQLDatabase env q) = Inr res" "c \<in> set (CostComponents res)"
    "CostComponent.Name c = ''SQL license''"
  then show "map_option ProductFilter.Region (ProductFilter c)
      = Some (Some (licenseRegionOf (SQLDatabase.Region q)))"
    by (rule BuildResource_SQLDatabase_license)
next
  show "licenseRegionOf x =
       (if Contains x ''germany'' then ''Germany''
        else if Contains x ''china'' then ''China''
        else if Contains x ''usgov'' then ''US Gov''
        else ''Global'')"
    by (rule licenseRegionOf_cases)
  show "licenseRegionOf x \<in> set [''US Gov'', ''China'', ''Germany'', ''Global'']"
    by (simp add: licenseRegionOf_cases)
  show "(licenseRegionOf x = x) = (x = ''Global'')"
    by (rule licenseRegionOf_fixed)
qed

theorem C9_witness:
  "(\<exists>res. snd (BuildResource example_pkg
        ((example_MSSQLDatabase ''GP_Gen5_4'' ''General Purpose'')
           \<lparr> MSSQLDatabase.Region := ''usgovvirginia'' \<rparr>)) = Inr res
      \<and> (\<exists>c \<in> set (CostComponents res). CostComponent.Name c = ''SQL license''
            \<and> map_option ProductFilter.Region (ProductFilter c) = Some (Some ''US Gov'')))
   \<and> (\<exists>res. snd (BuildResource_SQLDatabase example_pkg
        ((example_SQLDatabase ''GP_Gen5_4'' ''General Purpose'' (Some 4))
           \<lparr> SQLDatabase.Region := ''chinaeast'' \<rparr>)) = Inr res
      \<and> (\<exists>c \<in> set (CostComponents res). CostComponent.Name c = ''SQL license''
            \<and> map_option ProductFilter.Region (ProductFilter c) = Some (Some ''China'')))
   \<and> licenseRegionOf ''germanynorth usgov'' = ''Germany''
   \<and> licenseRegionOf ''eastus'' = ''Global''"
proof -
  let ?r = "(example_MSSQLDatabase ''GP_Gen5_4'' ''General Purpose'')
              \<lparr> MSSQLDatabase.Region := ''usgovvirginia'' \<rparr>"
  let ?q = "(example_SQLDatabase ''GP_Gen5_4'' ''General Purpose'' (Some 4))
              \<lparr> SQLDatabase.Region := ''chinaeast'' \<rparr>"
  note T = C9_license_region [where env = example_pkg and r = ?r and q = ?q]
  have r: "\<not> dtuPurchase example_pkg (SKU ?r)" "ToLower example_pkg (Tier ?r) \<noteq> sqlServerlessTier"
    "ToLower example_pkg (LicenceType ?r) = ''licenseincluded''" "MSSQLDatabase.Region ?r = ''usgovvirginia''"
    by (simp_all add: example_MSSQLDatabase_def ToLower_examples not_dtuPurchase_examples)
  have q: "SQLDatabase.Cores ?q = Some 4" "ToLower example_pkg (SQLDatabase.Tier ?q) \<noteq> sqlServerlessTier"
    "ToLower example_pkg (SQLDatabase.LicenceType ?q) = ''licenseincluded''" "SQLDatabase.Region ?q = ''chinaeast''"
    by (simp_all add: example_SQLDatabase_def ToLower_examples)
  have g: "licenseRegionOf ''germanynorth usgov'' = ''Germany''"
    using T [of "''germanynorth usgov''"] by simp
  have e: "licenseRegionOf ''eastus'' = ''Global''"
    using T [of "''eastus''"] by simp
  have us: "licenseRegionOf ''usgovvirginia'' = ''US Gov''"
    using T [of "''usgovvirginia''"] by simp
  have ch: "licenseRegionOf ''chinaeast'' = ''China''"
    using T [of "''chinaeast''"] by simp
  obtain res where res: "snd (BuildResource example_pkg ?r) = Inr res"
    "CostComponents res = snd (vCorePurchaseCostComponents example_pkg ?r)"
    using BuildResource_vCore [OF r(1)] by simp
  have m: "sqlLicenseCostComponent example_pkg ?r \<in> set (CostComponents res)"
    using res(2) vCore_member(4) [OF r(2,3)] by simp
  have a: "\<exists>res. snd (BuildResource example_pkg ?r) = Inr res
      \<and> (\<exists>c \<in> set (CostComponents res). CostComponent.Name c = ''SQL license''
            \<and> map_option ProductFilter.Region (ProductFilter c) = Some (Some ''US Gov''))"
  proof -
    have "map_option ProductFilter.Region (ProductFilter (sqlLicenseCostComponent example_pkg ?r))
        = Some (Some ''US Gov'')"
      using T [of x, THEN conjunct1, rule_format, OF res(1) m] r(4) us
      by (simp add: Name_simps)
    with m Name_sqlLicense [of example_pkg ?r]
    have "\<exists>c \<in> set (CostComponents res). CostComponent.Name c = ''SQL license''
            \<and> map_option ProductFilter.Region (ProductFilter c) = Some (Some ''US Gov'')"
      by (intro bexI [of _ "sqlLicenseCostComponent example_pkg ?r"]) simp_all
    with res(1) show ?thesis by (intro exI [of _ res]) simp
  qed
  obtain cs where cs: "snd (vCorePurchaseCostComponents_SQLDatabase example_pkg ?q) = Inr cs"
    "map CostComponent.Name cs = [provisionedComputeName (SQLDatabase.SKU ?q), ''SQL license'',
        ''Storage'', ''Long-term retention'']"
    using vCore_names_SQLDatabase [OF q(1), where env = example_pkg] q(2,3)
    by (auto simp: example_SQLDatabase_def ToLower_examples)
  have "''SQL license'' \<in> set (map CostComponent.Name cs)"
    unfolding cs(2) by simp
  then obtain c where c: "c \<in> set cs" "CostComponent.Name c = ''SQL license''"
    by auto
  let ?res = "\<lparr> Resource.Name = SQLDatabase.Address ?q, UsageSchema = mssqlUsageSchema,
                 CostComponents = cs \<rparr>"
  have bq: "snd (BuildResource_SQLDatabase example_pkg ?q) = Inr ?res"
    by (simp add: BuildResource_SQLDatabase_vCore [OF q(1)] cs(1))
  have "map_option ProductFilter.Region (ProductFilter c) = Some (Some ''China'')"
    using T [of x, THEN conjunct2, THEN conjunct1, rule_format, OF bq, of c] c q(4) ch by simp
  then have b: "\<exists>res. snd (BuildResource_SQLDatabase example_pkg ?q) = Inr res
      \<and> (\<exists>c \<in> set (CostComponents res). CostComponent.Name c = ''SQL license''
            \<and> map_option ProductFilter.Region (ProductFilter c) = Some (Some ''China''))"
    using bq c by (intro exI [of _ ?res]) auto
  show ?thesis using a b g e by (intro conjI)
qed

section \<open>Extra data storage\<close>

lemma premium_iff: "(ToLower env (map_index tierMapping [c]) = ''premium'') = (c = CHR ''p'')"
  by (simp add: map_index_def tierMapping_def ToLower_def isASCII_def lower_char_def)

lemma extraDataStorageGB_eq:
  "extraDataStorageGB env (map_index tierMapping [c]) m e =
     (case e of
        Some x \<Rightarrow> Some x
      | None \<Rightarrow>
          (case m of
             None \<Rightarrow> None
           | Some mm \<Rightarrow>
               (if mm - (if c = CHR ''p'' then 500 else 250) < 0 then None
                else Some (mm - (if c = CHR ''p'' then 500 else 250)))))"
  by (simp add: extraDataStorageGB_def premium_iff Let_def split: option.splits)

lemma Quantity_dtuCompute:
  "MonthlyQuantity (dtuComputeComponent env region sku skuName pf) = Some 30"
  by (simp add: dtuComputeComponent_def)

text \<open>
  Claim C10, as stated, fails: it says that the monthly quantity of the component
  \<open>Extra data storage\<close> is never negative. An explicit usage value replaces the derived
  quantity without a check of its sign: the database below, with SKU \<open>S0\<close> and the usage
  \<open>extra_data_storage_gb = -1\<close>, has the quantity \<open>-1\<close>.
\<close>

theorem C10_counterexample:
  "map_option (map CostComponent.Name)
     (resourceComponents (BuildResource example_pkg
        ((example_MSSQLDatabase ''S0'' [])\<lparr> ExtraDataStorageGB := Some (- 1) \<rparr>)))
     = Some [''Compute (S0)'', ''Extra data storage'', ''Long-term retention'']
   \<and> map_option (map MonthlyQuantity)
     (resourceComponents (BuildResource example_pkg
        ((example_MSSQLDatabase ''S0'' [])\<lparr> ExtraDataStorageGB := Some (- 1) \<rparr>)))
     = Some [Some 30, Some (- 1), None]"
proof -
  let ?r = "(example_MSSQLDatabase ''S0'' [])\<lparr> ExtraDataStorageGB := Some (- 1) \<rparr>"
  have f: "SKU ?r = ''S0''" "ExtraDataStorageGB ?r = Some (- 1)"
    "LongTermRetentionStorageGB ?r = None"
    by (simp_all add: example_MSSQLDatabase_def)
  have low: "ToLower example_pkg ''S0'' = ''s0''" and up: "ToTitle example_pkg ''S0'' = ''S0''"
    by (simp_all add: ToLower_def isASCII_def lower_char_def ToTitle_def upper_char_def)
  have d: "dtuPurchase example_pkg (SKU ?r)" by (simp add: f not_dtuPurchase_examples)
  have cs: "dtuPurchaseCostComponents example_pkg ?r
      = Inr [dtuComputeComponent example_pkg (MSSQLDatabase.Region ?r) (SKU ?r) (ToLower example_pkg (SKU ?r))
               consumption,
             extraDataStorageComponent example_pkg (MSSQLDatabase.Region ?r)
               (map_index tierMapping [CHR ''s''])
               (extraDataStorageGB example_pkg (map_index tierMapping [CHR ''s'']) (MaxSizeGB ?r)
                  (ExtraDataStorageGB ?r))
               consumption,
             longTermRetentionMSSQLCostComponent example_pkg ?r]"
    by (rule dtu_components_other) (simp_all add: f low)
  show ?thesis
    unfolding resourceComponents_def BuildResource_dtu [OF d] cs
    by (simp add: Name_simps Quantity_dtuCompute Quantity_extraData Quantity_longTerm
        extraDataStorageGB_eq f up)
qed

text \<open>
  Claim C10, amended. Every database of the DTU purchase model whose SKU is not \<open>basic\<close> has
  exactly one component \<open>Extra data storage\<close>. With no usage \<open>extra_data_storage_gb\<close> its
  monthly quantity is \<open>MaxSizeGB\<close> minus 500 for a SKU that starts with \<open>p\<close> and minus 250
  otherwise, and is nil when that difference is negative or \<open>MaxSizeGB\<close> is nil; so it is
  never negative. An explicit usage value replaces the derived quantity entirely, whatever
  \<open>MaxSizeGB\<close> is, and is reported as given. This holds for \<open>MSSQLDatabase\<close>, and for
  \<open>SQLDatabase\<close> when the SKU in lower case is not empty and not \<open>b\<close>.
\<close>

theorem C10_extra_data_storage_quantity:
  "(dtuPurchase env (SKU r) \<and> ToLower env (SKU r) \<noteq> ''basic'' \<longrightarrow>
      (\<exists>res x. snd (BuildResource env r) = Inr res
         \<and> x \<in> set (CostComponents res) \<and> CostComponent.Name x = ''Extra data storage''
         \<and> (\<forall>y \<in> set (CostComponents res). CostComponent.Name y = ''Extra data storage'' \<longrightarrow> y = x)
         \<and> MonthlyQuantity x =
             (case ExtraDataStorageGB r of
                Some e \<Rightarrow> Some e
              | None \<Rightarrow>
                  (case MaxSizeGB r of
                     None \<Rightarrow> None
                   | Some m \<Rightarrow>
                       (if m - (if HasPrefix (ToLower env (SKU r)) ''p'' then 500 else 250) < 0 then None
                        else Some (m - (if HasPrefix (ToLower env (SKU r)) ''p'' then 500 else 250)))))
         \<and> (ExtraDataStorageGB r = None \<longrightarrow> (\<forall>n. MonthlyQuantity x = Some n \<longrightarrow> 0 \<le> n))))
   \<and> (SQLDatabase.Cores q = None \<and> ToLower env (SQLDatabase.SKU q) \<noteq> []
        \<and> ToLower env (SQLDatabase.SKU q) \<noteq> ''basic'' \<and> ToLower env (SQLDatabase.SKU q) \<noteq> ''b'' \<longrightarrow>
      (\<exists>res x. snd (BuildResource_SQLDatabase env q) = Inr res
         \<and> x \<in> set (CostComponents res) \<and> CostComponent.Name x = ''Extra data storage''
         \<and> (\<forall>y \<in> set (CostComponents res). CostComponent.Name y = ''Extra data storage'' \<longrightarrow> y = x)
         \<and> MonthlyQuantity x =
             (case SQLDatabase.ExtraDataStorageGB q of
                Some e \<Rightarrow> Some e
              | None \<Rightarrow>
                  (case SQLDatabase.MaxSizeGB q of
                     None \<Rightarrow> None
                   | Some m \<Rightarrow>
                       (if m - (if HasPrefix (ToLower env (SQLDatabase.SKU q)) ''p'' then 500 else 250) < 0
                        then None
                        else Some (m - (if HasPrefix (ToLower env (SQLDatabase.SKU q)) ''p''
                                        then 500 else 250)))))
         \<and> (SQLDatabase.ExtraDataStorageGB q = None
              \<longrightarrow> (\<forall>n. MonthlyQuantity x = Some n \<longrightarrow> 0 \<le> n))))"
proof (intro conjI impI)
  assume h: "dtuPurchase env (SKU r) \<and> ToLower env (SKU r) \<noteq> ''basic''"
  then have d: "dtuPurchase env (SKU r)" and nb: "ToLower env (SKU r) \<noteq> ''basic''" by simp_all
  obtain c cs where c: "ToLower env (SKU r) = c # cs"
    using dtuPurchase_nonempty [OF d] by (cases "ToLower env (SKU r)") auto
  have p: "HasPrefix (ToLower env (SKU r)) ''p'' = (c = CHR ''p'')"
    by (simp add: c)
  let ?x = "extraDataStorageComponent env (MSSQLDatabase.Region r) (map_index tierMapping [c])
              (extraDataStorageGB env (map_index tierMapping [c]) (MaxSizeGB r) (ExtraDataStorageGB r))
              consumption"
  let ?cs = "[dtuComputeComponent env (MSSQLDatabase.Region r) (SKU r) (ToLower env (SKU r)) consumption,
              ?x, longTermRetentionMSSQLCostComponent env r]"
  let ?res = "\<lparr> Resource.Name = Address r, UsageSchema = mssqlUsageSchema, CostComponents = ?cs \<rparr>"
  have cs: "dtuPurchaseCostComponents env r = Inr ?cs"
    by (rule dtu_components_other [OF nb dtuPurchase_not_b [OF d] c])
  have res: "snd (BuildResource env r) = Inr ?res"
    by (simp add: BuildResource_dtu [OF d] cs)
  show "\<exists>res x. snd (BuildResource env r) = Inr res
         \<and> x \<in> set (CostComponents res) \<and> CostComponent.Name x = ''Extra data storage''
         \<and> (\<forall>y \<in> set (CostComponents res). CostComponent.Name y = ''Extra data storage'' \<longrightarrow> y = x)
         \<and> MonthlyQuantity x =
             (case ExtraDataStorageGB r of
                Some e \<Rightarrow> Some e
              | None \<Rightarrow>
                  (case MaxSizeGB r of
                     None \<Rightarrow> None
                   | Some m \<Rightarrow>
                       (if m - (if HasPrefix (ToLower env (SKU r)) ''p'' then 500 else 250) < 0 then None
                        else Some (m - (if HasPrefix (ToLower env (SKU r)) ''p'' then 500 else 250)))))
         \<and> (ExtraDataStorageGB r = None \<longrightarrow> (\<forall>n. MonthlyQuantity x = Some n \<longrightarrow> 0 \<le> n))"
  proof (intro exI [of _ ?res] exI [of _ ?x] conjI)
    show "snd (BuildResource env r) = Inr ?res" by (rule res)
    show "?x \<in> set (CostComponents ?res)" by simp
    show "CostComponent.Name ?x = ''Extra data storage''" by (simp add: Name_simps)
    show "\<forall>y \<in> set (CostComponents ?res). CostComponent.Name y = ''Extra data storage'' \<longrightarrow> y = ?x"
      by (auto simp: Name_simps)
    show "MonthlyQuantity ?x =
             (case ExtraDataStorageGB r of
                Some e \<Rightarrow> Some e
              | None \<Rightarrow>
                  (case MaxSizeGB r of
                     None \<Rightarrow> None
                   | Some m \<Rightarrow>
                       (if m - (if HasPrefix (ToLower env (SKU r)) ''p'' then 500 else 250) < 0 then None
                        else Some (m - (if HasPrefix (ToLower env (SKU r)) ''p'' then 500 else 250)))))"
      unfolding p by (simp add: Quantity_extraData extraDataStorageGB_eq)
    show "ExtraDataStorageGB r = None \<longrightarrow> (\<forall>n. MonthlyQuantity ?x = Some n \<longrightarrow> 0 \<le> n)"
      by (auto simp: Quantity_extraData extraDataStorageGB_eq split: option.splits if_splits)
  qed
next
  assume h: "SQLDatabase.Cores q = None \<and> ToLower env (SQLDatabase.SKU q) \<noteq> []
        \<and> ToLower env (SQLDatabase.SKU q) \<noteq> ''basic'' \<and> ToLower env (SQLDatabase.SKU q) \<noteq> ''b''"
  then obtain c cs where c: "ToLower env (SQLDatabase.SKU q) = c # cs"
    by (cases "ToLower env (SQLDatabase.SKU q)") auto
  have p: "HasPrefix (ToLower env (SQLDatabase.SKU q)) ''p'' = (c = CHR ''p'')"
    by (simp add: c)
  let ?x = "extraDataStorageComponent env (SQLDatabase.Region q) (map_index tierMapping [c])
              (extraDataStorageGB env (map_index tierMapping [c]) (SQLDatabase.MaxSizeGB q)
                 (SQLDatabase.ExtraDataStorageGB q))
              (priceFilterConsumption env)"
  let ?cs = "[dtuComputeComponent env (SQLDatabase.Region q) (SQLDatabase.SKU q)
                (ToLower env (SQLDatabase.SKU q)) (priceFilterConsumption env),
              ?x, longTermRetentionMSSQLCostComponent_SQLDatabase env q]"
  let ?res = "\<lparr> Resource.Name = SQLDatabase.Address q, UsageSchema = mssqlUsageSchema,
                 CostComponents = ?cs \<rparr>"
  have cs: "dtuPurchaseCostComponents_SQLDatabase env q = Inr ?cs"
    using h c by (intro dtu_SQLDatabase_other [where c = c and cs = cs]) simp_all
  have res: "snd (BuildResource_SQLDatabase env q) = Inr ?res"
    using h by (simp add: BuildResource_SQLDatabase_dtu cs)
  show "\<exists>res x. snd (BuildResource_SQLDatabase env q) = Inr res
         \<and> x \<in> set (CostComponents res) \<and> CostComponent.Name x = ''Extra data storage''
         \<and> (\<forall>y \<in> set (CostComponents res). CostComponent.Name y = ''Extra data storage'' \<longrightarrow> y = x)
         \<and> MonthlyQuantity x =
             (case SQLDatabase.ExtraDataStorageGB q of
                Some e \<Rightarrow> Some e
              | None \<Rightarrow>
                  (case SQLDatabase.MaxSizeGB q of
                     None \<Rightarrow> None
                   | Some m \<Rightarrow>
                       (if m - (if HasPrefix (ToLower env (SQLDatabase.SKU q)) ''p'' then 500 else 250) < 0
                        then None
                        else Some (m - (if HasPrefix (ToLower env (SQLDatabase.SKU q)) ''p''
                                        then 500 else 250)))))
         \<and> (SQLDatabase.ExtraDataStorageGB q = None
              \<longrightarrow> (\<forall>n. MonthlyQuantity x = Some n \<longrightarrow> 0 \<le> n))"
  proof (intro exI [of _ ?res] exI [of _ ?x] conjI)
    show "snd (BuildResource_SQLDatabase env q) = Inr ?res" by (rule res)
    show "?x \<in> set (CostComponents ?res)" by simp
    show "CostComponent.Name ?x = ''Extra data storage''" by (simp add: Name_simps)
    show "\<forall>y \<in> set (CostComponents ?res). CostComponent.Name y = ''Extra data storage'' \<longrightarrow> y = ?x"
      by (auto simp: Name_simps Name_SQLDatabase_simps)
    show "MonthlyQuantity ?x =
             (case SQLDatabase.ExtraDataStorageGB q of
                Some e \<Rightarrow> Some e
              | None \<Rightarrow>
                  (case SQLDatabase.MaxSizeGB q of
                     None \<Rightarrow> None
                   | Some m \<Rightarrow>
                       (if m - (if HasPrefix (ToLower env (SQLDatabase.SKU q)) ''p'' then 500 else 250) < 0
                        then None
                        else Some (m - (if HasPrefix (ToLower env (SQLDatabase.SKU q)) ''p''
                                        then 500 else 250)))))"
      unfolding p by (simp add: Quantity_extraData extraDataStorageGB_eq)
    show "SQLDatabase.ExtraDataStorageGB q = None
        \<longrightarrow> (\<forall>n. MonthlyQuantity ?x = Some n \<longrightarrow> 0 \<le> n)"
      by (auto simp: Quantity_extraData extraDataStorageGB_eq split: option.splits if_splits)
  qed
qed

theorem C10_witness:
  "dtuPurchase example_pkg (SKU (example_MSSQLDatabase ''P1'' []))
   \<and> ToLower example_pkg (SKU (example_MSSQLDatabase ''P1'' [])) \<noteq> ''basic''
   \<and> ExtraDataStorageGB (example_MSSQLDatabase ''P1'' []) = None
   \<and> (\<exists>res x. snd (BuildResource example_pkg (example_MSSQLDatabase ''P1'' [])) = Inr res
         \<and> x \<in> set (CostComponents res) \<and> CostComponent.Name x = ''Extra data storage''
         \<and> MonthlyQuantity x = Some 0)
   \<and> SQLDatabase.Cores (example_SQLDatabase ''S0'' [] None) = None
   \<and> ToLower example_pkg (SQLDatabase.SKU (example_SQLDatabase ''S0'' [] None)) \<noteq> []
   \<and> ToLower example_pkg (SQLDatabase.SKU (example_SQLDatabase ''S0'' [] None)) \<noteq> ''basic''
   \<and> ToLower example_pkg (SQLDatabase.SKU (example_SQLDatabase ''S0'' [] None)) \<noteq> ''b''
   \<and> (\<exists>res x. snd (BuildResource_SQLDatabase example_pkg (example_SQLDatabase ''S0'' [] None)) = Inr res
         \<and> x \<in> set (CostComponents res) \<and> CostComponent.Name x = ''Extra data storage''
         \<and> MonthlyQuantity x = Some 250)"
proof -
  let ?r = "example_MSSQLDatabase ''P1'' []"
  let ?q = "example_SQLDatabase ''S0'' [] None"
  have low: "ToLower example_pkg ''P1'' = ''p1''" "ToLower example_pkg ''S0'' = ''s0''"
    by (simp_all add: ToLower_def isASCII_def lower_char_def)
  have r: "dtuPurchase example_pkg (SKU ?r)" "ToLower example_pkg (SKU ?r) \<noteq> ''basic''" "ExtraDataStorageGB ?r = None"
    "MaxSizeGB ?r = Some 500" "HasPrefix (ToLower example_pkg (SKU ?r)) ''p''"
    by (simp_all add: example_MSSQLDatabase_def not_dtuPurchase_examples low)
  have q: "SQLDatabase.Cores ?q = None" "ToLower example_pkg (SQLDatabase.SKU ?q) \<noteq> []"
    "ToLower example_pkg (SQLDatabase.SKU ?q) \<noteq> ''basic''" "ToLower example_pkg (SQLDatabase.SKU ?q) \<noteq> ''b''"
    "SQLDatabase.ExtraDataStorageGB ?q = None" "SQLDatabase.MaxSizeGB ?q = Some 500"
    "\<not> HasPrefix (ToLower example_pkg (SQLDatabase.SKU ?q)) ''p''"
    by (simp_all add: example_SQLDatabase_def low)
  note T = C10_extra_data_storage_quantity [where r = ?r and env = example_pkg and q = ?q]
  have a: "\<exists>res x. snd (BuildResource example_pkg ?r) = Inr res
         \<and> x \<in> set (CostComponents res) \<and> CostComponent.Name x = ''Extra data storage''
         \<and> MonthlyQuantity x = Some 0"
    using T [THEN conjunct1] r by auto
  have b: "\<exists>res x. snd (BuildResource_SQLDatabase example_pkg ?q) = Inr res
         \<and> x \<in> set (CostComponents res) \<and> CostComponent.Name x = ''Extra data storage''
         \<and> MonthlyQuantity x = Some 250"
    using T [THEN conjunct2] q by auto
  show ?thesis
    using r(1-3) q(1-4) a b by (intro conjI)
qed

section \<open>Components with a nil quantity\<close>

lemma names_independent_of_quantities:
  "map CostComponent.Name (snd (vCorePurchaseCostComponents env
       (r\<lparr> MaxSizeGB := a, ReadReplicaCount := b, ExtraDataStorageGB := c,
           MonthlyVCoreHours := d, LongTermRetentionStorageGB := e \<rparr>)))
     = map CostComponent.Name (snd (vCorePurchaseCostComponents env r))"
  by (simp add: vCore_names)

lemma dtu_names_independent_of_quantities:
  "map_sum id (map CostComponent.Name) (dtuPurchaseCostComponents env
       (r\<lparr> MaxSizeGB := a, ReadReplicaCount := b, ExtraDataStorageGB := c,
           MonthlyVCoreHours := d, LongTermRetentionStorageGB := e \<rparr>))
     = map_sum id (map CostComponent.Name) (dtuPurchaseCostComponents env r)"
  by (simp add: dtuPurchaseCostComponents_def Let_def Name_simps split: sum.splits)

lemma map_option_sum:
  "map_option f (case x of Inl p \<Rightarrow> None | Inr cs \<Rightarrow> Some cs)
     = (case map_sum id f x of Inl p \<Rightarrow> None | Inr ns \<Rightarrow> Some ns)"
  by (cases x) simp_all

lemma resourceComponents_dtu:
  "dtuPurchase env (SKU r) \<Longrightarrow>
   resourceComponents (BuildResource env r)
     = (case dtuPurchaseCostComponents env r of Inl p \<Rightarrow> None | Inr cs \<Rightarrow> Some cs)"
  by (simp add: resourceComponents_def BuildResource_dtu split: sum.splits)

lemma resourceComponents_vCore:
  "\<not> dtuPurchase env (SKU r) \<Longrightarrow>
   resourceComponents (BuildResource env r) = Some (snd (vCorePurchaseCostComponents env r))"
  by (simp add: resourceComponents_def BuildResource_vCore)

lemma BuildResource_names_independent_of_quantities:
  "map_option (map CostComponent.Name) (resourceComponents (BuildResource env
       (r\<lparr> MaxSizeGB := a, ReadReplicaCount := b, ExtraDataStorageGB := c,
           MonthlyVCoreHours := d, LongTermRetentionStorageGB := e \<rparr>)))
     = map_option (map CostComponent.Name) (resourceComponents (BuildResource env r))"
proof -
  let ?r' = "r\<lparr> MaxSizeGB := a, ReadReplicaCount := b, ExtraDataStorageGB := c,
           MonthlyVCoreHours := d, LongTermRetentionStorageGB := e \<rparr>"
  have sku: "SKU ?r' = SKU r" by simp
  show ?thesis
  proof (cases "dtuPurchase env (SKU r)")
    case True
    have "resourceComponents (BuildResource env ?r')
        = (case dtuPurchaseCostComponents env ?r' of Inl p \<Rightarrow> None | Inr cs \<Rightarrow> Some cs)"
      by (rule resourceComponents_dtu) (simp add: True)
    moreover have "resourceComponents (BuildResource env r)
        = (case dtuPurchaseCostComponents env r of Inl p \<Rightarrow> None | Inr cs \<Rightarrow> Some cs)"
      by (rule resourceComponents_dtu) (rule True)
    ultimately show ?thesis
      by (simp only: map_option_sum dtu_names_independent_of_quantities)
  next
    case False
    have "resourceComponents (BuildResource env ?r')
        = Some (snd (vCorePurchaseCostComponents env ?r'))"
      by (rule resourceComponents_vCore) (simp add: False)
    moreover have "resourceComponents (BuildResource env r)
        = Some (snd (vCorePurchaseCostComponents env r))"
      by (rule resourceComponents_vCore) (rule False)
    ultimately show ?thesis
      by (simp only: option.map names_independent_of_quantities)
  qed
qed

lemma contribution_nil_quantity:
  "MonthlyQuantity c = None \<Longrightarrow> HourlyQuantity c = None \<Longrightarrow> contribution hpm (c, price) = 0"
  by (simp add: contribution_def componentCost_def monthlyQuantityOf_def split: option.splits)

lemma resourceCost_append: "resourceCost hpm (xs @ ys) = resourceCost hpm xs + resourceCost hpm ys"
  by (simp add: resourceCost_def)

lemma resourceCost_drop_nil:
  "MonthlyQuantity c = None \<Longrightarrow> HourlyQuantity c = None \<Longrightarrow>
   resourceCost hpm (xs @ (c, price) # ys) = resourceCost hpm (xs @ ys)"
  by (simp add: resourceCost_def contribution_nil_quantity)

lemma aggregate_retains: "map fst (fst (aggregate hpm pcs)) = map fst pcs"
  by (simp add: aggregate_def comp_def)

lemma Hourly_nil:
  "HourlyQuantity (longTermRetentionMSSQLCostComponent env r) = None"
  "HourlyQuantity (extraDataStorageComponent env region sn q pf) = None"
  by (simp_all add: longTermRetentionMSSQLCostComponent_def extraDataStorageComponent_def Let_def)

lemma extraDataStorageGB_nil: "extraDataStorageGB env sn None None = None"
  by (simp add: extraDataStorageGB_def)

lemma dtu_member_longTerm:
  assumes "dtuPurchase env (SKU r)"
  shows "\<exists>cs. dtuPurchaseCostComponents env r = Inr cs
           \<and> longTermRetentionMSSQLCostComponent env r \<in> set cs"
  using assms by (cases rule: dtu_cases) auto

lemma dtu_member_extraData:
  assumes "dtuPurchase env (SKU r)" "ToLower env (SKU r) \<noteq> ''basic''"
  shows "\<exists>cs sn. dtuPurchaseCostComponents env r = Inr cs
           \<and> extraDataStorageComponent env (MSSQLDatabase.Region r) sn
                (extraDataStorageGB env sn (MaxSizeGB r) (ExtraDataStorageGB r)) consumption \<in> set cs"
  using assms by (cases rule: dtu_cases) auto

text \<open>
  Claim C6. A component whose quantity is nil is still emitted by the builder and retained
  in the result, and contributes zero to the cost total. In the code, for every node that
  \<open>NewAzureRMMSSQLDatabase\<close> builds, in the vCore purchase model: the component
  \<open>Read replicas\<close> of a Hyperscale node with no attribute \<open>read_replica_count\<close>, the
  serverless compute component of a serverless node with no usage \<open>monthly_vcore_hours\<close>,
  and the component \<open>Long-term retention\<close> of a node that is not Hyperscale with no usage
  \<open>long_term_retention_storage_gb\<close>, are among the components built, with a nil hourly and
  a nil monthly quantity. In the DTU purchase model: the component \<open>Long-term retention\<close>
  with no usage \<open>long_term_retention_storage_gb\<close>, and the component \<open>Extra data storage\<close>
  of a SKU other than \<open>basic\<close> with no attribute \<open>max_size_gb\<close> and no usage
  \<open>extra_data_storage_gb\<close>, are among the components built, with nil quantities. The
  components that \<open>BuildResource\<close> emits, by name, do not depend on \<open>MaxSizeGB\<close>,
  \<open>ReadReplicaCount\<close> or the usage fields being nil or set. In the aggregator, modelled from
  the spec: a component with no quantity has no cost, contributes zero to the cost of the
  resource whatever its price, and is retained in the result.
\<close>

theorem C6_nil_quantity_component_retained:
  "(\<not> dtuPurchase env (nodeSku d) \<and> parseMSSQLSku (ResourceData.Address d) (nodeSku d) = Inr c \<longrightarrow>
      (\<exists>cs. builtComponents (NewAzureRMMSSQLDatabase env d u) = Some cs
         \<and> (ToLower env (tier c) = sqlHyperscaleTier \<and> read_replica_count d = None \<longrightarrow>
              (\<exists>x \<in> set cs. CostComponent.Name x = ''Read replicas''
                 \<and> HourlyQuantity x = None \<and> MonthlyQuantity x = None))
         \<and> (ToLower env (tier c) = sqlServerlessTier
              \<and> usage_int u ''monthly_vcore_hours'' = None \<longrightarrow>
              (\<exists>x \<in> set cs. CostComponent.Name x = serverlessComputeName (nodeSku d)
                 \<and> HourlyQuantity x = None \<and> MonthlyQuantity x = None))
         \<and> (ToLower env (tier c) \<noteq> sqlHyperscaleTier
              \<and> usage_int u ''long_term_retention_storage_gb'' = None \<longrightarrow>
              (\<exists>x \<in> set cs. CostComponent.Name x = ''Long-term retention''
                 \<and> HourlyQuantity x = None \<and> MonthlyQuantity x = None))))
   \<and> (dtuPurchase env (nodeSku d) \<longrightarrow>
      (\<exists>cs. builtComponents (NewAzureRMMSSQLDatabase env d u) = Some cs
         \<and> (usage_int u ''long_term_retention_storage_gb'' = None \<longrightarrow>
              (\<exists>x \<in> set cs. CostComponent.Name x = ''Long-term retention''
                 \<and> HourlyQuantity x = None \<and> MonthlyQuantity x = None))
         \<and> (ToLower env (nodeSku d) \<noteq> ''basic'' \<and> max_size_gb d = None
              \<and> usage_int u ''extra_data_storage_gb'' = None \<longrightarrow>
              (\<exists>x \<in> set cs. CostComponent.Name x = ''Extra data storage''
                 \<and> HourlyQuantity x = None \<and> MonthlyQuantity x = None))))
   \<and> map_option (map CostComponent.Name) (resourceComponents (BuildResource env
         (r\<lparr> MaxSizeGB := a, ReadReplicaCount := b, ExtraDataStorageGB := e,
             MonthlyVCoreHours := f, LongTermRetentionStorageGB := g \<rparr>)))
       = map_option (map CostComponent.Name) (resourceComponents (BuildResource env r))
   \<and> (MonthlyQuantity x = None \<and> HourlyQuantity x = None \<longrightarrow>
        componentCost hpm (x, price) = None
        \<and> contribution hpm (x, price) = 0
        \<and> resourceCost hpm (xs @ (x, price) # ys) = resourceCost hpm (xs @ ys)
        \<and> map fst (fst (aggregate hpm (xs @ (x, price) # ys))) = map fst xs @ x # map fst ys)"
proof (intro conjI)
  show "\<not> dtuPurchase env (nodeSku d) \<and> parseMSSQLSku (ResourceData.Address d) (nodeSku d) = Inr c \<longrightarrow>
      (\<exists>cs. builtComponents (NewAzureRMMSSQLDatabase env d u) = Some cs
         \<and> (ToLower env (tier c) = sqlHyperscaleTier \<and> read_replica_count d = None \<longrightarrow>
              (\<exists>x \<in> set cs. CostComponent.Name x = ''Read replicas''
                 \<and> HourlyQuantity x = None \<and> MonthlyQuantity x = None))
         \<and> (ToLower env (tier c) = sqlServerlessTier
              \<and> usage_int u ''monthly_vcore_hours'' = None \<longrightarrow>
              (\<exists>x \<in> set cs. CostComponent.Name x = serverlessComputeName (nodeSku d)
                 \<and> HourlyQuantity x = None \<and> MonthlyQuantity x = None))
         \<and> (ToLower env (tier c) \<noteq> sqlHyperscaleTier
              \<and> usage_int u ''long_term_retention_storage_gb'' = None \<longrightarrow>
              (\<exists>x \<in> set cs. CostComponent.Name x = ''Long-term retention''
                 \<and> HourlyQuantity x = None \<and> MonthlyQuantity x = None)))"
  proof (intro impI)
    assume h: "\<not> dtuPurchase env (nodeSku d)
        \<and> parseMSSQLSku (ResourceData.Address d) (nodeSku d) = Inr c"
    let ?r = "populatedMSSQLDatabase d (Some c) u"
    let ?cs = "snd (vCorePurchaseCostComponents env ?r)"
    have built: "builtComponents (NewAzureRMMSSQLDatabase env d u) = Some ?cs"
      using h by (simp add: built_vCore)
    have rr: "\<exists>x \<in> set ?cs. CostComponent.Name x = ''Read replicas''
                 \<and> HourlyQuantity x = None \<and> MonthlyQuantity x = None"
      if "ToLower env (tier c) = sqlHyperscaleTier \<and> read_replica_count d = None"
    proof (intro bexI [of _ "readReplicaCostComponent env ?r"])
      show "readReplicaCostComponent env ?r \<in> set ?cs"
        using that by (intro vCore_member(3)) (simp add: populated_fields)
      show "CostComponent.Name (readReplicaCostComponent env ?r) = ''Read replicas''
          \<and> HourlyQuantity (readReplicaCostComponent env ?r) = None
          \<and> MonthlyQuantity (readReplicaCostComponent env ?r) = None"
        using that by (simp add: Name_readReplica Quantity_readReplica populated_fields)
    qed
    have sl: "\<exists>x \<in> set ?cs. CostComponent.Name x = serverlessComputeName (nodeSku d)
                 \<and> HourlyQuantity x = None \<and> MonthlyQuantity x = None"
      if "ToLower env (tier c) = sqlServerlessTier \<and> usage_int u ''monthly_vcore_hours'' = None"
    proof (intro bexI [of _ "serverlessComputeHoursCostComponent env ?r"])
      show "serverlessComputeHoursCostComponent env ?r \<in> set ?cs"
        using that by (intro vCore_member(5)) (simp add: populated_fields)
      show "CostComponent.Name (serverlessComputeHoursCostComponent env ?r)
            = serverlessComputeName (nodeSku d)
          \<and> HourlyQuantity (serverlessComputeHoursCostComponent env ?r) = None
          \<and> MonthlyQuantity (serverlessComputeHoursCostComponent env ?r) = None"
        using that by (simp add: Name_serverless Quantity_serverless populated_fields)
    qed
    have lt: "\<exists>x \<in> set ?cs. CostComponent.Name x = ''Long-term retention''
                 \<and> HourlyQuantity x = None \<and> MonthlyQuantity x = None"
      if "ToLower env (tier c) \<noteq> sqlHyperscaleTier
          \<and> usage_int u ''long_term_retention_storage_gb'' = None"
    proof (intro bexI [of _ "longTermRetentionMSSQLCostComponent env ?r"])
      show "longTermRetentionMSSQLCostComponent env ?r \<in> set ?cs"
        using that by (intro vCore_member(2)) (simp add: populated_fields)
      show "CostComponent.Name (longTermRetentionMSSQLCostComponent env ?r) = ''Long-term retention''
          \<and> HourlyQuantity (longTermRetentionMSSQLCostComponent env ?r) = None
          \<and> MonthlyQuantity (longTermRetentionMSSQLCostComponent env ?r) = None"
        using that by (simp add: Name_longTerm Quantity_longTerm Hourly_nil populated_fields)
    qed
    show "\<exists>cs. builtComponents (NewAzureRMMSSQLDatabase env d u) = Some cs
         \<and> (ToLower env (tier c) = sqlHyperscaleTier \<and> read_replica_count d = None \<longrightarrow>
              (\<exists>x \<in> set cs. CostComponent.Name x = ''Read replicas''
                 \<and> HourlyQuantity x = None \<and> MonthlyQuantity x = None))
         \<and> (ToLower env (tier c) = sqlServerlessTier
              \<and> usage_int u ''monthly_vcore_hours'' = None \<longrightarrow>
              (\<exists>x \<in> set cs. CostComponent.Name x = serverlessComputeName (nodeSku d)
                 \<and> HourlyQuantity x = None \<and> MonthlyQuantity x = None))
         \<and> (ToLower env (tier c) \<noteq> sqlHyperscaleTier
              \<and> usage_int u ''long_term_retention_storage_gb'' = None \<longrightarrow>
              (\<exists>x \<in> set cs. CostComponent.Name x = ''Long-term retention''
                 \<and> HourlyQuantity x = None \<and> MonthlyQuantity x = None))"
      using built rr sl lt by (intro exI [of _ ?cs] conjI impI)
  qed
next
  show "dtuPurchase env (nodeSku d) \<longrightarrow>
      (\<exists>cs. builtComponents (NewAzureRMMSSQLDatabase env d u) = Some cs
         \<and> (usage_int u ''long_term_retention_storage_gb'' = None \<longrightarrow>
              (\<exists>x \<in> set cs. CostComponent.Name x = ''Long-term retention''
                 \<and> HourlyQuantity x = None \<and> MonthlyQuantity x = None))
         \<and> (ToLower env (nodeSku d) \<noteq> ''basic'' \<and> max_size_gb d = None
              \<and> usage_int u ''extra_data_storage_gb'' = None \<longrightarrow>
              (\<exists>x \<in> set cs. CostComponent.Name x = ''Extra data storage''
                 \<and> HourlyQuantity x = None \<and> MonthlyQuantity x = None)))"
  proof (intro impI)
    assume h: "dtuPurchase env (nodeSku d)"
    let ?r = "populatedMSSQLDatabase d None u"
    have dr: "dtuPurchase env (SKU ?r)"
      using h by (simp add: populated_fields)
    obtain cs where cs: "dtuPurchaseCostComponents env ?r = Inr cs"
      "longTermRetentionMSSQLCostComponent env ?r \<in> set cs"
      using dtu_member_longTerm [OF dr] by blast
    have built: "builtComponents (NewAzureRMMSSQLDatabase env d u) = Some cs"
      using h by (simp add: built_dtu cs(1))
    have lt: "\<exists>x \<in> set cs. CostComponent.Name x = ''Long-term retention''
                 \<and> HourlyQuantity x = None \<and> MonthlyQuantity x = None"
      if "usage_int u ''long_term_retention_storage_gb'' = None"
      using that cs(2)
      by (intro bexI [of _ "longTermRetentionMSSQLCostComponent env ?r"])
        (simp_all add: Name_longTerm Quantity_longTerm Hourly_nil populated_fields)
    have ex: "\<exists>x \<in> set cs. CostComponent.Name x = ''Extra data storage''
                 \<and> HourlyQuantity x = None \<and> MonthlyQuantity x = None"
      if t: "ToLower env (nodeSku d) \<noteq> ''basic'' \<and> max_size_gb d = None
              \<and> usage_int u ''extra_data_storage_gb'' = None"
    proof -
      have nb: "ToLower env (SKU ?r) \<noteq> ''basic''"
        using t by (simp add: populated_fields)
      obtain cs' sn where e: "dtuPurchaseCostComponents env ?r = Inr cs'"
        "extraDataStorageComponent env (MSSQLDatabase.Region ?r) sn
           (extraDataStorageGB env sn (MaxSizeGB ?r) (ExtraDataStorageGB ?r)) consumption \<in> set cs'"
        using dtu_member_extraData [OF dr nb] by blast
      have "cs' = cs" using e(1) cs(1) by simp
      with e(2) t show ?thesis
        by (intro bexI [of _ "extraDataStorageComponent env (MSSQLDatabase.Region ?r) sn
               (extraDataStorageGB env sn (MaxSizeGB ?r) (ExtraDataStorageGB ?r)) consumption"])
          (simp_all add: Name_extraData Quantity_extraData Hourly_nil populated_fields
            extraDataStorageGB_nil)
    qed
    show "\<exists>cs. builtComponents (NewAzureRMMSSQLDatabase env d u) = Some cs
         \<and> (usage_int u ''long_term_retention_storage_gb'' = None \<longrightarrow>
              (\<exists>x \<in> set cs. CostComponent.Name x = ''Long-term retention''
                 \<and> HourlyQuantity x = None \<and> MonthlyQuantity x = None))
         \<and> (ToLower env (nodeSku d) \<noteq> ''basic'' \<and> max_size_gb d = None
              \<and> usage_int u ''extra_data_storage_gb'' = None \<longrightarrow>
              (\<exists>x \<in> set cs. CostComponent.Name x = ''Extra data storage''
                 \<and> HourlyQuantity x = None \<and> MonthlyQuantity x = None))"
      using built lt ex by (intro exI [of _ cs] conjI impI)
  qed
next
  show "map_option (map CostComponent.Name) (resourceComponents (BuildResource env
         (r\<lparr> MaxSizeGB := a, ReadReplicaCount := b, ExtraDataStorageGB := e,
             MonthlyVCoreHours := f, LongTermRetentionStorageGB := g \<rparr>)))
       = map_option (map CostComponent.Name) (resourceComponents (BuildResource env r))"
    by (rule BuildResource_names_independent_of_quantities)
next
  show "MonthlyQuantity x = None \<and> HourlyQuantity x = None \<longrightarrow>
        componentCost hpm (x, price) = None
        \<and> contribution hpm (x, price) = 0
        \<and> resourceCost hpm (xs @ (x, price) # ys) = resourceCost hpm (xs @ ys)
        \<and> map fst (fst (aggregate hpm (xs @ (x, price) # ys))) = map fst xs @ x # map fst ys"
  proof (intro impI conjI)
    assume n: "MonthlyQuantity x = None \<and> HourlyQuantity x = None"
    then show "componentCost hpm (x, price) = None"
      by (simp add: componentCost_def monthlyQuantityOf_def split: option.splits)
    from n show "contribution hpm (x, price) = 0"
      by (simp add: contribution_nil_quantity)
    from n show "resourceCost hpm (xs @ (x, price) # ys) = resourceCost hpm (xs @ ys)"
      by (simp add: resourceCost_drop_nil)
    show "map fst (fst (aggregate hpm (xs @ (x, price) # ys))) = map fst xs @ x # map fst ys"
      by (simp add: aggregate_retains)
  qed
qed

theorem C6_witness:
  "\<not> dtuPurchase example_pkg (nodeSku (example_node (Some ''HS_Gen5_4'')))
   \<and> parseMSSQLSku (ResourceData.Address (example_node (Some ''HS_Gen5_4'')))
        (nodeSku (example_node (Some ''HS_Gen5_4'')))
       = Inr \<lparr> tier = ''Hyperscale'', family = ''Compute Gen5'', cores = 4 \<rparr>
   \<and> read_replica_count (example_node (Some ''HS_Gen5_4'')) = None
   \<and> (\<exists>cs. builtComponents (NewAzureRMMSSQLDatabase example_pkg
                (example_node (Some ''HS_Gen5_4'')) None) = Some cs
         \<and> (\<exists>x \<in> set cs. CostComponent.Name x = ''Read replicas''
               \<and> HourlyQuantity x = None \<and> MonthlyQuantity x = None))
   \<and> \<not> dtuPurchase example_pkg (nodeSku (example_node (Some ''GP_S_Gen5_4'')))
   \<and> parseMSSQLSku (ResourceData.Address (example_node (Some ''GP_S_Gen5_4'')))
        (nodeSku (example_node (Some ''GP_S_Gen5_4'')))
       = Inr \<lparr> tier = ''General Purpose - Serverless'', family = ''Compute Gen5'', cores = 4 \<rparr>
   \<and> (\<exists>cs. builtComponents (NewAzureRMMSSQLDatabase example_pkg
                (example_node (Some ''GP_S_Gen5_4'')) None) = Some cs
         \<and> (\<exists>x \<in> set cs. CostComponent.Name x = ''Compute (serverless, GP_S_Gen5_4)''
               \<and> HourlyQuantity x = None \<and> MonthlyQuantity x = None)
         \<and> (\<exists>x \<in> set cs. CostComponent.Name x = ''Long-term retention''
               \<and> HourlyQuantity x = None \<and> MonthlyQuantity x = None))
   \<and> dtuPurchase example_pkg (nodeSku ((example_node (Some ''S0''))\<lparr> max_size_gb := None \<rparr>))
   \<and> ToLower example_pkg (nodeSku ((example_node (Some ''S0''))\<lparr> max_size_gb := None \<rparr>)) \<noteq> ''basic''
   \<and> (\<exists>cs. builtComponents (NewAzureRMMSSQLDatabase example_pkg
                ((example_node (Some ''S0''))\<lparr> max_size_gb := None \<rparr>) None) = Some cs
         \<and> (\<exists>x \<in> set cs. CostComponent.Name x = ''Long-term retention''
               \<and> HourlyQuantity x = None \<and> MonthlyQuantity x = None)
         \<and> (\<exists>x \<in> set cs. CostComponent.Name x = ''Extra data storage''
               \<and> HourlyQuantity x = None \<and> MonthlyQuantity x = None))
   \<and> MonthlyQuantity (readReplicaCostComponent example_pkg
        (example_MSSQLDatabase ''HS_Gen5_4'' ''Hyperscale'')) = None
   \<and> HourlyQuantity (readReplicaCostComponent example_pkg
        (example_MSSQLDatabase ''HS_Gen5_4'' ''Hyperscale'')) = None
   \<and> resourceCost 730
        [(mssqlStorageComponent example_pkg (example_MSSQLDatabase ''HS_Gen5_4'' ''Hyperscale''), Some 2),
         (readReplicaCostComponent example_pkg (example_MSSQLDatabase ''HS_Gen5_4'' ''Hyperscale''), Some 7)]
       = resourceCost 730
        [(mssqlStorageComponent example_pkg (example_MSSQLDatabase ''HS_Gen5_4'' ''Hyperscale''), Some 2)]
   \<and> resourceCost 730
        [(mssqlStorageComponent example_pkg (example_MSSQLDatabase ''HS_Gen5_4'' ''Hyperscale''), Some 2)]
       = 1000"
proof -
  let ?d = "example_node (Some ''HS_Gen5_4'')"
  let ?c = "\<lparr> tier = ''Hyperscale'', family = ''Compute Gen5'', cores = 4 \<rparr>"
  let ?d1 = "example_node (Some ''GP_S_Gen5_4'')"
  let ?c1 = "\<lparr> tier = ''General Purpose - Serverless'', family = ''Compute Gen5'', cores = 4 \<rparr>"
  let ?d2 = "(example_node (Some ''S0''))\<lparr> max_size_gb := None \<rparr>"
  let ?r = "example_MSSQLDatabase ''HS_Gen5_4'' ''Hyperscale''"
  let ?x = "readReplicaCostComponent example_pkg ?r"
  let ?s = "mssqlStorageComponent example_pkg ?r"
  have u: "usage_int None k = None" for k :: string
    by (simp add: usage_int_def)
  have d: "\<not> dtuPurchase example_pkg (nodeSku ?d)"
    "parseMSSQLSku (ResourceData.Address ?d) (nodeSku ?d) = Inr ?c"
    "read_replica_count ?d = None" "ToLower example_pkg (tier ?c) = sqlHyperscaleTier"
    by (simp_all add: nodeSku_def example_node_def not_dtuPurchase_examples parse_HS_Gen5_4
        ToLower_examples)
  have d1: "\<not> dtuPurchase example_pkg (nodeSku ?d1)"
    "parseMSSQLSku (ResourceData.Address ?d1) (nodeSku ?d1) = Inr ?c1"
    "ToLower example_pkg (tier ?c1) = sqlServerlessTier"
    "ToLower example_pkg (tier ?c1) \<noteq> sqlHyperscaleTier"
    "nodeSku ?d1 = ''GP_S_Gen5_4''"
    by (simp_all add: nodeSku_def example_node_def not_dtuPurchase_examples parse_GP_S_Gen5_4
        ToLower_examples tiers_distinct)
  have low: "ToLower example_pkg ''S0'' = ''s0''"
    by (simp add: ToLower_def isASCII_def lower_char_def)
  have d2: "dtuPurchase example_pkg (nodeSku ?d2)" "ToLower example_pkg (nodeSku ?d2) \<noteq> ''basic''"
    "max_size_gb ?d2 = None"
    by (simp_all add: nodeSku_def example_node_def not_dtuPurchase_examples low)
  have x: "MonthlyQuantity ?x = None" "HourlyQuantity ?x = None"
    by (simp_all add: Quantity_readReplica example_MSSQLDatabase_def)
  note T = C6_nil_quantity_component_retained
    [where d = ?d and c = ?c and env = example_pkg and u = None and x = ?x and hpm = 730
       and price = "Some 7" and xs = "[(?s, Some 2)]" and ys = "[]"]
  note T1 = C6_nil_quantity_component_retained
    [where d = ?d1 and c = ?c1 and env = example_pkg and u = None, THEN conjunct1]
  note T2 = C6_nil_quantity_component_retained
    [where d = ?d2 and env = example_pkg and u = None, THEN conjunct2, THEN conjunct1]
  have a: "\<exists>cs. builtComponents (NewAzureRMMSSQLDatabase example_pkg ?d None) = Some cs
         \<and> (\<exists>x \<in> set cs. CostComponent.Name x = ''Read replicas''
               \<and> HourlyQuantity x = None \<and> MonthlyQuantity x = None)"
    using T [THEN conjunct1] d by blast
  have a1: "\<exists>cs. builtComponents (NewAzureRMMSSQLDatabase example_pkg ?d1 None) = Some cs
         \<and> (\<exists>x \<in> set cs. CostComponent.Name x = ''Compute (serverless, GP_S_Gen5_4)''
               \<and> HourlyQuantity x = None \<and> MonthlyQuantity x = None)
         \<and> (\<exists>x \<in> set cs. CostComponent.Name x = ''Long-term retention''
               \<and> HourlyQuantity x = None \<and> MonthlyQuantity x = None)"
  proof -
    have n: "serverlessComputeName (nodeSku ?d1) = ''Compute (serverless, GP_S_Gen5_4)''"
      by (simp add: d1(5) serverlessComputeName_def)
    from T1 d1(1,2) obtain cs where cs:
      "builtComponents (NewAzureRMMSSQLDatabase example_pkg ?d1 None) = Some cs"
      "ToLower example_pkg (tier ?c1) = sqlServerlessTier
          \<and> usage_int None ''monthly_vcore_hours'' = None \<longrightarrow>
         (\<exists>x \<in> set cs. CostComponent.Name x = serverlessComputeName (nodeSku ?d1)
            \<and> HourlyQuantity x = None \<and> MonthlyQuantity x = None)"
      "ToLower example_pkg (tier ?c1) \<noteq> sqlHyperscaleTier
          \<and> usage_int None ''long_term_retention_storage_gb'' = None \<longrightarrow>
         (\<exists>x \<in> set cs. CostComponent.Name x = ''Long-term retention''
            \<and> HourlyQuantity x = None \<and> MonthlyQuantity x = None)"
      by blast
    from cs(2) d1(3) u have s: "\<exists>x \<in> set cs. CostComponent.Name x = ''Compute (serverless, GP_S_Gen5_4)''
            \<and> HourlyQuantity x = None \<and> MonthlyQuantity x = None"
      unfolding n by blast
    from cs(3) d1(4) u have l: "\<exists>x \<in> set cs. CostComponent.Name x = ''Long-term retention''
            \<and> HourlyQuantity x = None \<and> MonthlyQuantity x = None"
      by blast
    from cs(1) s l show ?thesis by (intro exI [of _ cs] conjI)
  qed
  have a2: "\<exists>cs. builtComponents (NewAzureRMMSSQLDatabase example_pkg ?d2 None) = Some cs
         \<and> (\<exists>x \<in> set cs. CostComponent.Name x = ''Long-term retention''
               \<and> HourlyQuantity x = None \<and> MonthlyQuantity x = None)
         \<and> (\<exists>x \<in> set cs. CostComponent.Name x = ''Extra data storage''
               \<and> HourlyQuantity x = None \<and> MonthlyQuantity x = None)"
  proof -
    from T2 [THEN mp, OF d2(1)] obtain cs where cs:
      "builtComponents (NewAzureRMMSSQLDatabase example_pkg ?d2 None) = Some cs"
      "usage_int None ''long_term_retention_storage_gb'' = None \<longrightarrow>
         (\<exists>x \<in> set cs. CostComponent.Name x = ''Long-term retention''
            \<and> HourlyQuantity x = None \<and> MonthlyQuantity x = None)"
      "ToLower example_pkg (nodeSku ?d2) \<noteq> ''basic'' \<and> max_size_gb ?d2 = None
          \<and> usage_int None ''extra_data_storage_gb'' = None \<longrightarrow>
         (\<exists>x \<in> set cs. CostComponent.Name x = ''Extra data storage''
            \<and> HourlyQuantity x = None \<and> MonthlyQuantity x = None)"
      by (elim exE conjE) (rule that)
    have l: "\<exists>x \<in> set cs. CostComponent.Name x = ''Long-term retention''
            \<and> HourlyQuantity x = None \<and> MonthlyQuantity x = None"
      by (rule cs(2) [THEN mp, OF u])
    have e: "\<exists>x \<in> set cs. CostComponent.Name x = ''Extra data storage''
            \<and> HourlyQuantity x = None \<and> MonthlyQuantity x = None"
      by (rule cs(3) [THEN mp, OF conjI [OF d2(2) conjI [OF d2(3) u]]])
    from cs(1) l e show ?thesis by (intro exI [of _ cs] conjI)
  qed
  have b: "resourceCost 730 [(?s, Some 2), (?x, Some 7)] = resourceCost 730 [(?s, Some 2)]"
    using T [THEN conjunct2, THEN conjunct2, THEN conjunct2] x by simp
  have c: "resourceCost 730 [(?s, Some 2)] = 1000"
    by (simp add: resourceCost_def contribution_def componentCost_def monthlyQuantityOf_def
        Quantity_storage mssqlStorageComponent_def Let_def example_MSSQLDatabase_def)
  show ?thesis
    using d(1-3) a d1(1,2) a1 d2(1,2) a2 x b c by (intro conjI)
qed

section \<open>Resolving usage\<close>

lemma wildcardAddress_indexed:
  assumes "CHR ''['' \<notin> set idx"
  shows "wildcardAddress (indexed base idx) = Some (indexed base ''*'')"
proof -
  have r: "rev (indexed base idx) = CHR '']'' # (rev idx @ CHR ''['' # rev base)"
    by (simp add: indexed_def)
  have d: "dropWhile (\<lambda>x. x \<noteq> CHR ''['') (rev idx @ CHR ''['' # rev base) = CHR ''['' # rev base"
  proof -
    have "dropWhile (\<lambda>x. x \<noteq> CHR ''['') (rev idx @ CHR ''['' # rev base)
        = dropWhile (\<lambda>x. x \<noteq> CHR ''['') (CHR ''['' # rev base)"
      using assms by (intro dropWhile_append2) auto
    then show ?thesis by simp
  qed
  show ?thesis
    unfolding wildcardAddress_def r by (simp add: d indexed_def)
qed

lemma indexed_inject: "(indexed base i = indexed base j) = (i = j)"
  by (simp add: indexed_def)

lemma findItem_Some: "findItem schema key = Some item \<Longrightarrow> item \<in> set schema \<and> UsageItem.Key item = key"
  by (induction schema) (auto split: if_splits)

lemma findItem_declared: "item \<in> set schema \<Longrightarrow> \<exists>i. findItem schema (UsageItem.Key item) = Some i"
  by (induction schema) auto

lemma resolveUsage_cases:
  assumes "findItem schema key = Some item"
  shows "resolveUsage spec schema address key =
     (case specValue spec address key of
        Some v \<Rightarrow> Some v
      | None \<Rightarrow>
          (case wildcardAddress address of
             None \<Rightarrow> Some (DefaultValue item)
           | Some w \<Rightarrow>
               (case specValue spec w key of
                  Some v \<Rightarrow> Some v
                | None \<Rightarrow> Some (DefaultValue item))))"
  by (simp add: resolveUsage_def assms)

lemma specValue_upd_other:
  "p \<noteq> a \<Longrightarrow> specValue (spec(a \<mapsto> m)) p key = specValue spec p key"
  by (simp add: specValue_def)

lemma specValue_upd_same: "specValue (spec(a \<mapsto> m)) a key = m key"
  by (simp add: specValue_def)

text \<open>
  Claim C3, on the Usage Schema Engine modelled from the spec. For every resource address
  and every key declared in the usage schema, the resolved value is the value of the entry
  of the exact address if that entry has the key, else the value of the wildcard entry
  \<open>base[*]\<close> if it has the key, else the declared default. The wildcard entry is the one
  consulted for \<open>base[0]\<close>, \<open>base[5]\<close> and any other index of \<open>base\<close>. An entry for \<open>base[0]\<close>
  overrides the wildcard at \<open>base[0]\<close>, and changes nothing at any other index.
\<close>

theorem C3_usage_precedence:
  "findItem schema key = Some item \<longrightarrow>
     (specValue spec address key = Some e \<longrightarrow> resolveUsage spec schema address key = Some e)
     \<and> (specValue spec address key = None \<and> wildcardAddress address = Some w
          \<and> specValue spec w key = Some v \<longrightarrow>
          resolveUsage spec schema address key = Some v)
     \<and> (specValue spec address key = None
          \<and> (wildcardAddress address = None
              \<or> (\<exists>w. wildcardAddress address = Some w \<and> specValue spec w key = None)) \<longrightarrow>
          resolveUsage spec schema address key = Some (DefaultValue item))
     \<and> (CHR ''['' \<notin> set idx \<longrightarrow>
          wildcardAddress (indexed base idx) = Some (indexed base ''*'')
          \<and> (specValue spec (indexed base idx) key = None
               \<and> specValue spec (indexed base ''*'') key = Some v \<longrightarrow>
               resolveUsage spec schema (indexed base idx) key = Some v))
     \<and> (m key = Some e \<longrightarrow>
          resolveUsage (spec(indexed base ''0'' \<mapsto> m)) schema (indexed base ''0'') key = Some e)
     \<and> (CHR ''['' \<notin> set idx \<and> idx \<noteq> ''0'' \<longrightarrow>
          resolveUsage (spec(indexed base ''0'' \<mapsto> m)) schema (indexed base idx) key
            = resolveUsage spec schema (indexed base idx) key)"
proof (intro impI conjI)
  assume item: "findItem schema key = Some item"
  note rc = resolveUsage_cases [OF item]
  show "resolveUsage spec schema address key = Some e" if "specValue spec address key = Some e"
    using that by (simp add: rc)
  show "resolveUsage spec schema address key = Some v"
    if "specValue spec address key = None \<and> wildcardAddress address = Some w
          \<and> specValue spec w key = Some v"
    using that by (simp add: rc)
  show "resolveUsage spec schema address key = Some (DefaultValue item)"
    if "specValue spec address key = None
          \<and> (wildcardAddress address = None
              \<or> (\<exists>w. wildcardAddress address = Some w \<and> specValue spec w key = None))"
    using that by (auto simp: rc)
  show "wildcardAddress (indexed base idx) = Some (indexed base ''*'')" if "CHR ''['' \<notin> set idx"
    using that by (rule wildcardAddress_indexed)
  show "resolveUsage spec schema (indexed base idx) key = Some v"
    if "CHR ''['' \<notin> set idx"
      "specValue spec (indexed base idx) key = None \<and> specValue spec (indexed base ''*'') key = Some v"
    using that by (simp add: rc wildcardAddress_indexed)
  show "resolveUsage (spec(indexed base ''0'' \<mapsto> m)) schema (indexed base ''0'') key = Some e"
    if "m key = Some e"
    using that by (simp add: rc specValue_upd_same)
  show "resolveUsage (spec(indexed base ''0'' \<mapsto> m)) schema (indexed base idx) key
            = resolveUsage spec schema (indexed base idx) key"
    if "CHR ''['' \<notin> set idx \<and> idx \<noteq> ''0''"
  proof -
    have 1: "indexed base idx \<noteq> indexed base ''0''"
      using that by (simp add: indexed_inject)
    have 2: "indexed base ''*'' \<noteq> indexed base ''0''"
      by (simp add: indexed_inject)
    show ?thesis
      using that
      by (simp add: rc wildcardAddress_indexed specValue_upd_other [OF 1] specValue_upd_other [OF 2]
          split: option.splits)
  qed
qed

lemma counted_addresses:
  "indexed ''aws_instance.instance_counted'' ''*'' = ''aws_instance.instance_counted[*]''"
  "indexed ''aws_instance.instance_counted'' ''0'' = ''aws_instance.instance_counted[0]''"
  "indexed ''aws_instance.instance_counted'' ''5'' = ''aws_instance.instance_counted[5]''"
  by (simp_all add: indexed_def)

theorem C3_witness:
  "findItem [\<lparr> UsageItem.Key = ''operating_system'', DefaultValue = ''linux'', ValueType = StringVal \<rparr>]
      ''operating_system''
     = Some \<lparr> UsageItem.Key = ''operating_system'', DefaultValue = ''linux'', ValueType = StringVal \<rparr>
   \<and> resolveUsage
        [''aws_instance.instance_counted[*]'' \<mapsto> [''operating_system'' \<mapsto> ''windows''],
         ''aws_instance.instance_counted[0]'' \<mapsto> [''operating_system'' \<mapsto> ''linux'']]
        [\<lparr> UsageItem.Key = ''operating_system'', DefaultValue = ''linux'', ValueType = StringVal \<rparr>]
        ''aws_instance.instance_counted[0]'' ''operating_system'' = Some ''linux''
   \<and> resolveUsage
        [''aws_instance.instance_counted[*]'' \<mapsto> [''operating_system'' \<mapsto> ''windows''],
         ''aws_instance.instance_counted[0]'' \<mapsto> [''operating_system'' \<mapsto> ''linux'']]
        [\<lparr> UsageItem.Key = ''operating_system'', DefaultValue = ''linux'', ValueType = StringVal \<rparr>]
        ''aws_instance.instance_counted[5]'' ''operating_system'' = Some ''windows''
   \<and> resolveUsage
        [''aws_instance.instance_counted[*]'' \<mapsto> [''operating_system'' \<mapsto> ''windows''],
         ''aws_instance.instance_counted[0]'' \<mapsto> [''operating_system'' \<mapsto> ''linux'']]
        [\<lparr> UsageItem.Key = ''operating_system'', DefaultValue = ''linux'', ValueType = StringVal \<rparr>]
        ''aws_instance.other'' ''operating_system'' = Some ''linux''"
proof -
  let ?schema = "[\<lparr> UsageItem.Key = ''operating_system'', DefaultValue = ''linux'',
                    ValueType = StringVal \<rparr>]"
  let ?item = "\<lparr> UsageItem.Key = ''operating_system'', DefaultValue = ''linux'', ValueType = StringVal \<rparr>"
  let ?w = "[''aws_instance.instance_counted[*]'' \<mapsto> [''operating_system'' \<mapsto> ''windows'']]"
  let ?m = "[''operating_system'' \<mapsto> ''linux'']"
  let ?spec = "[''aws_instance.instance_counted[*]'' \<mapsto> [''operating_system'' \<mapsto> ''windows''],
         ''aws_instance.instance_counted[0]'' \<mapsto> ?m]"
  have item: "findItem ?schema ''operating_system'' = Some ?item" by simp
  have spec: "?spec = ?w(indexed ''aws_instance.instance_counted'' ''0'' \<mapsto> ?m)"
    by (simp add: counted_addresses)
  have a: "resolveUsage ?spec ?schema ''aws_instance.instance_counted[0]'' ''operating_system''
      = Some ''linux''"
    using C3_usage_precedence [where schema = ?schema and key = "''operating_system''"
        and item = ?item and m = ?m and e = "''linux''" and spec = ?w
        and base = "''aws_instance.instance_counted''"] item
    unfolding spec by (simp add: counted_addresses)
  have w5: "resolveUsage ?w ?schema (indexed ''aws_instance.instance_counted'' ''5'') ''operating_system''
      = Some ''windows''"
    using C3_usage_precedence [where schema = ?schema and key = "''operating_system''"
        and item = ?item and spec = ?w and v = "''windows''" and idx = "''5''"
        and base = "''aws_instance.instance_counted''"] item
    by (simp add: counted_addresses specValue_def)
  have b: "resolveUsage ?spec ?schema ''aws_instance.instance_counted[5]'' ''operating_system''
      = Some ''windows''"
    using C3_usage_precedence [where schema = ?schema and key = "''operating_system''"
        and item = ?item and spec = ?w and idx = "''5''"
        and base = "''aws_instance.instance_counted''" and m = ?m] item w5
    unfolding spec by (simp add: counted_addresses)
  have c: "resolveUsage ?spec ?schema ''aws_instance.other'' ''operating_system'' = Some ''linux''"
    using C3_usage_precedence [where schema = ?schema and key = "''operating_system''"
        and item = ?item and spec = ?spec and address = "''aws_instance.other''"] item
    by (simp add: specValue_def wildcardAddress_def)
  show ?thesis using item a b c by (intro conjI)
qed

lemma vCore_serverless_components:
  "ToLower env (Tier r) = sqlServerlessTier \<Longrightarrow>
   snd (vCorePurchaseCostComponents env r)
     = [serverlessComputeHoursCostComponent env r, mssqlStorageComponent env r,
        longTermRetentionMSSQLCostComponent env r]"
  by (simp add: vCore_components tiers_distinct)

lemma built_schema_vCore:
  assumes "\<not> dtuPurchase env (nodeSku d)" "parseMSSQLSku (ResourceData.Address d) (nodeSku d) = Inr c"
  shows "builtSchema (NewAzureRMMSSQLDatabase env d u) = Some mssqlUsageSchema"
proof -
  have "\<not> dtuPurchase env (SKU (populatedMSSQLDatabase d (Some c) u))"
    using assms(1) by (simp add: populated_fields)
  then show ?thesis
    by (simp add: builtSchema_def New_vCore [OF assms] BuildResource_vCore)
qed

lemma resolve_default_mssql:
  "resolveUsage Map.empty mssqlUsageSchema address ''monthly_vcore_hours'' = Some 0"
  by (simp add: resolveUsage_def mssqlUsageSchema_def specValue_def split: option.splits)

text \<open>
  Claim C5, as stated, fails: it says that for an MSSQL database built with no usage data
  the key \<open>monthly_vcore_hours\<close> resolves to its declared default 0 and is not left
  undefined. The builder declares the key with the default 0 in the usage schema of the
  resource it returns, and does not apply this default: it populates the resource from the
  usage data it is passed, as they are. For the node below, with SKU \<open>GP_S_Gen5_4\<close>, built
  with no usage data, the usage schema has the three keys with the default 0, and the
  serverless compute component has a nil monthly quantity.
\<close>

theorem C5_counterexample:
  "map_option (map UsageItem.Key)
     (builtSchema (NewAzureRMMSSQLDatabase example_pkg (example_node (Some ''GP_S_Gen5_4'')) None))
     = Some [''extra_data_storage_gb'', ''monthly_vcore_hours'', ''long_term_retention_storage_gb'']
   \<and> map_option (map DefaultValue)
     (builtSchema (NewAzureRMMSSQLDatabase example_pkg (example_node (Some ''GP_S_Gen5_4'')) None))
     = Some [0, 0, 0]
   \<and> map_option (map CostComponent.Name)
     (builtComponents (NewAzureRMMSSQLDatabase example_pkg (example_node (Some ''GP_S_Gen5_4'')) None))
     = Some [''Compute (serverless, GP_S_Gen5_4)'', ''Storage'', ''Long-term retention'']
   \<and> map_option (map MonthlyQuantity)
     (builtComponents (NewAzureRMMSSQLDatabase example_pkg (example_node (Some ''GP_S_Gen5_4'')) None))
     = Some [None, Some 500, None]"
proof -
  let ?d = "example_node (Some ''GP_S_Gen5_4'')"
  let ?c = "\<lparr> tier = ''General Purpose - Serverless'', family = ''Compute Gen5'', cores = 4 \<rparr>"
  let ?r = "populatedMSSQLDatabase ?d (Some ?c) None"
  have d: "\<not> dtuPurchase example_pkg (nodeSku ?d)"
    "parseMSSQLSku (ResourceData.Address ?d) (nodeSku ?d) = Inr ?c"
    by (simp_all add: nodeSku_def example_node_def not_dtuPurchase_examples parse_GP_S_Gen5_4)
  have t: "ToLower example_pkg (Tier ?r) = sqlServerlessTier"
    by (simp add: populated_fields ToLower_examples)
  have f: "SKU ?r = ''GP_S_Gen5_4''" "MaxSizeGB ?r = Some 500" "MonthlyVCoreHours ?r = None"
    "LongTermRetentionStorageGB ?r = None"
    by (simp_all add: populated_fields nodeSku_def example_node_def usage_int_def)
  have s: "builtSchema (NewAzureRMMSSQLDatabase example_pkg ?d None) = Some mssqlUsageSchema"
    by (rule built_schema_vCore [OF d])
  have b: "builtComponents (NewAzureRMMSSQLDatabase example_pkg ?d None)
      = Some [serverlessComputeHoursCostComponent example_pkg ?r, mssqlStorageComponent example_pkg ?r,
              longTermRetentionMSSQLCostComponent example_pkg ?r]"
    by (simp only: built_vCore [OF d] vCore_serverless_components [OF t])
  have 1: "map_option (map UsageItem.Key)
      (builtSchema (NewAzureRMMSSQLDatabase example_pkg ?d None))
      = Some [''extra_data_storage_gb'', ''monthly_vcore_hours'', ''long_term_retention_storage_gb'']"
    unfolding s by (simp add: mssqlUsageSchema_def)
  have 2: "map_option (map DefaultValue)
      (builtSchema (NewAzureRMMSSQLDatabase example_pkg ?d None)) = Some [0, 0, 0]"
    unfolding s by (simp add: mssqlUsageSchema_def)
  have 3: "map_option (map CostComponent.Name)
      (builtComponents (NewAzureRMMSSQLDatabase example_pkg ?d None))
      = Some [''Compute (serverless, GP_S_Gen5_4)'', ''Storage'', ''Long-term retention'']"
    unfolding b by (simp add: Name_simps f serverlessComputeName_def)
  have 4: "map_option (map MonthlyQuantity)
      (builtComponents (NewAzureRMMSSQLDatabase example_pkg ?d None))
      = Some [None, Some 500, None]"
    unfolding b by (simp add: Quantity_serverless Quantity_storage Quantity_longTerm f)
  show ?thesis using 1 2 3 4 by (intro conjI)
qed

text \<open>
  Claim C5, amended. On the Usage Schema Engine modelled from the spec: for every resource
  with a usage schema, every declared key resolves to a value, which is the value of the
  exact entry, or of the wildcard entry, or the declared default; it is never undefined.
  In the code: for every node of the serverless tier, the builder returns a resource whose
  usage schema declares \<open>monthly_vcore_hours\<close> with the default 0, which is what the key
  resolves to in the engine when no usage is specified; the resource has one serverless
  compute component, and the monthly quantity of this component is the value that the
  usage data passed to the builder hold under \<open>monthly_vcore_hours\<close>: it is nil when the
  builder is given no usage data or usage data without the key, and the declared default
  is not put in its place.
\<close>

theorem C5_usage_keys_resolved:
  "(\<forall>item \<in> set schema.
      \<exists>v. resolveUsage spec schema address (UsageItem.Key item) = Some v
        \<and> (specValue spec address (UsageItem.Key item) = Some v
            \<or> (\<exists>w. wildcardAddress address = Some w \<and> specValue spec w (UsageItem.Key item) = Some v)
            \<or> (\<exists>i \<in> set schema. UsageItem.Key i = UsageItem.Key item \<and> v = DefaultValue i)))
   \<and> (\<not> dtuPurchase env (nodeSku d) \<and> parseMSSQLSku (ResourceData.Address d) (nodeSku d) = Inr c
        \<and> ToLower env (tier c) = sqlServerlessTier \<longrightarrow>
      (\<exists>cs sch. builtComponents (NewAzureRMMSSQLDatabase env d u) = Some cs
         \<and> builtSchema (NewAzureRMMSSQLDatabase env d u) = Some sch
         \<and> (\<exists>i \<in> set sch. UsageItem.Key i = ''monthly_vcore_hours'' \<and> DefaultValue i = 0)
         \<and> resolveUsage Map.empty sch (ResourceData.Address d) ''monthly_vcore_hours'' = Some 0
         \<and> (\<exists>s \<in> set cs. CostComponent.Name s = serverlessComputeName (nodeSku d))
         \<and> (\<forall>s \<in> set cs. CostComponent.Name s = serverlessComputeName (nodeSku d) \<longrightarrow>
               MonthlyQuantity s = usage_int u ''monthly_vcore_hours'')))"
proof (intro conjI ballI impI)
  fix item :: "'a UsageItem"
  assume "item \<in> set schema"
  then obtain i where i: "findItem schema (UsageItem.Key item) = Some i"
    using findItem_declared by blast
  then have i': "i \<in> set schema" "UsageItem.Key i = UsageItem.Key item"
    using findItem_Some by blast+
  show "\<exists>v. resolveUsage spec schema address (UsageItem.Key item) = Some v
        \<and> (specValue spec address (UsageItem.Key item) = Some v
            \<or> (\<exists>w. wildcardAddress address = Some w \<and> specValue spec w (UsageItem.Key item) = Some v)
            \<or> (\<exists>i \<in> set schema. UsageItem.Key i = UsageItem.Key item \<and> v = DefaultValue i))"
    using i' by (auto simp: resolveUsage_cases [OF i] split: option.splits)
next
  assume h: "\<not> dtuPurchase env (nodeSku d) \<and> parseMSSQLSku (ResourceData.Address d) (nodeSku d) = Inr c
        \<and> ToLower env (tier c) = sqlServerlessTier"
  let ?r = "populatedMSSQLDatabase d (Some c) u"
  let ?cs = "[serverlessComputeHoursCostComponent env ?r, mssqlStorageComponent env ?r,
              longTermRetentionMSSQLCostComponent env ?r]"
  have t: "ToLower env (Tier ?r) = sqlServerlessTier"
    using h by (simp add: populated_fields)
  have b: "builtComponents (NewAzureRMMSSQLDatabase env d u) = Some ?cs"
    using h by (simp add: built_vCore vCore_serverless_components [OF t])
  have s: "builtSchema (NewAzureRMMSSQLDatabase env d u) = Some mssqlUsageSchema"
    using h by (simp add: built_schema_vCore)
  have i: "\<exists>i \<in> set mssqlUsageSchema. UsageItem.Key i = ''monthly_vcore_hours'' \<and> DefaultValue i = 0"
    by (simp add: mssqlUsageSchema_def)
  have e: "\<exists>s \<in> set ?cs. CostComponent.Name s = serverlessComputeName (nodeSku d)"
    by (simp add: Name_simps populated_fields)
  have q: "\<forall>s \<in> set ?cs. CostComponent.Name s = serverlessComputeName (nodeSku d) \<longrightarrow>
      MonthlyQuantity s = usage_int u ''monthly_vcore_hours''"
    by (simp add: Name_simps compute_names_distinct Quantity_serverless populated_fields)
  show "\<exists>cs sch. builtComponents (NewAzureRMMSSQLDatabase env d u) = Some cs
         \<and> builtSchema (NewAzureRMMSSQLDatabase env d u) = Some sch
         \<and> (\<exists>i \<in> set sch. UsageItem.Key i = ''monthly_vcore_hours'' \<and> DefaultValue i = 0)
         \<and> resolveUsage Map.empty sch (ResourceData.Address d) ''monthly_vcore_hours'' = Some 0
         \<and> (\<exists>s \<in> set cs. CostComponent.Name s = serverlessComputeName (nodeSku d))
         \<and> (\<forall>s \<in> set cs. CostComponent.Name s = serverlessComputeName (nodeSku d) \<longrightarrow>
               MonthlyQuantity s = usage_int u ''monthly_vcore_hours'')"
    using b s i resolve_default_mssql e q
    by (intro exI [of _ ?cs] exI [of _ mssqlUsageSchema] conjI)
qed

theorem C5_witness:
  "\<not> dtuPurchase example_pkg (nodeSku (example_node (Some ''GP_S_Gen5_4'')))
   \<and> parseMSSQLSku (ResourceData.Address (example_node (Some ''GP_S_Gen5_4'')))
        (nodeSku (example_node (Some ''GP_S_Gen5_4'')))
       = Inr \<lparr> tier = ''General Purpose - Serverless'', family = ''Compute Gen5'', cores = 4 \<rparr>
   \<and> ToLower example_pkg ''General Purpose - Serverless'' = sqlServerlessTier
   \<and> (\<exists>cs. builtComponents (NewAzureRMMSSQLDatabase example_pkg
                (example_node (Some ''GP_S_Gen5_4'')) None) = Some cs
         \<and> (\<exists>s \<in> set cs. CostComponent.Name s = ''Compute (serverless, GP_S_Gen5_4)''
               \<and> MonthlyQuantity s = None))
   \<and> (\<exists>cs. builtComponents (NewAzureRMMSSQLDatabase example_pkg
                (example_node (Some ''GP_S_Gen5_4'')) (Some [''monthly_vcore_hours'' \<mapsto> 50])) = Some cs
         \<and> (\<exists>s \<in> set cs. CostComponent.Name s = ''Compute (serverless, GP_S_Gen5_4)''
               \<and> MonthlyQuantity s = Some 50))
   \<and> resolveUsage [''azurerm_mssql_database.db'' \<mapsto> [''monthly_vcore_hours'' \<mapsto> 50]]
        mssqlUsageSchema ''azurerm_mssql_database.db'' ''monthly_vcore_hours'' = Some (50::int)"
proof -
  let ?d = "example_node (Some ''GP_S_Gen5_4'')"
  let ?c = "\<lparr> tier = ''General Purpose - Serverless'', family = ''Compute Gen5'', cores = 4 \<rparr>"
  let ?u = "Some [''monthly_vcore_hours'' \<mapsto> (50::int)]"
  let ?spec = "[''azurerm_mssql_database.db'' \<mapsto> [''monthly_vcore_hours'' \<mapsto> (50::int)]]"
  have d: "\<not> dtuPurchase example_pkg (nodeSku ?d)"
    "parseMSSQLSku (ResourceData.Address ?d) (nodeSku ?d) = Inr ?c"
    by (simp_all add: nodeSku_def example_node_def not_dtuPurchase_examples parse_GP_S_Gen5_4)
  have t: "ToLower example_pkg ''General Purpose - Serverless'' = sqlServerlessTier"
    by (rule ToLower_examples)
  have t': "ToLower example_pkg (tier ?c) = sqlServerlessTier"
    by (simp add: ToLower_examples)
  have n: "serverlessComputeName (nodeSku ?d) = ''Compute (serverless, GP_S_Gen5_4)''"
    by (simp add: nodeSku_def example_node_def serverlessComputeName_def)
  have u0: "usage_int None ''monthly_vcore_hours'' = None"
    by (simp add: usage_int_def)
  have u1: "usage_int ?u ''monthly_vcore_hours'' = Some 50"
    by (simp add: usage_int_def)
  have built: "\<exists>cs. builtComponents (NewAzureRMMSSQLDatabase example_pkg ?d u) = Some cs
         \<and> (\<exists>s \<in> set cs. CostComponent.Name s = ''Compute (serverless, GP_S_Gen5_4)''
               \<and> MonthlyQuantity s = usage_int u ''monthly_vcore_hours'')" for u
  proof -
    from C5_usage_keys_resolved
      [where env = example_pkg and d = ?d and c = ?c and u = u and schema = "[]",
        THEN conjunct2, THEN mp, OF conjI [OF d(1) conjI [OF d(2) t']]]
    obtain cs where cs: "builtComponents (NewAzureRMMSSQLDatabase example_pkg ?d u) = Some cs"
      "\<exists>s \<in> set cs. CostComponent.Name s = serverlessComputeName (nodeSku ?d)"
      "\<forall>s \<in> set cs. CostComponent.Name s = serverlessComputeName (nodeSku ?d) \<longrightarrow>
         MonthlyQuantity s = usage_int u ''monthly_vcore_hours''"
      by (elim exE conjE) (rule that)
    from cs(2) obtain s where s: "s \<in> set cs"
      "CostComponent.Name s = serverlessComputeName (nodeSku ?d)"
      by (elim bexE) (rule that)
    have "MonthlyQuantity s = usage_int u ''monthly_vcore_hours''"
      by (rule cs(3) [THEN bspec, OF s(1), THEN mp, OF s(2)])
    with s n have "\<exists>s \<in> set cs. CostComponent.Name s = ''Compute (serverless, GP_S_Gen5_4)''
               \<and> MonthlyQuantity s = usage_int u ''monthly_vcore_hours''"
      by (intro bexI [of _ s]) simp_all
    with cs(1) show ?thesis by (intro exI [of _ cs] conjI)
  qed
  have a: "\<exists>cs. builtComponents (NewAzureRMMSSQLDatabase example_pkg ?d None) = Some cs
         \<and> (\<exists>s \<in> set cs. CostComponent.Name s = ''Compute (serverless, GP_S_Gen5_4)''
               \<and> MonthlyQuantity s = None)"
    using built [of None] unfolding u0 .
  have b: "\<exists>cs. builtComponents (NewAzureRMMSSQLDatabase example_pkg ?d ?u) = Some cs
         \<and> (\<exists>s \<in> set cs. CostComponent.Name s = ''Compute (serverless, GP_S_Gen5_4)''
               \<and> MonthlyQuantity s = Some 50)"
    using built [of ?u] unfolding u1 .
  have m: "\<lparr> UsageItem.Key = ''monthly_vcore_hours'', DefaultValue = 0::int, ValueType = Int64 \<rparr>
      \<in> set mssqlUsageSchema"
    by (simp add: mssqlUsageSchema_def)
  have r: "resolveUsage ?spec mssqlUsageSchema ''azurerm_mssql_database.db'' ''monthly_vcore_hours''
      = Some 50"
    using C5_usage_keys_resolved [where schema = mssqlUsageSchema and spec = ?spec
        and address = "''azurerm_mssql_database.db''", THEN conjunct1, rule_format, OF m]
    by (auto simp: specValue_def wildcardAddress_def mssqlUsageSchema_def resolveUsage_def)
  show ?thesis using d t a b r by (intro conjI)
qed

section \<open>Regenerating the usage file\<close>

lemma mergeNode_fields:
  "nodeKey (mergeNode p t) = nodeKey p"
  "nodeValue (mergeNode p t) = nodeValue p"
  "commentedOut (mergeNode p t) = commentedOut p"
  "nodeComment p = Some c \<Longrightarrow> nodeComment (mergeNode p t) = Some c"
  by (cases p; cases t; simp)+

lemma mergeNode_children:
  "nodeChildren (mergeNode p None) = nodeChildren p"
  "nodeChildren (mergeNode p (Some t)) = regenerateUsageFile (nodeChildren p) (nodeChildren t)"
  by (cases p; simp add: regenerateUsageFile_def)+

lemma findNode_map:
  "findNode (map (\<lambda>p. mergeNode p (f p)) ps) k = map_option (\<lambda>p. mergeNode p (f p)) (findNode ps k)"
  by (induction ps) (auto simp: findNode_def mergeNode_fields)

lemma findNode_append:
  "findNode (xs @ ys) k = (case findNode xs k of None \<Rightarrow> findNode ys k | Some n \<Rightarrow> Some n)"
  by (induction xs) (auto simp: findNode_def)

lemma findNode_None: "(findNode ns k = None) = (k \<notin> nodeKey ` set ns)"
  by (induction ns) (auto simp: findNode_def)

lemma findNode_key: "findNode ns k = Some n \<Longrightarrow> nodeKey n = k"
  by (induction ns) (auto simp: findNode_def split: if_splits)

lemma findNode_filter:
  "P k \<Longrightarrow> findNode (filter (\<lambda>n. P (nodeKey n)) ns) k = findNode ns k"
  by (induction ns) (auto simp: findNode_def)

lemma findNode_regenerate:
  "findNode (regenerateUsageFile prior template) k =
     (case findNode prior k of
        Some p \<Rightarrow> Some (mergeNode p (findNode template k))
      | None \<Rightarrow> findNode template k)"
proof (cases "findNode prior k")
  case None
  then have "k \<notin> nodeKey ` set prior" by (simp add: findNode_None)
  then have "findNode (filter (\<lambda>n. nodeKey n \<notin> nodeKey ` set prior) template) k = findNode template k"
    by (rule findNode_filter [where P = "\<lambda>k. k \<notin> nodeKey ` set prior"])
  then show ?thesis
    using None by (simp add: regenerateUsageFile_def findNode_append findNode_map)
next
  case (Some p)
  then show ?thesis
    using findNode_key [OF Some]
    by (simp add: regenerateUsageFile_def findNode_append findNode_map)
qed

lemma prior_node_kept:
  "nodeAt prior path = Some n \<Longrightarrow>
   \<exists>n'. nodeAt (regenerateUsageFile prior template) path = Some n'
     \<and> nodeKey n' = nodeKey n \<and> nodeValue n' = nodeValue n \<and> commentedOut n' = commentedOut n
     \<and> (\<forall>c. nodeComment n = Some c \<longrightarrow> nodeComment n' = Some c)"
proof (induction prior path arbitrary: template rule: nodeAt.induct)
  case (1 ns)
  then show ?case by simp
next
  case (2 ns k)
  then show ?case by (simp add: findNode_regenerate mergeNode_fields)
next
  case (3 ns k k' ks)
  from "3.prems" obtain p where p: "findNode ns k = Some p"
    and below: "nodeAt (nodeChildren p) (k' # ks) = Some n"
    by (auto split: option.splits)
  show ?case
  proof (cases "findNode template k")
    case None
    then show ?thesis using p below
      by (simp add: findNode_regenerate mergeNode_children)
  next
    case (Some t)
    then show ?thesis
      using p "3.IH" [OF p below, of "nodeChildren t"]
      by (simp add: findNode_regenerate mergeNode_children)
  qed
qed

lemma template_node_present:
  "nodeAt template path = Some t \<Longrightarrow> nodeAt (regenerateUsageFile prior template) path \<noteq> None"
proof (induction template path arbitrary: prior rule: nodeAt.induct)
  case (1 ns)
  then show ?case by simp
next
  case (2 ns k)
  then show ?case by (simp add: findNode_regenerate split: option.splits)
next
  case (3 ns k k' ks)
  from "3.prems" obtain t0 where t0: "findNode ns k = Some t0"
    and below: "nodeAt (nodeChildren t0) (k' # ks) = Some t"
    by (auto split: option.splits)
  show ?case
  proof (cases "findNode prior k")
    case None
    then show ?thesis using t0 below by (simp add: findNode_regenerate)
  next
    case (Some p)
    then show ?thesis
      using t0 "3.IH" [OF t0 below, of "nodeChildren p"]
      by (simp add: findNode_regenerate mergeNode_children)
  qed
qed

text \<open>
  Claim C7, on the usage-file sync modelled from the spec. Regenerating the usage-file
  template from a prior usage file preserves every comment of the prior file: the entry at
  every path of the prior file is there in the regenerated file, under the same key, with
  the comment it had. The entries of the template are all there in the regenerated file.
\<close>

theorem C7_comments_preserved:
  "(nodeAt prior path = Some n \<longrightarrow>
      (\<exists>n'. nodeAt (regenerateUsageFile prior template) path = Some n'
         \<and> nodeKey n' = nodeKey n
         \<and> (\<forall>c. nodeComment n = Some c \<longrightarrow> nodeComment n' = Some c)))
   \<and> (nodeAt template path' = Some t \<longrightarrow>
        nodeAt (regenerateUsageFile prior template) path' \<noteq> None)"
proof (intro conjI impI)
  assume "nodeAt prior path = Some n"
  then show "\<exists>n'. nodeAt (regenerateUsageFile prior template) path = Some n'
         \<and> nodeKey n' = nodeKey n
         \<and> (\<forall>c. nodeComment n = Some c \<longrightarrow> nodeComment n' = Some c)"
    using prior_node_kept [of prior path n template] by blast
next
  assume "nodeAt template path' = Some t"
  then show "nodeAt (regenerateUsageFile prior template) path' \<noteq> None"
    by (rule template_node_present)
qed

theorem C7_witness:
  "nodeAt
     [UsageNode ''aws_s3_bucket.with_usage'' None None False
        [UsageNode ''object_tags'' (Some ''10000000'')
           (Some ''This comment shouldn't be overwritten'') False []]]
     [''aws_s3_bucket.with_usage'', ''object_tags'']
     = Some (UsageNode ''object_tags'' (Some ''10000000'')
               (Some ''This comment shouldn't be overwritten'') False [])
   \<and> (\<exists>n'. nodeAt
         (regenerateUsageFile
            [UsageNode ''aws_s3_bucket.with_usage'' None None False
               [UsageNode ''object_tags'' (Some ''10000000'')
                  (Some ''This comment shouldn't be overwritten'') False []]]
            [UsageNode ''aws_s3_bucket.with_usage'' None None True
               [UsageNode ''object_tags'' (Some ''0'') (Some ''Total object tags.'') True [],
                UsageNode ''standard'' None None True
                  [UsageNode ''storage_gb'' (Some ''0.0'') (Some ''Total storage in GB.'') True []]]])
         [''aws_s3_bucket.with_usage'', ''object_tags''] = Some n'
       \<and> nodeComment n' = Some ''This comment shouldn't be overwritten'')
   \<and> nodeAt (usageTemplate [(''azurerm_mssql_database.db'', mssqlUsageSchema)])
         [''azurerm_mssql_database.db'', ''monthly_vcore_hours'']
       = Some (UsageNode ''monthly_vcore_hours'' (Some (Sprintf_d 0)) None True [])
   \<and> nodeAt
         (regenerateUsageFile
            [UsageNode ''aws_s3_bucket.with_usage'' None None False
               [UsageNode ''object_tags'' (Some ''10000000'')
                  (Some ''This comment shouldn't be overwritten'') False []]]
            (usageTemplate [(''azurerm_mssql_database.db'', mssqlUsageSchema)]))
         [''azurerm_mssql_database.db'', ''monthly_vcore_hours''] \<noteq> None"
proof -
  let ?n = "UsageNode ''object_tags'' (Some ''10000000'')
              (Some ''This comment shouldn't be overwritten'') False []"
  let ?prior = "[UsageNode ''aws_s3_bucket.with_usage'' None None False [?n]]"
  let ?template = "[UsageNode ''aws_s3_bucket.with_usage'' None None True
        [UsageNode ''object_tags'' (Some ''0'') (Some ''Total object tags.'') True [],
         UsageNode ''standard'' None None True
           [UsageNode ''storage_gb'' (Some ''0.0'') (Some ''Total storage in GB.'') True []]]]"
  let ?t = "UsageNode ''monthly_vcore_hours'' (Some (Sprintf_d 0)) None True []"
  let ?mssql = "usageTemplate [(''azurerm_mssql_database.db'', mssqlUsageSchema)]"
  have p: "nodeAt ?prior [''aws_s3_bucket.with_usage'', ''object_tags''] = Some ?n"
    by (simp add: findNode_def)
  have t: "nodeAt ?mssql [''azurerm_mssql_database.db'', ''monthly_vcore_hours''] = Some ?t"
    by (simp add: findNode_def usageTemplate_def mssqlUsageSchema_def)
  have a: "\<exists>n'. nodeAt (regenerateUsageFile ?prior ?template)
         [''aws_s3_bucket.with_usage'', ''object_tags''] = Some n'
       \<and> nodeComment n' = Some ''This comment shouldn't be overwritten''"
    using C7_comments_preserved [where prior = ?prior and template = ?template
      and path = "[''aws_s3_bucket.with_usage'', ''object_tags'']" and n = ?n, THEN conjunct1] p
    by auto
  have b: "nodeAt (regenerateUsageFile ?prior ?mssql)
         [''azurerm_mssql_database.db'', ''monthly_vcore_hours''] \<noteq> None"
    using C7_comments_preserved [where prior = ?prior and template = ?mssql
      and path' = "[''azurerm_mssql_database.db'', ''monthly_vcore_hours'']" and t = ?t,
      THEN conjunct2] t
    by blast
  show ?thesis using p t a b by (intro conjI)
qed

end
